theory Spec2Isabelle
  imports Main "HOL-Library.Sublist" "HOL-Library.Char_ord" "HOL-Library.List_Lexorder"
    "HOL-Library.AList"
begin

section \<open>Strings as Python sees them\<close>

text \<open>
  Python strings are modelled as \<^typ>\<open>string\<close>, a list of characters; a character is one
  of the code points U+0000 to U+00FF. The helpers below are \<^verbatim>\<open>str.strip\<close>, \<^verbatim>\<open>str.lower\<close>,
  \<^verbatim>\<open>str.join\<close>, \<^verbatim>\<open>str.startswith\<close>, \<^verbatim>\<open>in\<close> on strings and slicing \<^verbatim>\<open>s[:n]\<close> on such
  strings. The characters that \<^verbatim>\<open>str.strip\<close> removes are those of \<^verbatim>\<open>str.isspace\<close>: the
  space, the controls U+0009 to U+000D and U+001C to U+001F, the next-line control U+0085
  and the no-break space U+00A0. \<^verbatim>\<open>str.lower\<close> maps the letters A to Z and the capital
  letters U+00C0 to U+00DE, without the multiplication sign U+00D7, to the character 32
  places further on.
\<close>

definition py_isspace :: "char \<Rightarrow> bool" where
  "py_isspace c \<longleftrightarrow>
     c \<in> {CHR 0x20, CHR 0x09, CHR 0x0A, CHR 0x0B, CHR 0x0C, CHR 0x0D,
          CHR 0x1C, CHR 0x1D, CHR 0x1E, CHR 0x1F, CHR 0x85, CHR 0xA0}"

definition py_lstrip :: "string \<Rightarrow> string" where
  "py_lstrip s = dropWhile py_isspace s"

definition py_rstrip :: "string \<Rightarrow> string" where
  "py_rstrip s = rev (dropWhile py_isspace (rev s))"

definition py_strip :: "string \<Rightarrow> string" where
  "py_strip s = py_rstrip (py_lstrip s)"

definition py_lower_char :: "char \<Rightarrow> char" where
  "py_lower_char c =
     (if CHR ''A'' \<le> c \<and> c \<le> CHR ''Z''
         \<or> CHR 0xC0 \<le> c \<and> c \<le> CHR 0xDE \<and> c \<noteq> CHR 0xD7
      then char_of (of_char c + (32::nat)) else c)"

definition py_lower :: "string \<Rightarrow> string" where
  "py_lower s = map py_lower_char s"

fun py_join :: "string \<Rightarrow> string list \<Rightarrow> string" where
  "py_join sep [] = []"
| "py_join sep [x] = x"
| "py_join sep (x # y # ys) = x @ sep @ py_join sep (y # ys)"

definition py_startswith :: "string \<Rightarrow> string \<Rightarrow> bool" where
  "py_startswith s p \<longleftrightarrow> take (length p) s = p"

definition py_endswith :: "string \<Rightarrow> string \<Rightarrow> bool" where
  "py_endswith s p \<longleftrightarrow> length p \<le> length s \<and> drop (length s - length p) s = p"

fun py_contains :: "string \<Rightarrow> string \<Rightarrow> bool" where
  "py_contains p [] \<longleftrightarrow> p = []"
| "py_contains p (c # cs) \<longleftrightarrow> take (length p) (c # cs) = p \<or> py_contains p cs"

function str_of_nat :: "nat \<Rightarrow> string" where
  "str_of_nat n =
     (if n < 10 then [char_of (48 + n)]
      else str_of_nat (n div 10) @ [char_of (48 + n mod 10)])"
  by pat_completeness auto
termination
  by (relation "measure id") auto

definition str_of_int :: "int \<Rightarrow> string" where
  "str_of_int i = (if i < 0 then CHR ''-'' # str_of_nat (nat (- i)) else str_of_nat (nat i))"

section \<open>JSON values\<close>

text \<open>
  The values \<^verbatim>\<open>json.loads\<close> produces. A dict keeps its insertion order, so it is an
  association list; \<^verbatim>\<open>d.get(k)\<close> is \<open>dict_get\<close>, with \<open>JNull\<close> for Python's \<^verbatim>\<open>None\<close>.
  A float is carried as its printed form (\<^verbatim>\<open>repr\<close>): the program never computes with the
  floats of a payload, it only tests their type and truth value and prints them.
\<close>

datatype json =
    JNull
  | JBool bool
  | JInt int
  | JFloat string
  | JStr string
  | JArr "json list"
  | JObj "(string \<times> json) list"

type_synonym py_dict = "(string \<times> json) list"

definition dict_get :: "py_dict \<Rightarrow> string \<Rightarrow> json" where
  "dict_get d k = (case map_of d k of None \<Rightarrow> JNull | Some v \<Rightarrow> v)"

definition dict_keys :: "py_dict \<Rightarrow> string set" where
  "dict_keys d = set (map fst d)"

fun py_truthy :: "json \<Rightarrow> bool" where
  "py_truthy JNull \<longleftrightarrow> False"
| "py_truthy (JBool b) \<longleftrightarrow> b"
| "py_truthy (JInt i) \<longleftrightarrow> i \<noteq> 0"
| "py_truthy (JFloat r) \<longleftrightarrow> r \<noteq> ''0.0'' \<and> r \<noteq> ''-0.0''"
| "py_truthy (JStr s) \<longleftrightarrow> s \<noteq> []"
| "py_truthy (JArr xs) \<longleftrightarrow> xs \<noteq> []"
| "py_truthy (JObj kvs) \<longleftrightarrow> kvs \<noteq> []"

text \<open>
  \<^verbatim>\<open>str(v)\<close>: a string is itself, every other value prints as its \<^verbatim>\<open>repr\<close>. The quoting of
  strings nested in a list or dict is the plain single-quoted form, without escapes.
\<close>

fun py_repr :: "json \<Rightarrow> string" where
  "py_repr JNull = ''None''"
| "py_repr (JBool b) = (if b then ''True'' else ''False'')"
| "py_repr (JInt i) = str_of_int i"
| "py_repr (JFloat r) = r"
| "py_repr (JStr s) = [CHR 0x27] @ s @ [CHR 0x27]"
| "py_repr (JArr xs) = ''['' @ py_join '', '' (map py_repr xs) @ '']''"
| "py_repr (JObj kvs) =
     ''{'' @ py_join '', '' (map (\<lambda>(k, v). [CHR 0x27] @ k @ [CHR 0x27] @ '': '' @ py_repr v) kvs)
       @ ''}''"

definition py_str :: "json \<Rightarrow> string" where
  "py_str v = (case v of JStr s \<Rightarrow> s | _ \<Rightarrow> py_repr v)"

text \<open>\<^verbatim>\<open>_deep_find\<close>: every value stored under one of the keys, in pre-order.\<close>

fun deep_find :: "json \<Rightarrow> string set \<Rightarrow> json list" where
  "deep_find (JObj kvs) keys =
     concat (map (\<lambda>(k, v). (if k \<in> keys then [v] else []) @ deep_find v keys) kvs)"
| "deep_find (JArr xs) keys = concat (map (\<lambda>item. deep_find item keys) xs)"
| "deep_find _ keys = []"

text \<open>\<^verbatim>\<open>_first_string\<close>: the first value that is a non-blank string, stripped.\<close>

fun first_string :: "json list \<Rightarrow> string option" where
  "first_string [] = None"
| "first_string (JStr s # vs) = (if py_strip s \<noteq> [] then Some (py_strip s) else first_string vs)"
| "first_string (_ # vs) = first_string vs"

section \<open>Errors\<close>

text \<open>
  The exceptions the program raises. The messages of \<^verbatim>\<open>PipelineError\<close> are Chinese sentences
  with values interpolated; each is a constructor that carries the interpolated values.
\<close>

datatype pipeline_failure =
    ParentJobMissing string
  | SourceVideoMissing string
  | ToolsUnavailable
  | EmptyTranscript
  | ReuseMissingArtifact string string
  | ReuseFileNotExist string string
  | ReuseFailed string
  | ReuseTextEmpty string
  | ReuseScriptParseFailed
  | ReuseTaskIdMissing string string

datatype error =
    PyValueError string
  | PyAttributeError
  | PyOSError string
  | JSONDecodeError
  | ScriptSchemaError string
  | VolcAPIError string
  | PipelineError pipeline_failure
  | MediaError string
  | StoreError string

section \<open>Stages\<close>

datatype JobStatus =
    QUEUED | PREPROCESSING | ASR | TRANSCRIPT_POLISH | SCRIPT_GEN | VIDEO_SUBMIT
  | VIDEO_POLLING | POSTPROCESS | COMPLETED | FAILED | CANCELED

fun status_value :: "JobStatus \<Rightarrow> string" where
  "status_value QUEUED = ''queued''"
| "status_value PREPROCESSING = ''preprocessing''"
| "status_value ASR = ''asr''"
| "status_value TRANSCRIPT_POLISH = ''transcript_polish''"
| "status_value SCRIPT_GEN = ''script_gen''"
| "status_value VIDEO_SUBMIT = ''video_submit''"
| "status_value VIDEO_POLLING = ''video_polling''"
| "status_value POSTPROCESS = ''postprocess''"
| "status_value COMPLETED = ''completed''"
| "status_value FAILED = ''failed''"
| "status_value CANCELED = ''canceled''"

definition STAGE_SEQUENCE :: "JobStatus list" where
  "STAGE_SEQUENCE =
     [PREPROCESSING, ASR, TRANSCRIPT_POLISH, SCRIPT_GEN, VIDEO_SUBMIT, VIDEO_POLLING, POSTPROCESS]"

text \<open>
  \<^verbatim>\<open>_normalize_start_stage\<close>: \<^verbatim>\<open>str(value or "preprocessing").strip().lower()\<close>, then the
  first stage of the sequence whose value is that text, and \<^verbatim>\<open>PREPROCESSING\<close> when the loop
  finds none.
\<close>

definition normalize_start_stage :: "json \<Rightarrow> JobStatus" where
  "normalize_start_stage v =
     (let raw = py_lower (py_strip (py_str (if py_truthy v then v
                                            else JStr (status_value PREPROCESSING))))
      in case find (\<lambda>status. status_value status = raw) STAGE_SEQUENCE of
           Some status \<Rightarrow> status
         | None \<Rightarrow> PREPROCESSING)"

text \<open>\<^verbatim>\<open>list.index\<close>, which raises \<^verbatim>\<open>ValueError\<close> on an element that is not in the list.\<close>

fun list_index :: "'a list \<Rightarrow> 'a \<Rightarrow> nat option" where
  "list_index [] x = None"
| "list_index (y # ys) x = (if y = x then Some 0 else map_option Suc (list_index ys x))"

definition should_run_stage :: "JobStatus \<Rightarrow> JobStatus \<Rightarrow> error + bool" where
  "should_run_stage start_stage stage =
     (case list_index STAGE_SEQUENCE stage of
        None \<Rightarrow> Inl (PyValueError ''not in list'')
      | Some i \<Rightarrow>
          (case list_index STAGE_SEQUENCE start_stage of
             None \<Rightarrow> Inl (PyValueError ''not in list'')
           | Some j \<Rightarrow> Inr (i \<ge> j)))"

section \<open>Script schema\<close>

definition REQUIRED_FIELDS :: "string set" where
  "REQUIRED_FIELDS =
     {''hook_title'', ''visual_prompt'', ''shot_list'', ''narration'', ''style_tags'',
      ''safety_notes''}"

fun is_list :: "json \<Rightarrow> bool" where
  "is_list (JArr xs) \<longleftrightarrow> True"
| "is_list _ \<longleftrightarrow> False"

text \<open>\<^verbatim>\<open>isinstance(value, str) and value.strip()\<close>\<close>

fun nonblank_str :: "json \<Rightarrow> bool" where
  "nonblank_str (JStr s) \<longleftrightarrow> py_strip s \<noteq> []"
| "nonblank_str _ \<longleftrightarrow> False"

definition SCALAR_FIELDS :: "string list" where
  "SCALAR_FIELDS = [''hook_title'', ''visual_prompt'', ''narration'', ''safety_notes'']"

definition missing_fields :: "py_dict \<Rightarrow> string list" where
  "missing_fields payload = sorted_list_of_set (REQUIRED_FIELDS - dict_keys payload)"

definition validate_script_payload :: "py_dict \<Rightarrow> error + py_dict" where
  "validate_script_payload payload =
     (let missing = missing_fields payload in
      if missing \<noteq> [] then
        Inl (ScriptSchemaError (''missing fields: '' @ py_join '', '' missing))
      else if \<not> is_list (dict_get payload ''shot_list'') then
        Inl (ScriptSchemaError ''shot_list must be an array'')
      else if \<not> is_list (dict_get payload ''style_tags'') then
        Inl (ScriptSchemaError ''style_tags must be an array'')
      else
        (case find (\<lambda>key. \<not> nonblank_str (dict_get payload key)) SCALAR_FIELDS of
           Some key \<Rightarrow> Inl (ScriptSchemaError (key @ '' must be non-empty string''))
         | None \<Rightarrow> Inr payload))"

section \<open>Transcript extraction\<close>

definition NEWLINE :: string where
  "NEWLINE = [CHR 0x0A]"

text \<open>The stripped \<^verbatim>\<open>text\<close> of a row that is a dict with a non-blank string there.\<close>

fun row_text :: "json \<Rightarrow> string option" where
  "row_text (JObj row) =
     (case dict_get row ''text'' of
        JStr t \<Rightarrow> (if py_strip t \<noteq> [] then Some (py_strip t) else None)
      | _ \<Rightarrow> None)"
| "row_text _ = None"

fun block_parts :: "json \<Rightarrow> string list" where
  "block_parts (JArr rows) = List.map_filter row_text rows"
| "block_parts _ = []"

text \<open>The loop over the blocks: the first block with parts decides.\<close>

fun first_block_text :: "json list \<Rightarrow> string option" where
  "first_block_text [] = None"
| "first_block_text (block # blocks) =
     (if block_parts block \<noteq> [] then Some (py_join NEWLINE (block_parts block))
      else first_block_text blocks)"

definition result_text :: "py_dict \<Rightarrow> string option" where
  "result_text payload =
     (case dict_get payload ''result'' of
        JObj result \<Rightarrow>
          (case dict_get result ''text'' of
             JStr direct \<Rightarrow> (if py_strip direct \<noteq> [] then Some (py_strip direct) else None)
           | _ \<Rightarrow> None)
      | _ \<Rightarrow> None)"

definition BLOCK_KEYS :: "string set" where
  "BLOCK_KEYS = {''utterances'', ''sentences''}"

definition parse_asr_text :: "py_dict \<Rightarrow> string" where
  "parse_asr_text payload =
     (case result_text payload of
        Some direct \<Rightarrow> direct
      | None \<Rightarrow>
          (case first_block_text (deep_find (JObj payload) BLOCK_KEYS) of
             Some joined \<Rightarrow> joined
           | None \<Rightarrow>
               (case first_string (deep_find (JObj payload) {''text''}) of
                  Some direct \<Rightarrow> direct
                | None \<Rightarrow> [])))"

text \<open>
  The reading of the specification's sentence: after \<^verbatim>\<open>result.text\<close>, the texts of the
  first block that the search finds, and the search for \<^verbatim>\<open>text\<close> when that gives nothing.
\<close>

definition parse_asr_text_first_block_found :: "py_dict \<Rightarrow> string" where
  "parse_asr_text_first_block_found payload =
     (case result_text payload of
        Some direct \<Rightarrow> direct
      | None \<Rightarrow>
          (case first_block_text (take 1 (deep_find (JObj payload) BLOCK_KEYS)) of
             Some joined \<Rightarrow> joined
           | None \<Rightarrow>
               (case first_string (deep_find (JObj payload) {''text''}) of
                  Some direct \<Rightarrow> direct
                | None \<Rightarrow> [])))"

section \<open>Example payloads\<close>

definition script_with_extra_key :: py_dict where
  "script_with_extra_key =
     [(''hook_title'', JStr ''t''), (''visual_prompt'', JStr ''v''),
      (''shot_list'', JArr [JStr ''s1'']), (''narration'', JStr ''n''),
      (''style_tags'', JArr []), (''safety_notes'', JStr ''ok''), (''extra'', JInt 1)]"

definition script_two_fields :: py_dict where
  "script_two_fields = [(''hook_title'', JStr ''x''), (''visual_prompt'', JStr ''y'')]"

definition payload_empty_first_block :: py_dict where
  "payload_empty_first_block =
     [(''utterances'', JArr []),
      (''sentences'', JArr [JObj [(''text'', JStr ''a'')], JObj [(''text'', JStr ''b'')]])]"

definition payload_direct :: py_dict where
  "payload_direct = [(''result'', JObj [(''text'', JStr '' hi '')])]"

definition payload_nested_text :: py_dict where
  "payload_nested_text = [(''data'', JObj [(''text'', JStr '' x '')])]"

definition payload_no_text :: py_dict where
  "payload_no_text = [(''code'', JInt 1)]"

section \<open>Extracting a JSON object from model output\<close>

text \<open>
  \<^verbatim>\<open>json.loads\<close> belongs to the Python library; it is the parameter \<open>loads\<close>, with \<open>None\<close>
  for \<^verbatim>\<open>JSONDecodeError\<close> (a subclass of \<^verbatim>\<open>ValueError\<close>).
\<close>

definition FENCE :: string where
  "FENCE = [CHR 0x60, CHR 0x60, CHR 0x60]"

text \<open>\<^verbatim>\<open>re.sub(r"^```(?:json)?", "", text)\<close>\<close>

definition strip_leading_fence :: "string \<Rightarrow> string" where
  "strip_leading_fence t =
     (if py_startswith t FENCE then
        (let r = drop 3 t in if py_startswith r ''json'' then drop 4 r else r)
      else t)"

text \<open>\<^verbatim>\<open>re.sub(r"```$", "", text)\<close>, on a text without trailing newline.\<close>

definition strip_trailing_fence :: "string \<Rightarrow> string" where
  "strip_trailing_fence t = (if py_endswith t FENCE then take (length t - 3) t else t)"

definition strip_fences :: "string \<Rightarrow> string" where
  "strip_fences t =
     (if py_startswith t FENCE then
        py_strip (strip_trailing_fence (py_strip (strip_leading_fence t)))
      else t)"

text \<open>
  \<^verbatim>\<open>re.search(r"\{.*\}", text, flags=re.DOTALL)\<close>: the leftmost match starts at the first
  opening brace and, the star being greedy, ends at the last closing brace after it.
\<close>

definition brace_span :: "string \<Rightarrow> string option" where
  "brace_span t =
     (let rest = dropWhile (\<lambda>c. c \<noteq> CHR ''{'') t in
      if rest = [] then None
      else if CHR ''}'' \<in> set (tl rest) then
        Some (rev (dropWhile (\<lambda>c. c \<noteq> CHR ''}'') (rev rest)))
      else None)"

definition extract_first_json_object :: "(string \<Rightarrow> json option) \<Rightarrow> string \<Rightarrow> error + py_dict" where
  "extract_first_json_object loads text0 =
     (if py_strip text0 = [] then Inl (PyValueError ''empty llm output'')
      else
        (let cleaned = strip_fences (py_strip text0) in
         case loads cleaned of
           Some (JObj parsed) \<Rightarrow> Inr parsed
         | _ \<Rightarrow>
             (case brace_span cleaned of
                None \<Rightarrow> Inl (PyValueError ''no json object found in llm output'')
              | Some span \<Rightarrow>
                  (case loads span of
                     None \<Rightarrow> Inl JSONDecodeError
                   | Some (JObj parsed) \<Rightarrow> Inr parsed
                   | Some _ \<Rightarrow> Inl (PyValueError ''llm output json must be object'')))))"

text \<open>A parser that knows one text, the empty object; it stands in for \<^verbatim>\<open>json.loads\<close> in examples.\<close>

definition loads_empty_object :: "string \<Rightarrow> json option" where
  "loads_empty_object s = (if s = ''{}'' then Some (JObj []) else None)"

text \<open>
  A parser that knows two texts, as \<^verbatim>\<open>json.loads\<close> reads them: a list that holds the empty
  object, and the empty object.
\<close>

definition loads_object_in_list :: "string \<Rightarrow> json option" where
  "loads_object_in_list s =
     (if s = ''[{}]'' then Some (JArr [JObj []])
      else if s = ''{}'' then Some (JObj [])
      else None)"

section \<open>HTTP responses\<close>

text \<open>
  What the program reads of an \<^verbatim>\<open>httpx.Response\<close>: the status code, the body text, the result
  of \<^verbatim>\<open>resp.json()\<close> (\<open>None\<close> when it raises) and the headers. A request is a function of the
  environment that gives the response, or the exception of the transport.
\<close>

record http_response =
  resp_status_code :: int
  resp_text :: string
  resp_json :: "json option"
  resp_headers :: "(string \<times> string) list"

section \<open>Video generation client\<close>

record VideoConfig =
  video_base_url :: string
  video_api_key :: string
  video_model :: string
  video_timeout_s :: int
  video_poll_interval_s :: int
  video_system_prompt :: string

definition submit_payload_candidates ::
  "VideoConfig \<Rightarrow> string \<Rightarrow> int \<Rightarrow> int \<Rightarrow> int \<Rightarrow> json list" where
  "submit_payload_candidates cfg prompt duration_s width height =
     (let duration = max 1 duration_s;
          safe_width = max 1 width;
          safe_height = max 1 height;
          content = JArr [JObj [(''type'', JStr ''text''), (''text'', JStr prompt)]];
          size = str_of_int safe_width @ ''x'' @ str_of_int safe_height
      in [JObj [(''model'', JStr (video_model cfg)), (''content'', content),
                (''duration'', JInt duration), (''width'', JInt safe_width),
                (''height'', JInt safe_height)],
          JObj [(''model'', JStr (video_model cfg)), (''content'', content),
                (''duration'', JInt duration), (''size'', JStr size)],
          JObj [(''model'', JStr (video_model cfg)), (''content'', content),
                (''duration'', JInt duration)],
          JObj [(''model'', JStr (video_model cfg)), (''content'', content)],
          JObj [(''model'', JStr (video_model cfg)), (''prompt'', JStr prompt),
                (''duration'', JInt duration), (''resolution'', JStr size)]])"

definition TASK_ID_KEYS :: "string set" where
  "TASK_ID_KEYS = {''task_id'', ''id''}"

definition attempt_error_http :: "nat \<Rightarrow> http_response \<Rightarrow> string" where
  "attempt_error_http idx resp =
     ''attempt='' @ str_of_nat idx @ '':http='' @ str_of_int (resp_status_code resp)
       @ '':msg='' @ take 220 (resp_text resp)"

definition attempt_error_missing :: "nat \<Rightarrow> http_response \<Rightarrow> string" where
  "attempt_error_missing idx resp =
     ''attempt='' @ str_of_nat idx @ '':http='' @ str_of_int (resp_status_code resp)
       @ '':missing_task_id''"

text \<open>
  The loop of \<^verbatim>\<open>submit_generation\<close> over the enumerated candidates. \<open>post idx payload\<close> is the
  answer to the \<open>idx\<close>-th POST. The result holds the list \<^verbatim>\<open>attempt_errors\<close>, the number of the
  last attempt made, and how the loop ended: \<open>None\<close> when the candidates ran out.
\<close>

fun submit_attempts ::
  "(nat \<Rightarrow> json \<Rightarrow> error + http_response) \<Rightarrow> nat \<Rightarrow> json list \<Rightarrow> string list
   \<Rightarrow> string list \<times> nat \<times> (error + string \<times> json) option" where
  "submit_attempts post idx [] attempt_errors = (attempt_errors, idx - 1, None)"
| "submit_attempts post idx (payload # rest) attempt_errors =
     (case post idx payload of
        Inl e \<Rightarrow> (attempt_errors, idx, Some (Inl e))
      | Inr resp \<Rightarrow>
          if resp_status_code resp \<ge> 400 then
            (if resp_status_code resp \<in> {400, 422} then
               submit_attempts post (Suc idx) rest (attempt_errors @ [attempt_error_http idx resp])
             else
               (attempt_errors @ [attempt_error_http idx resp], idx,
                Some (Inl (VolcAPIError (''Video submit failed: ''
                   @ str_of_int (resp_status_code resp) @ '' '' @ take 500 (resp_text resp))))))
          else
            (case resp_json resp of
               None \<Rightarrow> (attempt_errors, idx, Some (Inl JSONDecodeError))
             | Some data \<Rightarrow>
                 (case first_string (deep_find data TASK_ID_KEYS) of
                    Some task_id \<Rightarrow> (attempt_errors, idx, Some (Inr (task_id, data)))
                  | None \<Rightarrow>
                      submit_attempts post (Suc idx) rest
                        (attempt_errors @ [attempt_error_missing idx resp]))))"

definition submit_generation ::
  "(nat \<Rightarrow> json \<Rightarrow> error + http_response) \<Rightarrow> VideoConfig \<Rightarrow> string \<Rightarrow> int \<Rightarrow> int \<Rightarrow> int
   \<Rightarrow> error + string \<times> json" where
  "submit_generation post cfg prompt duration_s width height =
     (case submit_attempts post 1
             (submit_payload_candidates cfg prompt duration_s width height) [] of
        (attempt_errors, last_attempt, Some outcome) \<Rightarrow> outcome
      | (attempt_errors, last_attempt, None) \<Rightarrow>
          Inl (VolcAPIError (''Video submit failed after payload fallbacks. ''
                 @ take 1200 (py_join '' | '' attempt_errors))))"

definition STATUS_KEYS :: "string set" where
  "STATUS_KEYS = {''status'', ''state''}"

definition SUCCESS_STATUSES :: "string set" where
  "SUCCESS_STATUSES = {''succeeded'', ''success'', ''completed'', ''done''}"

definition FAILURE_STATUSES :: "string set" where
  "FAILURE_STATUSES = {''failed'', ''error'', ''canceled'', ''cancelled''}"

text \<open>\<^verbatim>\<open>(_first_string(status_candidates) or "").lower()\<close>\<close>

definition poll_status :: "json \<Rightarrow> string" where
  "poll_status payload =
     py_lower (case first_string (deep_find payload STATUS_KEYS) of
                 Some s \<Rightarrow> s
               | None \<Rightarrow> [])"

text \<open>
  The loop of \<^verbatim>\<open>poll_until_done\<close>. Time is counted in whole seconds: \<open>now\<close> is the clock when
  the \<open>n\<close>-th GET is sent, \<open>latency n\<close> the seconds that request takes, and the sleep lasts the
  interval, which is at least one second.
\<close>

function poll_loop ::
  "(nat \<Rightarrow> error + http_response) \<Rightarrow> (nat \<Rightarrow> nat) \<Rightarrow> int \<Rightarrow> int \<Rightarrow> nat \<Rightarrow> int \<Rightarrow> error + json" where
  "poll_loop get latency deadline interval n now =
     (case get n of
        Inl e \<Rightarrow> Inl e
      | Inr resp \<Rightarrow>
          if resp_status_code resp \<ge> 400 then
            Inl (VolcAPIError (''Video polling failed: '' @ str_of_int (resp_status_code resp)
                   @ '' '' @ take 500 (resp_text resp)))
          else
            (case resp_json resp of
               None \<Rightarrow> Inl JSONDecodeError
             | Some payload \<Rightarrow>
                 if poll_status payload \<in> SUCCESS_STATUSES then Inr payload
                 else if poll_status payload \<in> FAILURE_STATUSES then
                   Inl (VolcAPIError (''Video generation failed: status='' @ poll_status payload))
                 else if now + int (latency n) > deadline then
                   Inl (VolcAPIError ''Video generation timed out'')
                 else
                   poll_loop get latency deadline interval (Suc n)
                     (now + int (latency n) + max 1 interval)))"
  by pat_completeness auto
termination
  by (relation "measure (\<lambda>(get, latency, deadline, interval, n, now). nat (deadline + 1 - now))")
     auto

text \<open>
  \<^verbatim>\<open>poll_until_done\<close>; \<open>timeout_s\<close> is the optional argument and \<open>start\<close> the clock at the call.
\<close>

definition poll_until_done ::
  "(nat \<Rightarrow> error + http_response) \<Rightarrow> (nat \<Rightarrow> nat) \<Rightarrow> VideoConfig \<Rightarrow> int option \<Rightarrow> int
   \<Rightarrow> error + json" where
  "poll_until_done get latency cfg timeout_s start =
     (let effective_timeout =
            (case timeout_s of
               Some t \<Rightarrow> if t \<noteq> 0 then t else video_timeout_s cfg
             | None \<Rightarrow> video_timeout_s cfg);
          deadline = start + effective_timeout;
          interval = max 1 (video_poll_interval_s cfg)
      in poll_loop get latency deadline interval 0 start)"

text \<open>
  The two answers after which the loop goes on to the next candidate, and the entry that the
  loop appends to \<^verbatim>\<open>attempt_errors\<close> for such an answer.
\<close>

definition advances :: "http_response \<Rightarrow> bool" where
  "advances resp \<longleftrightarrow>
     resp_status_code resp \<in> {400, 422}
     \<or> (resp_status_code resp < 400
         \<and> (case resp_json resp of
               Some data \<Rightarrow> first_string (deep_find data TASK_ID_KEYS) = None
             | None \<Rightarrow> False))"

definition attempt_entry :: "nat \<Rightarrow> error + http_response \<Rightarrow> string" where
  "attempt_entry idx r =
     (case r of
        Inl e \<Rightarrow> []
      | Inr resp \<Rightarrow>
          if resp_status_code resp \<ge> 400 then attempt_error_http idx resp
          else attempt_error_missing idx resp)"

definition pending :: "error + http_response \<Rightarrow> bool" where
  "pending r \<longleftrightarrow>
     (case r of
        Inl e \<Rightarrow> False
      | Inr resp \<Rightarrow>
          resp_status_code resp < 400
          \<and> (case resp_json resp of
                Some payload \<Rightarrow>
                  poll_status payload \<notin> SUCCESS_STATUSES \<and> poll_status payload \<notin> FAILURE_STATUSES
              | None \<Rightarrow> False))"

section \<open>Example servers\<close>

definition json_response :: "int \<Rightarrow> json \<Rightarrow> http_response" where
  "json_response code body =
     \<lparr>resp_status_code = code, resp_text = py_repr body, resp_json = Some body,
      resp_headers = []\<rparr>"

definition demo_video_cfg :: VideoConfig where
  "demo_video_cfg =
     \<lparr>video_base_url = ''https://ark.example'', video_api_key = ''k'',
      video_model = ''demo-model'', video_timeout_s = 600, video_poll_interval_s = 5,
      video_system_prompt = []\<rparr>"

definition post_missing_then_id :: "nat \<Rightarrow> json \<Rightarrow> error + http_response" where
  "post_missing_then_id idx payload =
     (if idx = 1 then Inr (json_response 200 (JObj []))
      else Inr (json_response 200 (JObj [(''id'', JStr ''t2'')])))"

definition post_422_422_ok :: "nat \<Rightarrow> json \<Rightarrow> error + http_response" where
  "post_422_422_ok idx payload =
     (if idx < 3 then Inr (json_response 422 (JObj [(''error'', JStr ''bad shape'')]))
      else Inr (json_response 200 (JObj [(''task_id'', JStr ''t1'')])))"

definition post_always_400 :: "nat \<Rightarrow> json \<Rightarrow> error + http_response" where
  "post_always_400 idx payload = Inr (json_response 400 (JObj []))"

definition post_always_500 :: "nat \<Rightarrow> json \<Rightarrow> error + http_response" where
  "post_always_500 idx payload = Inr (json_response 500 (JObj []))"

definition get_status :: "string \<Rightarrow> nat \<Rightarrow> error + http_response" where
  "get_status st n = Inr (json_response 200 (JObj [(''data'', JObj [(''status'', JStr st)])]))"

text \<open>
  An answer of the task resource with two status values: the task is running, and a nested
  record of it says that it has succeeded.
\<close>

definition nested_status_payload :: json where
  "nested_status_payload =
     JObj [(''status'', JStr ''running''), (''data'', JObj [(''status'', JStr ''succeeded'')])]"

definition get_nested_status :: "nat \<Rightarrow> error + http_response" where
  "get_nested_status n = Inr (json_response 200 nested_status_payload)"

definition fenced_text :: string where
  "fenced_text = FENCE @ ''json'' @ NEWLINE @ ''{}'' @ NEWLINE @ FENCE"

section \<open>Speech recognition client\<close>

record ASRConfig =
  asr_base_url :: string
  asr_appid :: string
  asr_access_token :: string
  asr_resource_id :: string
  asr_boosting_table_name :: string
  asr_timeout_s :: int

definition RESOURCE_FALLBACKS :: "string list" where
  "RESOURCE_FALLBACKS = [''volc.bigasr.auc_turbo'', ''volc.seedasr.auc'', ''volc.bigasr.auc'']"

definition STANDARD_PROCESSING_STATUS :: "string set" where
  "STANDARD_PROCESSING_STATUS = {''20000001''}"

definition STANDARD_TERMINAL_STATUS :: "string set" where
  "STANDARD_TERMINAL_STATUS = {''20000000'', ''20000003''}"

text \<open>\<^verbatim>\<open>response.headers.get(name)\<close>; the names of HTTP headers are case-insensitive.\<close>

definition header_get :: "http_response \<Rightarrow> string \<Rightarrow> string option" where
  "header_get resp name =
     map_of (map (\<lambda>(k, v). (py_lower k, v)) (resp_headers resp)) (py_lower name)"

text \<open>\<^verbatim>\<open>d.get(k, default)\<close>\<close>

definition dict_get_default :: "py_dict \<Rightarrow> string \<Rightarrow> json \<Rightarrow> json" where
  "dict_get_default d k dflt = (case map_of d k of None \<Rightarrow> dflt | Some v \<Rightarrow> v)"

text \<open>
  The pattern \<^verbatim>\<open>try: payload = response.json() except Exception: return ...\<close> followed by
  \<^verbatim>\<open>payload.get("header")\<close>: \<open>Inr None\<close> when \<^verbatim>\<open>json()\<close> raises, the header when the
  payload is a dict, and \<^verbatim>\<open>AttributeError\<close> when the payload is JSON of another type, which
  has no \<^verbatim>\<open>get\<close>.
\<close>

definition json_header :: "http_response \<Rightarrow> error + json option" where
  "json_header resp =
     (case resp_json resp of
        None \<Rightarrow> Inr None
      | Some (JObj payload) \<Rightarrow> Inr (Some (dict_get payload ''header''))
      | Some _ \<Rightarrow> Inl PyAttributeError)"

text \<open>The lower-cased \<^verbatim>\<open>str(header.get("message", ""))\<close> of a header that is a dict.\<close>

definition header_message_lower :: "json \<Rightarrow> string option" where
  "header_message_lower header =
     (case header of
        JObj h \<Rightarrow> Some (py_lower (py_str (dict_get_default h ''message'' (JStr []))))
      | _ \<Rightarrow> None)"

definition is_grant_not_found_error :: "http_response \<Rightarrow> error + bool" where
  "is_grant_not_found_error response =
     (if py_contains ''requested grant not found'' (py_lower (resp_text response)) then Inr True
      else
        (case json_header response of
           Inl e \<Rightarrow> Inl e
         | Inr None \<Rightarrow> Inr False
         | Inr (Some header) \<Rightarrow>
             (case header_message_lower header of
                None \<Rightarrow> Inr False
              | Some message \<Rightarrow>
                  Inr (py_contains ''grant'' message \<and> py_contains ''not found'' message))))"

definition is_resource_not_allowed_error :: "http_response \<Rightarrow> error + bool" where
  "is_resource_not_allowed_error response =
     (if py_contains ''resourceid'' (py_lower (resp_text response))
         \<and> py_contains ''not allowed'' (py_lower (resp_text response)) then Inr True
      else
        (case json_header response of
           Inl e \<Rightarrow> Inl e
         | Inr None \<Rightarrow> Inr False
         | Inr (Some header) \<Rightarrow>
             (case header_message_lower header of
                None \<Rightarrow> Inr False
              | Some message \<Rightarrow>
                  Inr (py_contains ''resourceid'' message \<and> py_contains ''not allowed'' message))))"

definition is_resource_not_granted_error :: "http_response \<Rightarrow> error + bool" where
  "is_resource_not_granted_error response =
     (if py_contains ''requested resource not granted'' (py_lower (resp_text response))
      then Inr True
      else if py_contains ''resource_id='' (py_lower (resp_text response))
              \<and> py_contains ''not granted'' (py_lower (resp_text response)) then Inr True
      else
        (case json_header response of
           Inl e \<Rightarrow> Inl e
         | Inr None \<Rightarrow> Inr False
         | Inr (Some header) \<Rightarrow>
             (case header_message_lower header of
                None \<Rightarrow> Inr False
              | Some message \<Rightarrow>
                  Inr (py_contains ''resource'' message \<and> py_contains ''not granted'' message))))"

definition PERMISSION_PATTERNS :: "string list" where
  "PERMISSION_PATTERNS =
     [''requested grant not found'', ''resourceid'', ''not allowed'',
      ''requested resource not granted'', ''not granted'']"

definition is_permission_message :: "string \<Rightarrow> bool" where
  "is_permission_message message =
     (let text = py_lower message in
      list_all (\<lambda>part. py_contains part text) [''resourceid'', ''not allowed'']
      \<or> list_ex (\<lambda>p. py_contains p text) PERMISSION_PATTERNS)"

definition extract_status_code :: "http_response \<Rightarrow> error + string" where
  "extract_status_code response =
     (case header_get response ''X-Api-Status-Code'' of
        Some status \<Rightarrow>
          if status \<noteq> [] then Inr status
          else
            (case json_header response of
               Inl e \<Rightarrow> Inl e
             | Inr (Some (JObj header)) \<Rightarrow>
                 (if dict_get header ''code'' \<noteq> JNull then Inr (py_str (dict_get header ''code''))
                  else Inr [])
             | Inr _ \<Rightarrow> Inr [])
      | None \<Rightarrow>
          (case json_header response of
             Inl e \<Rightarrow> Inl e
           | Inr (Some (JObj header)) \<Rightarrow>
               (if dict_get header ''code'' \<noteq> JNull then Inr (py_str (dict_get header ''code''))
                else Inr [])
           | Inr _ \<Rightarrow> Inr []))"

definition extract_status_message :: "http_response \<Rightarrow> error + string" where
  "extract_status_message response =
     (case header_get response ''X-Api-Message'' of
        Some message \<Rightarrow>
          if message \<noteq> [] then Inr message
          else
            (case json_header response of
               Inl e \<Rightarrow> Inl e
             | Inr (Some (JObj header)) \<Rightarrow>
                 (if dict_get header ''message'' \<noteq> JNull
                  then Inr (py_str (dict_get header ''message''))
                  else Inr [])
             | Inr _ \<Rightarrow> Inr [])
      | None \<Rightarrow>
          (case json_header response of
             Inl e \<Rightarrow> Inl e
           | Inr (Some (JObj header)) \<Rightarrow>
               (if dict_get header ''message'' \<noteq> JNull
                then Inr (py_str (dict_get header ''message''))
                else Inr [])
           | Inr _ \<Rightarrow> Inr []))"

text \<open>Python's \<^verbatim>\<open>a or b\<close> on results that may raise: \<open>b\<close> counts only when \<open>a\<close> is false.\<close>

definition or_else :: "error + bool \<Rightarrow> error + bool \<Rightarrow> error + bool" where
  "or_else a b = (case a of Inl e \<Rightarrow> Inl e | Inr True \<Rightarrow> Inr True | Inr False \<Rightarrow> b)"

definition is_permission_response :: "http_response \<Rightarrow> error + bool" where
  "is_permission_response response =
     or_else (is_grant_not_found_error response)
       (or_else (is_resource_not_allowed_error response)
          (or_else (is_resource_not_granted_error response)
             (or_else (Inr (is_permission_message (resp_text response)))
                (case extract_status_message response of
                   Inl e \<Rightarrow> Inl e
                 | Inr message \<Rightarrow> Inr (is_permission_message message)))))"

text \<open>
  The entry that \<^verbatim>\<open>_append_try_error\<close> appends to \<^verbatim>\<open>tried_errors\<close>. Here every exception
  of the JSON access is caught, and the request id stays empty.
\<close>

definition try_error_reqid :: "http_response \<Rightarrow> string" where
  "try_error_reqid response =
     (case resp_json response of
        Some (JObj payload) \<Rightarrow>
          (case dict_get payload ''header'' of
             JObj header \<Rightarrow> py_str (dict_get_default header ''reqid'' (JStr []))
           | _ \<Rightarrow> [])
      | _ \<Rightarrow> [])"

definition try_error_entry :: "string \<Rightarrow> string \<Rightarrow> http_response \<Rightarrow> string" where
  "try_error_entry stage resource_id response =
     (let status_code = (case header_get response ''X-Api-Status-Code'' of
                           Some v \<Rightarrow> v | None \<Rightarrow> []);
          status_message = (case header_get response ''X-Api-Message'' of
                              Some v \<Rightarrow> v | None \<Rightarrow> [])
      in stage @ '':'' @ resource_id @ '':http='' @ str_of_int (resp_status_code response)
           @ '':status='' @ status_code @ '':reqid='' @ try_error_reqid response @ '':msg=''
           @ (if status_message \<noteq> [] then status_message else take 180 (resp_text response)))"

definition candidate_resource_ids :: "ASRConfig \<Rightarrow> string list" where
  "candidate_resource_ids cfg =
     (let configured = py_strip (asr_resource_id cfg);
          candidates = (if configured \<noteq> [] then [configured] else [])
      in fold (\<lambda>fallback cands. if fallback \<notin> set cands then cands @ [fallback] else cands)
           RESOURCE_FALLBACKS candidates)"

text \<open>
  The service as the client sees it: the answer to the flash request and to the submit
  request for a resource id, the answer to the \<open>k\<close>-th query of the request submitted for a
  resource id, and the whole seconds that query takes. The payload and the other headers of
  a request do not enter the control flow of the client.
\<close>

record asr_service =
  post_flash_once :: "string \<Rightarrow> error + http_response"
  post_standard_submit :: "string \<Rightarrow> error + http_response"
  post_standard_query :: "string \<Rightarrow> nat \<Rightarrow> error + http_response"
  query_seconds :: "string \<Rightarrow> nat \<Rightarrow> nat"

text \<open>
  How the body of a loop ends: with \<^verbatim>\<open>continue\<close> (or by reaching its end), \<^verbatim>\<open>break\<close>,
  \<^verbatim>\<open>return\<close> or \<^verbatim>\<open>raise\<close>. A loop body is a pair: the entries it appends to
  \<^verbatim>\<open>tried_errors\<close>, and how it ends.
\<close>

datatype 'a step = Continue | Break | Return 'a | Raise error

text \<open>
  \<^verbatim>\<open>business_code not in (None, 20000000, "20000000")\<close>; the float that equals the integer
  compares equal to it.
\<close>

definition business_code_ok :: "json \<Rightarrow> bool" where
  "business_code_ok code \<longleftrightarrow>
     code \<in> {JNull, JInt 20000000, JStr ''20000000'', JFloat ''20000000.0''}"

text \<open>The last block of the body of the flash loop, from \<^verbatim>\<open>payload_json = resp.json()\<close> on.\<close>

definition flash_last_block :: "string \<Rightarrow> http_response \<Rightarrow> string list \<times> py_dict step" where
  "flash_last_block resource_id resp =
     (case resp_json resp of
        None \<Rightarrow> ([], Raise JSONDecodeError)
      | Some (JObj payload_json) \<Rightarrow>
          (case dict_get payload_json ''header'' of
             JObj header \<Rightarrow>
               if \<not> business_code_ok (dict_get header ''code'') then
                 (if is_permission_message
                       (py_str (dict_get_default header ''message'' (JStr [])))
                  then ([try_error_entry ''flash'' resource_id resp], Continue)
                  else ([], Raise (VolcAPIError (''ASR business error: ''
                          @ py_str (dict_get header ''code'') @ '' ''
                          @ py_str (dict_get_default header ''message'' (JStr []))
                          @ '' '' @ take 500 (resp_text resp)))))
               else ([], Return payload_json)
           | _ \<Rightarrow> ([], Return payload_json))
      | Some _ \<Rightarrow> ([], Raise PyAttributeError))"

definition flash_body :: "asr_service \<Rightarrow> string \<Rightarrow> string list \<times> py_dict step" where
  "flash_body svc resource_id =
     (case post_flash_once svc resource_id of
        Inl e \<Rightarrow> ([], Raise e)
      | Inr resp \<Rightarrow>
          if resp_status_code resp \<ge> 400 then
            ([try_error_entry ''flash'' resource_id resp],
             case is_permission_response resp of
               Inl e \<Rightarrow> Raise e
             | Inr True \<Rightarrow> Continue
             | Inr False \<Rightarrow>
                 Raise (VolcAPIError (''ASR request failed: ''
                   @ str_of_int (resp_status_code resp) @ '' '' @ take 500 (resp_text resp))))
          else
            (case extract_status_code resp of
               Inl e \<Rightarrow> ([], Raise e)
             | Inr status_code \<Rightarrow>
                 if status_code \<noteq> [] \<and> status_code \<noteq> ''20000000'' then
                   ([try_error_entry ''flash'' resource_id resp],
                    case extract_status_message resp of
                      Inl e \<Rightarrow> Raise e
                    | Inr message \<Rightarrow>
                        if is_permission_message message then Continue
                        else Raise (VolcAPIError (''ASR business error: '' @ status_code
                               @ '' '' @ message @ '' '' @ take 500 (resp_text resp))))
                 else flash_last_block resource_id resp))"

text \<open>\<^verbatim>\<open>_recognize_flash\<close>: \<open>Inr None\<close> is the \<^verbatim>\<open>return None\<close> after the loop.\<close>

fun recognize_flash ::
  "asr_service \<Rightarrow> string list \<Rightarrow> string list \<Rightarrow> string list \<times> (error + py_dict option)" where
  "recognize_flash svc [] tried_errors = (tried_errors, Inr None)"
| "recognize_flash svc (resource_id # rest) tried_errors =
     (case flash_body svc resource_id of
        (new, Continue) \<Rightarrow> recognize_flash svc rest (tried_errors @ new)
      | (new, Break) \<Rightarrow> (tried_errors @ new, Inr None)
      | (new, Return payload) \<Rightarrow> (tried_errors @ new, Inr (Some payload))
      | (new, Raise e) \<Rightarrow> (tried_errors @ new, Inl e))"

text \<open>
  The body of the \<^verbatim>\<open>while\<close> loop of \<^verbatim>\<open>_recognize_standard\<close> for the \<open>k\<close>-th query:
  \<open>Continue\<close> is the \<^verbatim>\<open>continue\<close> after \<^verbatim>\<open>time.sleep(1)\<close>, \<open>Break\<close> the \<^verbatim>\<open>break\<close>.
\<close>

definition query_body :: "asr_service \<Rightarrow> string \<Rightarrow> nat \<Rightarrow> string list \<times> json step" where
  "query_body svc resource_id k =
     (case post_standard_query svc resource_id k of
        Inl e \<Rightarrow> ([], Raise e)
      | Inr query_resp \<Rightarrow>
          if resp_status_code query_resp \<ge> 400 then
            ([try_error_entry ''query'' resource_id query_resp],
             case is_permission_response query_resp of
               Inl e \<Rightarrow> Raise e
             | Inr True \<Rightarrow> Break
             | Inr False \<Rightarrow>
                 Raise (VolcAPIError (''ASR query failed: ''
                   @ str_of_int (resp_status_code query_resp) @ '' ''
                   @ take 500 (resp_text query_resp))))
          else
            (case extract_status_code query_resp of
               Inl e \<Rightarrow> ([], Raise e)
             | Inr query_status \<Rightarrow>
                 if query_status \<in> STANDARD_PROCESSING_STATUS then ([], Continue)
                 else if query_status \<in> STANDARD_TERMINAL_STATUS \<or> query_status = [] then
                   (case resp_json query_resp of
                      None \<Rightarrow> ([], Raise JSONDecodeError)
                    | Some payload \<Rightarrow> ([], Return payload))
                 else
                   (case extract_status_message query_resp of
                      Inl e \<Rightarrow> ([], Raise e)
                    | Inr query_message \<Rightarrow>
                        ([try_error_entry ''query'' resource_id query_resp],
                         if is_permission_message query_message then Break
                         else Raise (VolcAPIError (''ASR query business error: ''
                                @ query_status @ '' '' @ query_message @ '' ''
                                @ take 500 (resp_text query_resp)))))))"

text \<open>
  The \<^verbatim>\<open>while time.time() < deadline\<close> loop for one candidate. \<open>elapsed\<close> counts the whole
  seconds since the deadline was set, so the loop runs while \<open>elapsed < max 5 timeout_s\<close>;
  a query takes \<open>query_seconds\<close> and the sleep one second. The \<^verbatim>\<open>else\<close> branch of the
  \<^verbatim>\<open>while\<close>, taken when the condition fails, raises.
\<close>

function query_loop ::
  "asr_service \<Rightarrow> ASRConfig \<Rightarrow> string \<Rightarrow> nat \<Rightarrow> int \<Rightarrow> string list \<times> json step" where
  "query_loop svc cfg resource_id k elapsed =
     (if \<not> elapsed < max 5 (asr_timeout_s cfg) then
        ([], Raise (VolcAPIError (''ASR standard query timed out after ''
               @ str_of_int (asr_timeout_s cfg) @ ''s (resource_id='' @ resource_id @ '')'')))
      else
        (case query_body svc resource_id k of
           (new, Continue) \<Rightarrow>
             (case query_loop svc cfg resource_id (Suc k)
                     (elapsed + int (query_seconds svc resource_id k) + 1) of
                (later, outcome) \<Rightarrow> (new @ later, outcome))
         | (new, outcome) \<Rightarrow> (new, outcome)))"
  by pat_completeness auto
termination
  by (relation "measure (\<lambda>(svc, cfg, resource_id, k, elapsed).
                   nat (max 5 (asr_timeout_s cfg) - elapsed))")
     auto

text \<open>
  The body of the \<^verbatim>\<open>for\<close> loop of \<^verbatim>\<open>_recognize_standard\<close>; after a \<^verbatim>\<open>break\<close> of the
  query loop the body is over and the next candidate follows.
\<close>

definition standard_body ::
  "asr_service \<Rightarrow> ASRConfig \<Rightarrow> string \<Rightarrow> string list \<times> json step" where
  "standard_body svc cfg resource_id =
     (case post_standard_submit svc resource_id of
        Inl e \<Rightarrow> ([], Raise e)
      | Inr submit_resp \<Rightarrow>
          if resp_status_code submit_resp \<ge> 400 then
            ([try_error_entry ''submit'' resource_id submit_resp],
             case is_permission_response submit_resp of
               Inl e \<Rightarrow> Raise e
             | Inr True \<Rightarrow> Continue
             | Inr False \<Rightarrow>
                 Raise (VolcAPIError (''ASR submit failed: ''
                   @ str_of_int (resp_status_code submit_resp) @ '' ''
                   @ take 500 (resp_text submit_resp))))
          else
            (case extract_status_code submit_resp of
               Inl e \<Rightarrow> ([], Raise e)
             | Inr submit_status \<Rightarrow>
                 if submit_status \<noteq> [] \<and> submit_status \<noteq> ''20000000'' then
                   ([try_error_entry ''submit'' resource_id submit_resp],
                    case extract_status_message submit_resp of
                      Inl e \<Rightarrow> Raise e
                    | Inr submit_message \<Rightarrow>
                        if is_permission_message submit_message then Continue
                        else Raise (VolcAPIError (''ASR submit business error: ''
                               @ submit_status @ '' '' @ submit_message @ '' ''
                               @ take 500 (resp_text submit_resp))))
                 else
                   (case query_loop svc cfg resource_id 0 0 of
                      (new, Break) \<Rightarrow> (new, Continue)
                    | (new, outcome) \<Rightarrow> (new, outcome))))"

fun recognize_standard ::
  "asr_service \<Rightarrow> ASRConfig \<Rightarrow> string list \<Rightarrow> string list
   \<Rightarrow> string list \<times> (error + json option)" where
  "recognize_standard svc cfg [] tried_errors = (tried_errors, Inr None)"
| "recognize_standard svc cfg (resource_id # rest) tried_errors =
     (case standard_body svc cfg resource_id of
        (new, Continue) \<Rightarrow> recognize_standard svc cfg rest (tried_errors @ new)
      | (new, Break) \<Rightarrow> (tried_errors @ new, Inr None)
      | (new, Return payload) \<Rightarrow> (tried_errors @ new, Inr (Some payload))
      | (new, Raise e) \<Rightarrow> (tried_errors @ new, Inl e))"

definition not_granted_message :: "string list \<Rightarrow> string list \<Rightarrow> string" where
  "not_granted_message candidates tried_errors =
     ''ASR resource is not granted for current credentials. ''
     @ ''Tried resource_id(s): '' @ py_join '','' candidates @ ''. ''
     @ ''Details: '' @ take 1400 (py_join '' | '' tried_errors) @ ''. ''
     @ ''Please use an ASR app/token with granted resourceId from Volcengine Speech Console.''"

text \<open>
  \<^verbatim>\<open>recognize\<close>; \<open>audio\<close> is the result of reading the audio file. The flash path gives a
  dict, the standard path whatever \<^verbatim>\<open>json()\<close> of the last query gives; when that is
  \<^verbatim>\<open>None\<close> (the body \<^verbatim>\<open>null\<close>), the test \<^verbatim>\<open>is not None\<close> fails and the call ends with the
  aggregated error.
\<close>

definition recognize :: "asr_service \<Rightarrow> ASRConfig \<Rightarrow> error + string \<Rightarrow> error + json" where
  "recognize svc cfg audio =
     (if asr_appid cfg = [] \<or> asr_access_token cfg = [] then
        Inl (VolcAPIError ''ASR appid/access_token is required'')
      else
        (let candidates = candidate_resource_ids cfg in
         case audio of
           Inl e \<Rightarrow> Inl e
         | Inr audio_bytes \<Rightarrow>
             (case recognize_flash svc candidates [] of
                (errs, Inl e) \<Rightarrow> Inl e
              | (errs, Inr (Some flash_payload)) \<Rightarrow> Inr (JObj flash_payload)
              | (errs, Inr None) \<Rightarrow>
                  (case recognize_standard svc cfg candidates errs of
                     (errs2, Inl e) \<Rightarrow> Inl e
                   | (errs2, Inr (Some standard_payload)) \<Rightarrow>
                       if standard_payload \<noteq> JNull then Inr standard_payload
                       else Inl (VolcAPIError (not_granted_message candidates errs2))
                   | (errs2, Inr None) \<Rightarrow>
                       Inl (VolcAPIError (not_granted_message candidates errs2))))))"

text \<open>
  Answers of the service, as the standard path reads them: a query that reports the request
  as still processing, a query with a terminal (or no) business status, and a submit that
  is accepted.
\<close>

definition query_processing :: "error + http_response \<Rightarrow> bool" where
  "query_processing r \<longleftrightarrow>
     (case r of
        Inl e \<Rightarrow> False
      | Inr resp \<Rightarrow>
          resp_status_code resp < 400
          \<and> (case extract_status_code resp of
                Inr s \<Rightarrow> s \<in> STANDARD_PROCESSING_STATUS
              | Inl e \<Rightarrow> False))"

definition query_terminal :: "error + http_response \<Rightarrow> json \<Rightarrow> bool" where
  "query_terminal r payload \<longleftrightarrow>
     (case r of
        Inl e \<Rightarrow> False
      | Inr resp \<Rightarrow>
          resp_status_code resp < 400 \<and> resp_json resp = Some payload
          \<and> (case extract_status_code resp of
                Inr s \<Rightarrow> s \<in> STANDARD_TERMINAL_STATUS \<or> s = []
              | Inl e \<Rightarrow> False))"

definition submit_accepted :: "error + http_response \<Rightarrow> bool" where
  "submit_accepted r \<longleftrightarrow>
     (case r of
        Inl e \<Rightarrow> False
      | Inr resp \<Rightarrow>
          resp_status_code resp < 400
          \<and> (case extract_status_code resp of
                Inr s \<Rightarrow> s = [] \<or> s = ''20000000''
              | Inl e \<Rightarrow> False))"

definition timed_out_error :: "ASRConfig \<Rightarrow> string \<Rightarrow> error" where
  "timed_out_error cfg resource_id =
     VolcAPIError (''ASR standard query timed out after '' @ str_of_int (asr_timeout_s cfg)
       @ ''s (resource_id='' @ resource_id @ '')'')"

text \<open>
  A permission-class failure, as the client recognises it: by \<^verbatim>\<open>_is_permission_response\<close>,
  by \<^verbatim>\<open>_is_permission_message\<close> on the status message, or by the same test on the message
  of the header in the JSON body.
\<close>

definition permission_class :: "http_response \<Rightarrow> bool" where
  "permission_class resp \<longleftrightarrow>
     is_permission_response resp = Inr True
     \<or> (case extract_status_message resp of
           Inr message \<Rightarrow> is_permission_message message
         | Inl e \<Rightarrow> False)
     \<or> (case resp_json resp of
           Some (JObj payload) \<Rightarrow>
             (case dict_get payload ''header'' of
                JObj header \<Rightarrow>
                  is_permission_message (py_str (dict_get_default header ''message'' (JStr [])))
              | _ \<Rightarrow> False)
         | _ \<Rightarrow> False)"

text \<open>
  A candidate is exhausted in a path when the body of that path's loop ends with
  \<^verbatim>\<open>continue\<close> for it; the trace of a path is what the bodies append to \<^verbatim>\<open>tried_errors\<close>.
\<close>

definition flash_exhausted :: "asr_service \<Rightarrow> string \<Rightarrow> bool" where
  "flash_exhausted svc resource_id \<longleftrightarrow> snd (flash_body svc resource_id) = Continue"

definition standard_exhausted :: "asr_service \<Rightarrow> ASRConfig \<Rightarrow> string \<Rightarrow> bool" where
  "standard_exhausted svc cfg resource_id \<longleftrightarrow>
     snd (standard_body svc cfg resource_id) = Continue"

definition flash_trace :: "asr_service \<Rightarrow> string list \<Rightarrow> string list" where
  "flash_trace svc candidates = concat (map (\<lambda>rid. fst (flash_body svc rid)) candidates)"

definition standard_trace :: "asr_service \<Rightarrow> ASRConfig \<Rightarrow> string list \<Rightarrow> string list" where
  "standard_trace svc cfg candidates =
     concat (map (\<lambda>rid. fst (standard_body svc cfg rid)) candidates)"

section \<open>Example speech services\<close>

definition status_response :: "int \<Rightarrow> string \<Rightarrow> string \<Rightarrow> json \<Rightarrow> http_response" where
  "status_response code api_status api_message body =
     \<lparr>resp_status_code = code, resp_text = py_repr body, resp_json = Some body,
      resp_headers = [(''X-Api-Status-Code'', api_status), (''X-Api-Message'', api_message)]\<rparr>"

definition not_granted_response :: http_response where
  "not_granted_response =
     status_response 403 ''45000030'' ''requested resource not granted'' (JObj [])"

definition transcript_payload :: json where
  "transcript_payload = JObj [(''result'', JObj [(''text'', JStr ''hi'')])]"

text \<open>
  Flash is refused for every resource id, submit is accepted, and the request submitted for
  the first fallback id stays in processing, while any other id is answered at once.
\<close>

definition slow_first_service :: asr_service where
  "slow_first_service =
     \<lparr>post_flash_once = (\<lambda>rid. Inr not_granted_response),
      post_standard_submit = (\<lambda>rid. Inr (status_response 200 ''20000000'' ''OK'' (JObj []))),
      post_standard_query =
        (\<lambda>rid k. if rid = ''volc.bigasr.auc_turbo''
                  then Inr (status_response 200 ''20000001'' ''processing'' (JObj []))
                  else Inr (status_response 200 ''20000000'' ''OK'' transcript_payload)),
      query_seconds = (\<lambda>rid k. 0)\<rparr>"

definition refusing_service :: asr_service where
  "refusing_service =
     \<lparr>post_flash_once = (\<lambda>rid. Inr not_granted_response),
      post_standard_submit = (\<lambda>rid. Inr not_granted_response),
      post_standard_query = (\<lambda>rid k. Inr not_granted_response),
      query_seconds = (\<lambda>rid k. 0)\<rparr>"

definition demo_asr_cfg :: ASRConfig where
  "demo_asr_cfg =
     \<lparr>asr_base_url = ''https://openspeech.example'', asr_appid = ''app'',
      asr_access_token = ''token'', asr_resource_id = ''volc.bigasr.auc_turbo'',
      asr_boosting_table_name = [], asr_timeout_s = 3\<rparr>"

section \<open>The job store and the files\<close>

text \<open>
  A job row, with the JSON columns \<^verbatim>\<open>artifacts_json\<close> and \<^verbatim>\<open>meta_json\<close> as the dicts they hold.
  The job id is the key of the store. An event is the job id, the status and the message.
  The messages are Chinese sentences; each is a constructor, with the values interpolated
  into it: the notice of a rerun (start stage and parent id), the progress message of a
  stage that executes, the message of the polish stage when polishing is switched off, the
  polling message with the task id, the message of a stage that is skipped by reuse, the
  message of completion, and the text of the error of a failed run.
\<close>

record Job =
  job_source_path :: string
  job_asr_clip_seconds :: int
  job_hook_clip_seconds :: int
  job_status :: string
  job_error_message :: "error option"
  job_artifacts :: "(string \<times> string) list"
  job_meta :: py_dict

datatype message =
    MsgRerun string string
  | MsgRun JobStatus
  | MsgPolishDisabled
  | MsgPolling string
  | MsgSkip JobStatus
  | MsgCompleted
  | MsgFailed error

record world =
  jobs :: "string \<rightharpoonup> Job"
  events :: "(string \<times> string \<times> message) list"
  files :: "string \<rightharpoonup> string"

text \<open>
  A computation on the world that returns a value or raises. Every write to the store is
  followed by \<^verbatim>\<open>db.commit()\<close> in the pipeline, so a write is in the world at once and the
  \<^verbatim>\<open>rollback\<close> of the exception handler finds nothing to undo.
\<close>

type_synonym 'a run = "world \<Rightarrow> (error + 'a) \<times> world"

definition ret :: "'a \<Rightarrow> 'a run" where
  "ret x w = (Inr x, w)"

definition raise_error :: "error \<Rightarrow> 'a run" where
  "raise_error e w = (Inl e, w)"

definition lift :: "error + 'a \<Rightarrow> 'a run" where
  "lift r w = (r, w)"

definition then_do :: "'a run \<Rightarrow> ('a \<Rightarrow> 'b run) \<Rightarrow> 'b run" where
  "then_do m f w = (case m w of (Inl e, w') \<Rightarrow> (Inl e, w') | (Inr x, w') \<Rightarrow> f x w')"

subsection \<open>Repository\<close>

definition set_job_status :: "string \<Rightarrow> JobStatus \<Rightarrow> message \<Rightarrow> unit run" where
  "set_job_status job_id st msg w =
     (case jobs w job_id of
        None \<Rightarrow> (Inl (PyValueError (''job not found: '' @ job_id)), w)
      | Some job \<Rightarrow>
          (Inr (),
           w\<lparr>jobs := (jobs w)(job_id \<mapsto> job\<lparr>job_status := status_value st\<rparr>),
             events := events w @ [(job_id, status_value st, msg)]\<rparr>))"

definition set_job_error :: "string \<Rightarrow> error \<Rightarrow> unit run" where
  "set_job_error job_id e w =
     (case jobs w job_id of
        None \<Rightarrow> (Inl (PyValueError (''job not found: '' @ job_id)), w)
      | Some job \<Rightarrow>
          (Inr (),
           w\<lparr>jobs := (jobs w)(job_id \<mapsto>
                      job\<lparr>job_status := status_value FAILED, job_error_message := Some e\<rparr>),
             events := events w @ [(job_id, status_value FAILED, MsgFailed e)]\<rparr>))"

definition patch_meta :: "string \<Rightarrow> string \<Rightarrow> json \<Rightarrow> unit run" where
  "patch_meta job_id k v w =
     (case jobs w job_id of
        None \<Rightarrow> (Inl (PyValueError (''job not found: '' @ job_id)), w)
      | Some job \<Rightarrow>
          (Inr (),
           w\<lparr>jobs := (jobs w)(job_id \<mapsto> job\<lparr>job_meta := AList.update k v (job_meta job)\<rparr>)\<rparr>))"

definition put_artifact :: "string \<Rightarrow> string \<Rightarrow> string \<Rightarrow> unit run" where
  "put_artifact job_id kind path w =
     (case jobs w job_id of
        None \<Rightarrow> (Inl (PyValueError (''job not found: '' @ job_id)), w)
      | Some job \<Rightarrow>
          (Inr (),
           w\<lparr>jobs := (jobs w)(job_id \<mapsto>
                      job\<lparr>job_artifacts := AList.update kind path (job_artifacts job)\<rparr>)\<rparr>))"

definition append_event :: "string \<Rightarrow> string \<Rightarrow> message \<Rightarrow> unit run" where
  "append_event job_id st msg w = (Inr (), w\<lparr>events := events w @ [(job_id, st, msg)]\<rparr>)"

subsection \<open>Files\<close>

definition write_text :: "string \<Rightarrow> string \<Rightarrow> unit run" where
  "write_text path content w = (Inr (), w\<lparr>files := (files w)(path \<mapsto> content)\<rparr>)"

text \<open>\<^verbatim>\<open>shutil.copy2\<close>, which refuses to copy a file onto itself.\<close>

definition copy2 :: "string \<Rightarrow> string \<Rightarrow> unit run" where
  "copy2 src dst w =
     (case files w src of
        None \<Rightarrow> (Inl (PyOSError ''No such file or directory''), w)
      | Some content \<Rightarrow>
          if src = dst then (Inl (PyOSError ''are the same file''), w)
          else (Inr (), w\<lparr>files := (files w)(dst \<mapsto> content)\<rparr>))"

text \<open>The path of a file in the directory of a job, \<^verbatim>\<open>PATHS.jobs_root / job.id / name\<close>.\<close>

definition job_file :: "string \<Rightarrow> string \<Rightarrow> string \<Rightarrow> string" where
  "job_file root job_id name = root @ ''/'' @ job_id @ ''/'' @ name"

section \<open>The collaborators of the pipeline\<close>

record VideoMeta =
  vm_width :: int
  vm_height :: int
  vm_fps :: string
  vm_duration :: string
  vm_has_audio :: bool

text \<open>
  The media tools, the three service clients and the conversions of the Python library, as
  the pipeline calls them. A tool that reads a file gets what the file holds and gives what
  it writes, or the exception it raises. The clients are the ones modelled above; here each
  is the function from its arguments to its result.
\<close>

record tools =
  t_ffmpeg_available :: bool
  t_ffprobe_available :: bool
  t_probe_video :: "string option \<Rightarrow> error + VideoMeta"
  t_extract_asr_clip_to_wav :: "string option \<Rightarrow> int \<Rightarrow> error + string"
  t_normalize_source_video :: "string option \<Rightarrow> VideoMeta \<Rightarrow> error + string"
  t_normalize_hook_video :: "string option \<Rightarrow> VideoMeta \<Rightarrow> int \<Rightarrow> error + string"
  t_concat_with_source :: "string option \<Rightarrow> string option \<Rightarrow> error + string"
  t_asr_recognize :: "string option \<Rightarrow> error + json"
  t_llm_generate_text :: "string \<Rightarrow> string \<Rightarrow> error + string \<times> json"
  t_video_submit_generation :: "string \<Rightarrow> int \<Rightarrow> int \<Rightarrow> int \<Rightarrow> error + string \<times> json"
  t_video_poll_until_done :: "string \<Rightarrow> error + json"
  t_download_video :: "string \<Rightarrow> error + string"
  t_json_dumps :: "json \<Rightarrow> string"
  t_json_loads :: "string \<Rightarrow> json option"
  t_build_polish_prompt :: "string \<Rightarrow> string"
  t_build_script_prompt :: "string \<Rightarrow> int \<Rightarrow> string"
  t_build_video_prompt :: "string \<Rightarrow> py_dict \<Rightarrow> error + string"
  t_safe_int :: "json \<Rightarrow> int \<Rightarrow> int"
  t_safe_float_max :: "string \<Rightarrow> json \<Rightarrow> string \<Rightarrow> string"

record app_config =
  cfg_enable_asr_polish :: bool
  cfg_asr_system_prompt :: string
  cfg_llm_asr_polish_system_prompt :: string
  cfg_llm_script_system_prompt :: string
  cfg_video_system_prompt :: string

section \<open>The pipeline\<close>

definition as_dict :: "json \<Rightarrow> py_dict" where
  "as_dict v = (case v of JObj d \<Rightarrow> d | _ \<Rightarrow> [])"

text \<open>
  \<^verbatim>\<open>_video_meta_from_dict\<close>; \<open>t_safe_int v d\<close> is \<^verbatim>\<open>_safe_int(v, d)\<close> and \<open>t_safe_float_max lo v d\<close>
  is \<^verbatim>\<open>max(lo, _safe_float(v, d))\<close>.
\<close>

definition video_meta_from_dict :: "tools \<Rightarrow> py_dict \<Rightarrow> VideoMeta option" where
  "video_meta_from_dict tk payload =
     (if payload = [] then None
      else if \<not> {''width'', ''height'', ''fps'', ''duration'', ''has_audio''} \<subseteq> dict_keys payload
      then None
      else Some \<lparr>vm_width = max 1 (t_safe_int tk (dict_get payload ''width'') 1080),
                 vm_height = max 1 (t_safe_int tk (dict_get payload ''height'') 1920),
                 vm_fps = t_safe_float_max tk ''1.0'' (dict_get payload ''fps'') ''30.0'',
                 vm_duration = t_safe_float_max tk ''0.0'' (dict_get payload ''duration'') ''0.0'',
                 vm_has_audio = py_truthy (dict_get payload ''has_audio'')\<rparr>)"

text \<open>\<^verbatim>\<open>source_meta.__dict__\<close>\<close>

definition video_meta_dict :: "VideoMeta \<Rightarrow> json" where
  "video_meta_dict m =
     JObj [(''width'', JInt (vm_width m)), (''height'', JInt (vm_height m)),
           (''fps'', JFloat (vm_fps m)), (''duration'', JFloat (vm_duration m)),
           (''has_audio'', JBool (vm_has_audio m))]"

definition set_stage :: "string \<Rightarrow> JobStatus \<Rightarrow> message \<Rightarrow> unit run" where
  "set_stage job_id st msg = set_job_status job_id st msg"

definition save_artifact :: "string \<Rightarrow> string \<Rightarrow> string \<Rightarrow> unit run" where
  "save_artifact job_id kind path = put_artifact job_id kind path"

definition write_json :: "tools \<Rightarrow> string \<Rightarrow> json \<Rightarrow> unit run" where
  "write_json tk path payload = write_text path (t_json_dumps tk payload)"

definition reuse_parent_artifact ::
  "string \<Rightarrow> string \<Rightarrow> (string \<times> string) list \<Rightarrow> string \<Rightarrow> string \<Rightarrow> bool
   \<Rightarrow> string option run" where
  "reuse_parent_artifact job_id parent_job_id parent_artifacts kind target_path required w =
     (case map_of parent_artifacts kind of
        None \<Rightarrow>
          if required then (Inl (PipelineError (ReuseMissingArtifact kind parent_job_id)), w)
          else (Inr None, w)
      | Some parent_path \<Rightarrow>
          if parent_path = [] then
            (if required then (Inl (PipelineError (ReuseMissingArtifact kind parent_job_id)), w)
             else (Inr None, w))
          else if files w parent_path = None then
            (if required then (Inl (PipelineError (ReuseFileNotExist kind parent_path)), w)
             else (Inr None, w))
          else
            then_do (copy2 parent_path target_path) (\<lambda>_.
            then_do (save_artifact job_id kind target_path) (\<lambda>_.
            ret (Some target_path))) w)"

definition read_text_or_fail :: "string \<Rightarrow> pipeline_failure \<Rightarrow> string run" where
  "read_text_or_fail path failure w =
     (case files w path of
        None \<Rightarrow> (Inl (PipelineError failure), w)
      | Some content \<Rightarrow>
          if py_strip content = [] then (Inl (PipelineError failure), w)
          else (Inr (py_strip content), w))"

text \<open>A tool applied to the file at a path.\<close>

definition on_file :: "(string option \<Rightarrow> error + 'a) \<Rightarrow> string \<Rightarrow> 'a run" where
  "on_file tool path w = (tool (files w path), w)"

definition on_files ::
  "(string option \<Rightarrow> string option \<Rightarrow> error + 'a) \<Rightarrow> string \<Rightarrow> string \<Rightarrow> 'a run" where
  "on_files tool path1 path2 w = (tool (files w path1) (files w path2), w)"

text \<open>
  Reading the reused script: \<^verbatim>\<open>json.loads(path.read_text())\<close>, where every exception becomes
  the \<^verbatim>\<open>PipelineError\<close> of a script that does not parse.
\<close>

definition load_script :: "tools \<Rightarrow> string \<Rightarrow> json run" where
  "load_script tk path w =
     (case files w path of
        None \<Rightarrow> (Inl (PipelineError ReuseScriptParseFailed), w)
      | Some content \<Rightarrow>
          (case t_json_loads tk content of
             None \<Rightarrow> (Inl (PipelineError ReuseScriptParseFailed), w)
           | Some parsed \<Rightarrow> (Inr parsed, w)))"

text \<open>\<^verbatim>\<open>job.error_message = None\<close> and the check that the source video exists.\<close>

definition clear_error :: "string \<Rightarrow> Job \<Rightarrow> unit run" where
  "clear_error job_id job w =
     (Inr (), w\<lparr>jobs := (jobs w)(job_id \<mapsto> job\<lparr>job_error_message := None\<rparr>)\<rparr>)"

definition require_source :: "Job \<Rightarrow> unit run" where
  "require_source job w =
     (if files w (job_source_path job) = None
      then (Inl (PipelineError (SourceVideoMissing (job_source_path job))), w)
      else (Inr (), w))"

definition URL_KEYS :: "string set" where
  "URL_KEYS = {''video_url'', ''url'', ''output_url'', ''file_url'', ''download_url''}"

definition extract_video_url :: "json \<Rightarrow> error + string" where
  "extract_video_url payload =
     (case first_string (deep_find payload URL_KEYS) of
        None \<Rightarrow> Inl (VolcAPIError ''Video result missing downloadable URL'')
      | Some url_value \<Rightarrow> Inr url_value)"

text \<open>The blocks of \<^verbatim>\<open>execute_job\<close>, one for each stage, in the order of the source.\<close>

definition stage_preprocessing ::
  "tools \<Rightarrow> string \<Rightarrow> string \<Rightarrow> Job \<Rightarrow> JobStatus \<Rightarrow> py_dict \<Rightarrow> VideoMeta run" where
  "stage_preprocessing tk root job_id job start_stage parent_meta =
     then_do (lift (should_run_stage start_stage PREPROCESSING)) (\<lambda>run.
     then_do
       (if run then
          then_do (set_stage job_id PREPROCESSING (MsgRun PREPROCESSING)) (\<lambda>_.
          on_file (t_probe_video tk) (job_source_path job))
        else
          then_do (set_stage job_id PREPROCESSING (MsgSkip PREPROCESSING)) (\<lambda>_.
          case video_meta_from_dict tk (as_dict (dict_get parent_meta ''source_meta'')) of
            Some source_meta \<Rightarrow> ret source_meta
          | None \<Rightarrow> on_file (t_probe_video tk) (job_source_path job)))
       (\<lambda>source_meta.
     then_do (write_text (job_file root job_id ''source_meta.json'')
                (t_json_dumps tk (video_meta_dict source_meta))) (\<lambda>_.
     then_do (patch_meta job_id ''source_meta'' (video_meta_dict source_meta)) (\<lambda>_.
     ret source_meta))))"

definition stage_asr ::
  "tools \<Rightarrow> string \<Rightarrow> string \<Rightarrow> Job \<Rightarrow> JobStatus \<Rightarrow> string \<Rightarrow> (string \<times> string) list
   \<Rightarrow> string run" where
  "stage_asr tk root job_id job start_stage parent_job_id parent_artifacts =
     then_do (lift (should_run_stage start_stage ASR)) (\<lambda>run.
     if run then
       then_do (set_stage job_id ASR (MsgRun ASR)) (\<lambda>_.
       then_do (on_file (\<lambda>src. t_extract_asr_clip_to_wav tk src (job_asr_clip_seconds job))
                  (job_source_path job)) (\<lambda>wav.
       then_do (write_text (job_file root job_id ''asr_clip.wav'') wav) (\<lambda>_.
       then_do (save_artifact job_id ''asr_clip_audio'' (job_file root job_id ''asr_clip.wav''))
         (\<lambda>_.
       then_do (on_file (t_asr_recognize tk) (job_file root job_id ''asr_clip.wav''))
         (\<lambda>asr_raw_payload.
       then_do (write_json tk (job_file root job_id ''asr_response.json'') asr_raw_payload) (\<lambda>_.
       then_do (case asr_raw_payload of
                  JObj payload \<Rightarrow> ret (py_strip (parse_asr_text payload))
                | _ \<Rightarrow> raise_error PyAttributeError) (\<lambda>transcript_raw.
       if transcript_raw = [] then raise_error (PipelineError EmptyTranscript)
       else
         then_do (write_text (job_file root job_id ''transcript_raw.txt'') transcript_raw) (\<lambda>_.
         then_do (save_artifact job_id ''transcript_raw''
                    (job_file root job_id ''transcript_raw.txt'')) (\<lambda>_.
         ret transcript_raw)))))))))
     else
       then_do (set_stage job_id ASR (MsgSkip ASR)) (\<lambda>_.
       then_do (reuse_parent_artifact job_id parent_job_id parent_artifacts ''asr_clip_audio''
                  (job_file root job_id ''asr_clip.wav'') False) (\<lambda>_.
       then_do (reuse_parent_artifact job_id parent_job_id parent_artifacts ''transcript_raw''
                  (job_file root job_id ''transcript_raw.txt'') True) (\<lambda>reused.
       case reused of
         None \<Rightarrow> raise_error (PipelineError (ReuseFailed ''transcript_raw''))
       | Some reused_path \<Rightarrow> read_text_or_fail reused_path (ReuseTextEmpty ''transcript_raw'')))))"

definition stage_transcript_polish ::
  "tools \<Rightarrow> app_config \<Rightarrow> string \<Rightarrow> string \<Rightarrow> JobStatus \<Rightarrow> string
   \<Rightarrow> (string \<times> string) list \<Rightarrow> string \<Rightarrow> string run" where
  "stage_transcript_polish tk config root job_id start_stage parent_job_id parent_artifacts
     transcript_raw =
     then_do (lift (should_run_stage start_stage TRANSCRIPT_POLISH)) (\<lambda>run.
     if run then
       then_do
         (if cfg_enable_asr_polish config then
            then_do (set_stage job_id TRANSCRIPT_POLISH (MsgRun TRANSCRIPT_POLISH)) (\<lambda>_.
            then_do (lift (t_llm_generate_text tk
                       (if cfg_asr_system_prompt config \<noteq> [] then cfg_asr_system_prompt config
                        else cfg_llm_asr_polish_system_prompt config)
                       (t_build_polish_prompt tk transcript_raw))) (\<lambda>(polished, polish_raw_payload).
            then_do (write_json tk (job_file root job_id ''transcript_polish_response.json'')
                       polish_raw_payload) (\<lambda>_.
            ret (if py_strip polished \<noteq> [] then py_strip polished else transcript_raw))))
          else
            then_do (set_stage job_id TRANSCRIPT_POLISH MsgPolishDisabled) (\<lambda>_.
            ret transcript_raw))
         (\<lambda>polished_text.
       then_do (write_text (job_file root job_id ''transcript_polished.txt'') polished_text) (\<lambda>_.
       then_do (save_artifact job_id ''transcript_polished''
                  (job_file root job_id ''transcript_polished.txt'')) (\<lambda>_.
       ret polished_text)))
     else
       then_do (set_stage job_id TRANSCRIPT_POLISH (MsgSkip TRANSCRIPT_POLISH)) (\<lambda>_.
       then_do (reuse_parent_artifact job_id parent_job_id parent_artifacts
                  ''transcript_polished'' (job_file root job_id ''transcript_polished.txt'') True)
         (\<lambda>reused.
       case reused of
         None \<Rightarrow> raise_error (PipelineError (ReuseFailed ''transcript_polished''))
       | Some reused_path \<Rightarrow>
           read_text_or_fail reused_path (ReuseTextEmpty ''transcript_polished''))))"

definition stage_script_gen ::
  "tools \<Rightarrow> app_config \<Rightarrow> string \<Rightarrow> string \<Rightarrow> Job \<Rightarrow> JobStatus \<Rightarrow> string
   \<Rightarrow> (string \<times> string) list \<Rightarrow> string \<Rightarrow> py_dict run" where
  "stage_script_gen tk config root job_id job start_stage parent_job_id parent_artifacts
     polished_text =
     then_do (lift (should_run_stage start_stage SCRIPT_GEN)) (\<lambda>run.
     if run then
       then_do (set_stage job_id SCRIPT_GEN (MsgRun SCRIPT_GEN)) (\<lambda>_.
       then_do (lift (t_llm_generate_text tk (cfg_llm_script_system_prompt config)
                  (t_build_script_prompt tk polished_text (job_hook_clip_seconds job))))
         (\<lambda>(script_text, script_raw_payload).
       then_do (write_json tk (job_file root job_id ''script_gen_response.json'')
                  script_raw_payload) (\<lambda>_.
       then_do (lift (extract_first_json_object (t_json_loads tk) script_text)) (\<lambda>extracted.
       then_do (lift (validate_script_payload extracted)) (\<lambda>script_payload.
       then_do (write_json tk (job_file root job_id ''hook_script.json'') (JObj script_payload))
         (\<lambda>_.
       then_do (save_artifact job_id ''hook_script_json''
                  (job_file root job_id ''hook_script.json'')) (\<lambda>_.
       ret script_payload)))))))
     else
       then_do (set_stage job_id SCRIPT_GEN (MsgSkip SCRIPT_GEN)) (\<lambda>_.
       then_do (reuse_parent_artifact job_id parent_job_id parent_artifacts ''hook_script_json''
                  (job_file root job_id ''hook_script.json'') True) (\<lambda>reused.
       case reused of
         None \<Rightarrow> raise_error (PipelineError (ReuseFailed ''hook_script_json''))
       | Some reused_path \<Rightarrow>
           then_do (load_script tk reused_path) (\<lambda>parsed.
           case parsed of
             JObj payload \<Rightarrow> lift (validate_script_payload payload)
           | _ \<Rightarrow> raise_error PyAttributeError))))"

definition stage_video_submit ::
  "tools \<Rightarrow> app_config \<Rightarrow> string \<Rightarrow> string \<Rightarrow> Job \<Rightarrow> JobStatus \<Rightarrow> string \<Rightarrow> py_dict
   \<Rightarrow> py_dict \<Rightarrow> VideoMeta \<Rightarrow> string run" where
  "stage_video_submit tk config root job_id job start_stage parent_job_id parent_meta
     script_payload source_meta =
     then_do (lift (should_run_stage start_stage VIDEO_SUBMIT)) (\<lambda>run.
     if run then
       then_do (set_stage job_id VIDEO_SUBMIT (MsgRun VIDEO_SUBMIT)) (\<lambda>_.
       then_do (lift (t_build_video_prompt tk (cfg_video_system_prompt config) script_payload))
         (\<lambda>video_prompt.
       then_do (lift (t_video_submit_generation tk video_prompt (job_hook_clip_seconds job)
                  (vm_width source_meta) (vm_height source_meta)))
         (\<lambda>(task_id, submit_raw_payload).
       then_do (write_json tk (job_file root job_id ''video_submit_response.json'')
                  submit_raw_payload) (\<lambda>_.
       then_do (patch_meta job_id ''video_task_id'' (JStr task_id)) (\<lambda>_.
       ret task_id)))))
     else
       then_do (set_stage job_id VIDEO_SUBMIT (MsgSkip VIDEO_SUBMIT)) (\<lambda>_.
       if py_strip (if py_truthy (dict_get parent_meta ''video_task_id'')
                    then py_str (dict_get parent_meta ''video_task_id'') else []) = []
       then raise_error (PipelineError
              (ReuseTaskIdMissing (status_value start_stage) parent_job_id))
       else
         then_do (patch_meta job_id ''video_task_id''
                    (JStr (py_strip (py_str (dict_get parent_meta ''video_task_id''))))) (\<lambda>_.
         ret (py_strip (py_str (dict_get parent_meta ''video_task_id''))))))"

definition stage_video_polling ::
  "tools \<Rightarrow> string \<Rightarrow> string \<Rightarrow> JobStatus \<Rightarrow> string \<Rightarrow> (string \<times> string) list \<Rightarrow> string
   \<Rightarrow> string run" where
  "stage_video_polling tk root job_id start_stage parent_job_id parent_artifacts task_id =
     then_do (lift (should_run_stage start_stage VIDEO_POLLING)) (\<lambda>run.
     if run then
       then_do (set_stage job_id VIDEO_POLLING (MsgPolling task_id)) (\<lambda>_.
       then_do (lift (t_video_poll_until_done tk task_id)) (\<lambda>video_result.
       then_do (write_json tk (job_file root job_id ''video_poll_response.json'') video_result)
         (\<lambda>_.
       then_do (lift (extract_video_url video_result)) (\<lambda>video_url.
       then_do (lift (t_download_video tk video_url)) (\<lambda>downloaded.
       then_do (write_text (job_file root job_id ''hook_video_raw.mp4'') downloaded) (\<lambda>_.
       then_do (save_artifact job_id ''hook_video_raw''
                  (job_file root job_id ''hook_video_raw.mp4'')) (\<lambda>_.
       ret (job_file root job_id ''hook_video_raw.mp4''))))))))
     else
       then_do (set_stage job_id VIDEO_POLLING (MsgSkip VIDEO_POLLING)) (\<lambda>_.
       then_do (reuse_parent_artifact job_id parent_job_id parent_artifacts ''hook_video_raw''
                  (job_file root job_id ''hook_video_raw.mp4'') True) (\<lambda>reused.
       case reused of
         None \<Rightarrow> raise_error (PipelineError (ReuseFailed ''hook_video_raw''))
       | Some reused_path \<Rightarrow> ret reused_path)))"

definition stage_postprocess ::
  "tools \<Rightarrow> string \<Rightarrow> string \<Rightarrow> Job \<Rightarrow> VideoMeta \<Rightarrow> string \<Rightarrow> unit run" where
  "stage_postprocess tk root job_id job source_meta hook_video_raw_path =
     then_do (set_stage job_id POSTPROCESS (MsgRun POSTPROCESS)) (\<lambda>_.
     then_do (on_file (\<lambda>src. t_normalize_source_video tk src source_meta)
                (job_source_path job)) (\<lambda>source_norm.
     then_do (write_text (job_file root job_id ''source_video_norm.mp4'') source_norm) (\<lambda>_.
     then_do (on_file (\<lambda>raw. t_normalize_hook_video tk raw source_meta
                                (job_hook_clip_seconds job)) hook_video_raw_path) (\<lambda>hook_norm.
     then_do (write_text (job_file root job_id ''hook_video_norm.mp4'') hook_norm) (\<lambda>_.
     then_do (save_artifact job_id ''hook_video_norm''
                (job_file root job_id ''hook_video_norm.mp4'')) (\<lambda>_.
     then_do (on_files (t_concat_with_source tk)
                (job_file root job_id ''hook_video_norm.mp4'')
                (job_file root job_id ''source_video_norm.mp4'')) (\<lambda>final.
     then_do (write_text (job_file root job_id ''final_video.mp4'') final) (\<lambda>_.
     save_artifact job_id ''final_video'' (job_file root job_id ''final_video.mp4'')))))))))"

text \<open>
  The lineage of a job: the start stage, the id of the parent and, when there is a parent,
  its meta and artifacts. A parent that is named but not stored is an error.
\<close>

definition job_start_stage :: "Job \<Rightarrow> JobStatus" where
  "job_start_stage job = normalize_start_stage (dict_get (job_meta job) ''rerun_start_stage'')"

definition job_parent_id :: "Job \<Rightarrow> string" where
  "job_parent_id job =
     py_strip (if py_truthy (dict_get (job_meta job) ''rerun_of_job_id'')
               then py_str (dict_get (job_meta job) ''rerun_of_job_id'') else [])"

definition load_lineage ::
  "string \<Rightarrow> Job \<Rightarrow> (JobStatus \<times> string \<times> py_dict \<times> (string \<times> string) list) run" where
  "load_lineage job_id job =
     (let start_stage = job_start_stage job;
          parent_job_id = job_parent_id job
      in if parent_job_id \<noteq> [] then
           (\<lambda>w. case jobs w parent_job_id of
                   None \<Rightarrow> (Inl (PipelineError (ParentJobMissing parent_job_id)), w)
                 | Some parent_job \<Rightarrow>
                     then_do (append_event job_id (status_value QUEUED)
                                (MsgRerun (status_value start_stage) parent_job_id)) (\<lambda>_.
                     ret (start_stage, parent_job_id, job_meta parent_job,
                          job_artifacts parent_job)) w)
         else ret (start_stage, parent_job_id, [], []))"

text \<open>The body of the \<^verbatim>\<open>try\<close> block for a job that is stored.\<close>

definition run_job :: "tools \<Rightarrow> app_config \<Rightarrow> string \<Rightarrow> string \<Rightarrow> Job \<Rightarrow> unit run" where
  "run_job tk config root job_id job =
     then_do (clear_error job_id job) (\<lambda>_.
     then_do (load_lineage job_id job) (\<lambda>(start_stage, parent_job_id, parent_meta, parent_artifacts).
     then_do (require_source job) (\<lambda>_.
     then_do (if \<not> t_ffmpeg_available tk \<or> \<not> t_ffprobe_available tk
              then raise_error (PipelineError ToolsUnavailable) else ret ()) (\<lambda>_.
     then_do (save_artifact job_id ''source_video'' (job_source_path job)) (\<lambda>_.
     then_do (stage_preprocessing tk root job_id job start_stage parent_meta) (\<lambda>source_meta.
     then_do (stage_asr tk root job_id job start_stage parent_job_id parent_artifacts)
       (\<lambda>transcript_raw.
     then_do (stage_transcript_polish tk config root job_id start_stage parent_job_id
                parent_artifacts transcript_raw) (\<lambda>polished_text.
     then_do (stage_script_gen tk config root job_id job start_stage parent_job_id
                parent_artifacts polished_text) (\<lambda>script_payload.
     then_do (stage_video_submit tk config root job_id job start_stage parent_job_id
                parent_meta script_payload source_meta) (\<lambda>task_id.
     then_do (stage_video_polling tk root job_id start_stage parent_job_id parent_artifacts
                task_id) (\<lambda>hook_video_raw_path.
     then_do (stage_postprocess tk root job_id job source_meta hook_video_raw_path) (\<lambda>_.
     set_job_status job_id COMPLETED MsgCompleted))))))))))))"

text \<open>
  \<^verbatim>\<open>execute_job\<close>: the result is the exception that leaves the function, if any, and the
  world after it. A job that is not stored makes the function return at once. The handler
  records the error on the job; an exception of the recording itself is swallowed.
\<close>

definition execute_job ::
  "tools \<Rightarrow> app_config \<Rightarrow> string \<Rightarrow> string \<Rightarrow> world \<Rightarrow> error option \<times> world" where
  "execute_job tk config root job_id w =
     (case jobs w job_id of
        None \<Rightarrow> (None, w)
      | Some job \<Rightarrow>
          (case run_job tk config root job_id job w of
             (Inr u, w') \<Rightarrow> (None, w')
           | (Inl e, w') \<Rightarrow> (Some e, snd (set_job_error job_id e w'))))"

definition empty_world :: world where
  "empty_world = \<lparr>jobs = Map.empty, events = [], files = Map.empty\<rparr>"

text \<open>
  Two properties of a computation that the proofs follow through the pipeline: it leaves
  the event log as it is, and it keeps a stored job stored.
\<close>

definition quiet :: "string \<Rightarrow> 'a run \<Rightarrow> bool" where
  "quiet job_id m \<longleftrightarrow>
     (\<forall>w. events (snd (m w)) = events w
          \<and> (jobs w job_id \<noteq> None \<longrightarrow> jobs (snd (m w)) job_id \<noteq> None))"

text \<open>A computation that appends exactly one event, for a stage, to the log of a stored job.\<close>

definition announces :: "string \<Rightarrow> JobStatus \<Rightarrow> message \<Rightarrow> 'a run \<Rightarrow> bool" where
  "announces job_id st msg m \<longleftrightarrow>
     (\<forall>w. jobs w job_id \<noteq> None \<longrightarrow>
          events (snd (m w)) = events w @ [(job_id, status_value st, msg)]
          \<and> jobs (snd (m w)) job_id \<noteq> None)"

text \<open>
  A computation that keeps a stored job stored and, when it returns, has appended to the
  event log a list of events that stands in the relation \<open>P\<close> to the value returned.
\<close>

definition logs ::
  "string \<Rightarrow> ('a \<Rightarrow> (string \<times> string \<times> message) list \<Rightarrow> bool) \<Rightarrow> 'a run \<Rightarrow> bool" where
  "logs job_id P m \<longleftrightarrow>
     (\<forall>w. jobs w job_id \<noteq> None \<longrightarrow>
          jobs (snd (m w)) job_id \<noteq> None
          \<and> (\<forall>r. fst (m w) = Inr r \<longrightarrow>
                 (\<exists>evs. events (snd (m w)) = events w @ evs \<and> P r evs)))"

text \<open>
  The message of the event that the block of a stage records: the message of reuse for a
  stage that is skipped, and else the progress message of the stage, which for the polish
  stage depends on the configuration and for the polling stage carries the task id.
\<close>

fun stage_message :: "app_config \<Rightarrow> string \<Rightarrow> JobStatus \<Rightarrow> bool \<Rightarrow> message" where
  "stage_message config task_id st False = MsgSkip st"
| "stage_message config task_id TRANSCRIPT_POLISH True =
     (if cfg_enable_asr_polish config then MsgRun TRANSCRIPT_POLISH else MsgPolishDisabled)"
| "stage_message config task_id VIDEO_POLLING True = MsgPolling task_id"
| "stage_message config task_id st True = MsgRun st"

definition stage_event ::
  "app_config \<Rightarrow> string \<Rightarrow> string \<Rightarrow> JobStatus \<Rightarrow> bool \<Rightarrow> string \<times> string \<times> message" where
  "stage_event config task_id job_id st run =
     (job_id, status_value st, stage_message config task_id st run)"

text \<open>The notice that a run of a job with a parent records before its first stage.\<close>

definition rerun_notice :: "string \<Rightarrow> Job \<Rightarrow> (string \<times> string \<times> message) list" where
  "rerun_notice job_id job =
     (if job_parent_id job \<noteq> []
      then [(job_id, status_value QUEUED,
             MsgRerun (status_value (job_start_stage job)) (job_parent_id job))]
      else [])"

text \<open>
  The artifact of a kind has been reused from the parent: the parent's file is there, the
  file at the target holds the same bytes, and the job records the target under the kind.
\<close>

definition reused :: "world \<Rightarrow> string \<Rightarrow> (string \<times> string) list \<Rightarrow> string \<Rightarrow> string \<Rightarrow> bool" where
  "reused w job_id parent_artifacts kind target \<longleftrightarrow>
     (case map_of parent_artifacts kind of
        None \<Rightarrow> False
      | Some parent_path \<Rightarrow>
          files w parent_path \<noteq> None \<and> files w target = files w parent_path
          \<and> (case jobs w job_id of
                None \<Rightarrow> False
              | Some job \<Rightarrow> map_of (job_artifacts job) kind = Some target))"

section \<open>Example jobs\<close>

definition valid_script :: py_dict where
  "valid_script =
     [(''hook_title'', JStr ''t''), (''visual_prompt'', JStr ''v''),
      (''shot_list'', JArr [JStr ''s1'']), (''narration'', JStr ''n''),
      (''style_tags'', JArr [JStr ''fun'']), (''safety_notes'', JStr ''ok'')]"

definition demo_meta :: VideoMeta where
  "demo_meta =
     \<lparr>vm_width = 720, vm_height = 1280, vm_fps = ''30.0'', vm_duration = ''12.5'',
      vm_has_audio = True\<rparr>"

definition demo_tools :: tools where
  "demo_tools =
     \<lparr>t_ffmpeg_available = True,
      t_ffprobe_available = True,
      t_probe_video = (\<lambda>src. Inr demo_meta),
      t_extract_asr_clip_to_wav = (\<lambda>src seconds. Inr ''wav''),
      t_normalize_source_video = (\<lambda>src m. Inr ''source-norm''),
      t_normalize_hook_video = (\<lambda>src m seconds. Inr ''hook-norm''),
      t_concat_with_source = (\<lambda>hook src. Inr ''final''),
      t_asr_recognize = (\<lambda>wav. Inr transcript_payload),
      t_llm_generate_text = (\<lambda>system_prompt user_prompt. Inr (''SCRIPT'', JObj [])),
      t_video_submit_generation =
        (\<lambda>prompt seconds width height. Inr (''t1'', JObj [(''task_id'', JStr ''t1'')])),
      t_video_poll_until_done =
        (\<lambda>task_id. Inr (JObj [(''status'', JStr ''succeeded''),
                               (''video_url'', JStr ''https://x/y.mp4'')])),
      t_download_video = (\<lambda>url. Inr ''mp4''),
      t_json_dumps = py_repr,
      t_json_loads = (\<lambda>s. if s = ''SCRIPT'' then Some (JObj valid_script) else None),
      t_build_polish_prompt = (\<lambda>raw. raw),
      t_build_script_prompt = (\<lambda>polished seconds. polished),
      t_build_video_prompt = (\<lambda>system_prompt script. Inr system_prompt),
      t_safe_int = (\<lambda>v d. case v of JInt i \<Rightarrow> i | _ \<Rightarrow> d),
      t_safe_float_max = (\<lambda>lo v d. case v of JFloat f \<Rightarrow> f | _ \<Rightarrow> d)\<rparr>"

definition demo_config :: app_config where
  "demo_config =
     \<lparr>cfg_enable_asr_polish = False, cfg_asr_system_prompt = [],
      cfg_llm_asr_polish_system_prompt = ''polish'', cfg_llm_script_system_prompt = ''script'',
      cfg_video_system_prompt = ''video''\<rparr>"

definition parent_job :: Job where
  "parent_job =
     \<lparr>job_source_path = ''/jobs/p1/a.mp4'', job_asr_clip_seconds = 15,
      job_hook_clip_seconds = 5, job_status = ''completed'', job_error_message = None,
      job_artifacts =
        [(''source_video'', ''/jobs/p1/a.mp4''),
         (''asr_clip_audio'', ''/jobs/p1/asr_clip.wav''),
         (''transcript_raw'', ''/jobs/p1/transcript_raw.txt''),
         (''transcript_polished'', ''/jobs/p1/transcript_polished.txt''),
         (''hook_script_json'', ''/jobs/p1/hook_script.json''),
         (''hook_video_raw'', ''/archive/hook.mp4'')],
      job_meta = [(''source_meta'', video_meta_dict demo_meta), (''video_task_id'', JStr ''t0'')]\<rparr>"

definition rerun_job :: Job where
  "rerun_job =
     \<lparr>job_source_path = ''/jobs/r1/a.mp4'', job_asr_clip_seconds = 15,
      job_hook_clip_seconds = 5, job_status = ''queued'', job_error_message = None,
      job_artifacts = [],
      job_meta = [(''rerun_of_job_id'', JStr ''p1''),
                  (''rerun_start_stage'', JStr ''video_submit'')]\<rparr>"

definition late_rerun_job :: Job where
  "late_rerun_job =
     \<lparr>job_source_path = ''/jobs/r2/a.mp4'', job_asr_clip_seconds = 15,
      job_hook_clip_seconds = 5, job_status = ''queued'', job_error_message = None,
      job_artifacts = [],
      job_meta = [(''rerun_of_job_id'', JStr ''p1''),
                  (''rerun_start_stage'', JStr ''postprocess'')]\<rparr>"

text \<open>
  The parent has run to the end. Its artifact map names the raw hook video under a path
  outside its directory; that file and the clip audio are not on the disk any more.
\<close>

definition rerun_world :: world where
  "rerun_world =
     \<lparr>jobs = [''p1'' \<mapsto> parent_job, ''r1'' \<mapsto> rerun_job, ''r2'' \<mapsto> late_rerun_job],
      events = [],
      files = [''/jobs/p1/a.mp4'' \<mapsto> ''source'',
               ''/jobs/r1/a.mp4'' \<mapsto> ''source'',
               ''/jobs/r2/a.mp4'' \<mapsto> ''source'',
               ''/jobs/p1/transcript_raw.txt'' \<mapsto> ''hello'',
               ''/jobs/p1/transcript_polished.txt'' \<mapsto> ''hello.'',
               ''/jobs/p1/hook_script.json'' \<mapsto> ''SCRIPT'']\<rparr>"

text \<open>
  A required artifact of a kind cannot be reused, and \<open>e\<close> is the error that says so: the
  parent's artifact map has no path for the kind, or the file of the path is not on the disk.
\<close>

definition cannot_reuse ::
  "world \<Rightarrow> string \<Rightarrow> (string \<times> string) list \<Rightarrow> string \<Rightarrow> error \<Rightarrow> bool" where
  "cannot_reuse w parent_job_id parent_artifacts kind e \<longleftrightarrow>
     (case map_of parent_artifacts kind of
        None \<Rightarrow> e = PipelineError (ReuseMissingArtifact kind parent_job_id)
      | Some parent_path \<Rightarrow>
          if parent_path = [] then e = PipelineError (ReuseMissingArtifact kind parent_job_id)
          else files w parent_path = None
               \<and> e = PipelineError (ReuseFileNotExist kind parent_path))"

text \<open>The same jobs, with the raw hook video of the parent back on the disk.\<close>

definition restored_world :: world where
  "restored_world = rerun_world\<lparr>files := (files rerun_world)(''/archive/hook.mp4'' \<mapsto> ''mp4'')\<rparr>"

section \<open>Theorems\<close>

subsection \<open>The start stage of a rerun\<close>

lemma status_value_inj_on_stages:
  "a \<in> set STAGE_SEQUENCE \<Longrightarrow> b \<in> set STAGE_SEQUENCE \<Longrightarrow>
   status_value a = status_value b \<Longrightarrow> a = b"
  by (cases a; cases b; simp add: STAGE_SEQUENCE_def)

lemma find_stage_by_value:
  "st \<in> set STAGE_SEQUENCE \<Longrightarrow>
   find (\<lambda>status. status_value status = status_value st) STAGE_SEQUENCE = Some st"
  by (cases st; simp add: STAGE_SEQUENCE_def)

lemma find_in_set: "find P xs = Some x \<Longrightarrow> x \<in> set xs"
  by (induction xs) (auto split: if_splits)

lemma find_Some_holds: "find P xs = Some x \<Longrightarrow> P x"
  by (induction xs) (auto split: if_splits)

lemma py_strip_Nil: "py_strip [] = []"
  by (simp add: py_strip_def py_rstrip_def py_lstrip_def)

lemma PREPROCESSING_in_sequence: "PREPROCESSING \<in> set STAGE_SEQUENCE"
  by (simp add: STAGE_SEQUENCE_def)

lemma status_value_nonempty: "status_value st \<noteq> []"
  by (cases st) simp_all

lemma normalize_start_stage_find:
  "normalize_start_stage v =
     (case find (\<lambda>status. status_value status =
                  py_lower (py_strip (py_str (if py_truthy v then v else JStr ''preprocessing''))))
             STAGE_SEQUENCE of
        Some status \<Rightarrow> status
      | None \<Rightarrow> PREPROCESSING)"
  by (simp add: normalize_start_stage_def)

lemma preprocessing_raw: "py_lower (py_strip ''preprocessing'') = ''preprocessing''"
  by code_simp

text \<open>The no-break space and the next-line control are stripped like the space.\<close>

lemma py_strip_examples:
  "py_strip [CHR 0xA0] = []"
  "py_strip (''asr'' @ [CHR 0xA0]) = ''asr''"
  "py_strip ([CHR 0x85] @ ''x'' @ [CHR 0x85]) = ''x''"
  "normalize_start_stage (JStr (''ASR'' @ [CHR 0xA0])) = ASR"
  "py_lower [CHR 0xC0, CHR 0xD7, CHR 0xDE, CHR 0xDF] = [CHR 0xE0, CHR 0xD7, CHR 0xFE, CHR 0xDF]"
  by code_simp+

text \<open>
  C8. Whatever value \<^verbatim>\<open>rerun_start_stage\<close> holds, the start stage is a stage of the fixed
  order: a missing value (\<^verbatim>\<open>None\<close>) gives \<^verbatim>\<open>preprocessing\<close>; a string that, stripped and
  lower-cased, is the name of one of the seven stages gives that stage; and every value whose
  text is not the name of a stage gives \<^verbatim>\<open>preprocessing\<close>. The function has no error result.
\<close>

theorem normalize_start_stage_total:
  "normalize_start_stage v \<in> set STAGE_SEQUENCE
   \<and> normalize_start_stage JNull = PREPROCESSING
   \<and> (\<forall>st \<in> set STAGE_SEQUENCE. \<forall>s. py_lower (py_strip s) = status_value st
        \<longrightarrow> normalize_start_stage (JStr s) = st)
   \<and> ((\<forall>st \<in> set STAGE_SEQUENCE.
          py_lower (py_strip (py_str (if py_truthy v then v else JStr ''preprocessing'')))
            \<noteq> status_value st)
        \<longrightarrow> normalize_start_stage v = PREPROCESSING)"
proof (intro conjI ballI allI impI)
  show "normalize_start_stage v \<in> set STAGE_SEQUENCE"
    unfolding normalize_start_stage_find
    using PREPROCESSING_in_sequence
    by (simp split: option.split add: find_in_set)
next
  have "find (\<lambda>status. status_value status = status_value PREPROCESSING) STAGE_SEQUENCE
          = Some PREPROCESSING"
    by (rule find_stage_by_value [OF PREPROCESSING_in_sequence])
  then show "normalize_start_stage JNull = PREPROCESSING"
    unfolding normalize_start_stage_find
    by (simp add: py_str_def preprocessing_raw)
next
  fix st s
  assume st: "st \<in> set STAGE_SEQUENCE" and eq: "py_lower (py_strip s) = status_value st"
  have "s \<noteq> []"
  proof
    assume "s = []"
    with eq have "status_value st = []" by (simp add: py_strip_Nil py_lower_def)
    then show False by (simp add: status_value_nonempty)
  qed
  then show "normalize_start_stage (JStr s) = st"
    unfolding normalize_start_stage_find
    using eq find_stage_by_value [OF st]
    by (simp add: py_str_def)
next
  assume none: "\<forall>st \<in> set STAGE_SEQUENCE.
          py_lower (py_strip (py_str (if py_truthy v then v else JStr ''preprocessing'')))
            \<noteq> status_value st"
  show "normalize_start_stage v = PREPROCESSING"
  proof (cases "find (\<lambda>status. status_value status =
            py_lower (py_strip (py_str (if py_truthy v then v else JStr ''preprocessing''))))
          STAGE_SEQUENCE")
    case None
    then show ?thesis unfolding normalize_start_stage_find by simp
  next
    case (Some st)
    from find_in_set [OF Some] find_Some_holds [OF Some] none
    show ?thesis by auto
  qed
qed

theorem normalize_start_stage_total_witness:
  "normalize_start_stage (JStr ''  VIDEO_SUBMIT '') = VIDEO_SUBMIT
   \<and> normalize_start_stage (JStr ''unknown'') = PREPROCESSING
   \<and> normalize_start_stage (JInt 7) = PREPROCESSING
   \<and> normalize_start_stage (JStr ''unknown'') \<in> set STAGE_SEQUENCE"
proof -
  have in_seq: "VIDEO_SUBMIT \<in> set STAGE_SEQUENCE"
    by (simp add: STAGE_SEQUENCE_def)
  have low: "py_lower (py_strip ''  VIDEO_SUBMIT '') = status_value VIDEO_SUBMIT"
    by code_simp
  have unk: "\<forall>st \<in> set STAGE_SEQUENCE.
      py_lower (py_strip (py_str (if py_truthy (JStr ''unknown'') then JStr ''unknown''
                                  else JStr ''preprocessing''))) \<noteq> status_value st"
    by code_simp
  have seven: "\<forall>st \<in> set STAGE_SEQUENCE.
      py_lower (py_strip (py_str (if py_truthy (JInt 7) then JInt 7
                                  else JStr ''preprocessing''))) \<noteq> status_value st"
    by code_simp
  from normalize_start_stage_total [of "JStr ''  VIDEO_SUBMIT ''"] in_seq low
  have a: "normalize_start_stage (JStr ''  VIDEO_SUBMIT '') = VIDEO_SUBMIT"
    by blast
  from normalize_start_stage_total [of "JStr ''unknown''"] unk
  have b: "normalize_start_stage (JStr ''unknown'') = PREPROCESSING
           \<and> normalize_start_stage (JStr ''unknown'') \<in> set STAGE_SEQUENCE"
    by blast
  from normalize_start_stage_total [of "JInt 7"] seven
  have c: "normalize_start_stage (JInt 7) = PREPROCESSING"
    by blast
  from a b c show ?thesis by blast
qed

subsection \<open>Script schema\<close>

lemma finite_REQUIRED_FIELDS: "finite REQUIRED_FIELDS"
  by (simp add: REQUIRED_FIELDS_def)

lemma missing_fields_set: "set (missing_fields payload) = REQUIRED_FIELDS - dict_keys payload"
  by (simp add: missing_fields_def finite_REQUIRED_FIELDS)

lemma missing_fields_sorted: "sorted (missing_fields payload) \<and> distinct (missing_fields payload)"
  by (simp add: missing_fields_def)

lemma missing_fields_Nil_iff:
  "missing_fields payload = [] \<longleftrightarrow> REQUIRED_FIELDS \<subseteq> dict_keys payload"
proof -
  have "missing_fields payload = [] \<longleftrightarrow> set (missing_fields payload) = {}"
    by simp
  then show ?thesis
    unfolding missing_fields_set by blast
qed

lemma sublist_prepend: "sublist x ys \<Longrightarrow> sublist x (ps @ ys)"
proof -
  assume "sublist x ys"
  then obtain a b where "ys = a @ x @ b"
    by (auto simp: sublist_def)
  then have "ps @ ys = (ps @ a) @ x @ b"
    by simp
  then show ?thesis
    unfolding sublist_def by blast
qed

lemma sublist_py_join: "x \<in> set xs \<Longrightarrow> sublist x (py_join sep xs)"
proof (induction sep xs rule: py_join.induct)
  case (1 sep)
  then show ?case by simp
next
  case (2 sep y)
  then show ?case by simp
next
  case (3 sep y z zs)
  show ?case
  proof (cases "x = y")
    case True
    then show ?thesis by (simp add: sublist_append_rightI)
  next
    case False
    with 3 have "sublist x (py_join sep (z # zs))" by simp
    then have "sublist x ((y @ sep) @ py_join sep (z # zs))"
      by (rule sublist_prepend)
    then show ?thesis by simp
  qed
qed

lemma validate_script_payload_accepts_iff:
  "validate_script_payload payload = Inr payload \<longleftrightarrow>
     REQUIRED_FIELDS \<subseteq> dict_keys payload
     \<and> is_list (dict_get payload ''shot_list'')
     \<and> is_list (dict_get payload ''style_tags'')
     \<and> (\<forall>key \<in> set SCALAR_FIELDS. nonblank_str (dict_get payload key))"
proof -
  have f: "find (\<lambda>key. \<not> nonblank_str (dict_get payload key)) SCALAR_FIELDS = None
           \<longleftrightarrow> (\<forall>key \<in> set SCALAR_FIELDS. nonblank_str (dict_get payload key))"
    by (auto simp: find_None_iff)
  show ?thesis
    unfolding validate_script_payload_def Let_def missing_fields_Nil_iff [symmetric] f [symmetric]
    by (simp split: option.split)
qed

lemma validate_script_payload_missing:
  "\<not> REQUIRED_FIELDS \<subseteq> dict_keys payload \<Longrightarrow>
   validate_script_payload payload =
     Inl (ScriptSchemaError (''missing fields: '' @ py_join '', '' (missing_fields payload)))"
  unfolding validate_script_payload_def Let_def missing_fields_Nil_iff [symmetric]
  by simp

lemma validate_script_payload_cases:
  "validate_script_payload payload = Inr payload
   \<or> (\<exists>msg. validate_script_payload payload = Inl (ScriptSchemaError msg))"
  unfolding validate_script_payload_def Let_def
  by (simp split: option.split)

text \<open>
  C3 (amended). \<^verbatim>\<open>validate_script_payload\<close> returns the payload, unchanged, exactly when the
  payload has every required key (other keys may be present as well), \<^verbatim>\<open>shot_list\<close> and
  \<^verbatim>\<open>style_tags\<close> are arrays and the four text fields are strings that are non-empty after
  stripping. Every other payload gives a \<^verbatim>\<open>ScriptSchemaError\<close>. When required keys are
  missing, the message is \<^verbatim>\<open>missing fields: \<close> followed by all missing keys, sorted and
  joined by commas, so every missing key occurs in it.
\<close>

theorem validate_script_payload_accepts:
  "(validate_script_payload payload = Inr payload \<longleftrightarrow>
      REQUIRED_FIELDS \<subseteq> dict_keys payload
      \<and> is_list (dict_get payload ''shot_list'')
      \<and> is_list (dict_get payload ''style_tags'')
      \<and> (\<forall>key \<in> set SCALAR_FIELDS. nonblank_str (dict_get payload key)))
   \<and> (validate_script_payload payload = Inr payload
        \<or> (\<exists>msg. validate_script_payload payload = Inl (ScriptSchemaError msg)))
   \<and> (\<not> REQUIRED_FIELDS \<subseteq> dict_keys payload \<longrightarrow>
        validate_script_payload payload =
          Inl (ScriptSchemaError (''missing fields: '' @ py_join '', '' (missing_fields payload)))
        \<and> set (missing_fields payload) = REQUIRED_FIELDS - dict_keys payload
        \<and> sorted (missing_fields payload)
        \<and> (\<forall>k \<in> REQUIRED_FIELDS - dict_keys payload.
              sublist k (''missing fields: '' @ py_join '', '' (missing_fields payload))))"
proof (intro conjI impI ballI)
  show "validate_script_payload payload = Inr payload \<longleftrightarrow>
      REQUIRED_FIELDS \<subseteq> dict_keys payload
      \<and> is_list (dict_get payload ''shot_list'')
      \<and> is_list (dict_get payload ''style_tags'')
      \<and> (\<forall>key \<in> set SCALAR_FIELDS. nonblank_str (dict_get payload key))"
    by (rule validate_script_payload_accepts_iff)
next
  show "validate_script_payload payload = Inr payload
        \<or> (\<exists>msg. validate_script_payload payload = Inl (ScriptSchemaError msg))"
    by (rule validate_script_payload_cases)
next
  assume "\<not> REQUIRED_FIELDS \<subseteq> dict_keys payload"
  then show "validate_script_payload payload =
          Inl (ScriptSchemaError (''missing fields: '' @ py_join '', '' (missing_fields payload)))"
    by (rule validate_script_payload_missing)
next
  show "set (missing_fields payload) = REQUIRED_FIELDS - dict_keys payload"
    by (rule missing_fields_set)
next
  show "sorted (missing_fields payload)"
    using missing_fields_sorted by blast
next
  fix k
  assume "k \<in> REQUIRED_FIELDS - dict_keys payload"
  then have "k \<in> set (missing_fields payload)"
    by (simp add: missing_fields_set)
  then have "sublist k (py_join '', '' (missing_fields payload))"
    by (rule sublist_py_join)
  then show "sublist k (''missing fields: '' @ py_join '', '' (missing_fields payload))"
    by (rule sublist_prepend)
qed

lemma script_two_fields_missing:
  "missing_fields script_two_fields = [''narration'', ''safety_notes'', ''shot_list'', ''style_tags'']"
  by code_simp

lemma script_two_fields_not_all: "\<not> REQUIRED_FIELDS \<subseteq> dict_keys script_two_fields"
  by code_simp

theorem validate_script_payload_accepts_witness:
  "validate_script_payload script_two_fields =
     Inl (ScriptSchemaError ''missing fields: narration, safety_notes, shot_list, style_tags'')
   \<and> sublist ''shot_list'' ''missing fields: narration, safety_notes, shot_list, style_tags''"
proof -
  have k: "''shot_list'' \<in> REQUIRED_FIELDS - dict_keys script_two_fields"
    by code_simp
  have j: "''missing fields: '' @ py_join '', '' (missing_fields script_two_fields)
           = ''missing fields: narration, safety_notes, shot_list, style_tags''"
    unfolding script_two_fields_missing by simp
  from validate_script_payload_accepts [of script_two_fields] script_two_fields_not_all k
  have "validate_script_payload script_two_fields =
          Inl (ScriptSchemaError (''missing fields: '' @ py_join '', '' (missing_fields script_two_fields)))
        \<and> sublist ''shot_list'' (''missing fields: '' @ py_join '', '' (missing_fields script_two_fields))"
    by blast
  then show ?thesis unfolding j .
qed

text \<open>
  C3 as stated fails: a payload with the six required fields and one more key is accepted,
  although its keys are not exactly the required ones.
\<close>

theorem validate_script_payload_extra_key_counterexample:
  "validate_script_payload script_with_extra_key = Inr script_with_extra_key
   \<and> dict_keys script_with_extra_key \<noteq> REQUIRED_FIELDS"
proof
  have "REQUIRED_FIELDS \<subseteq> dict_keys script_with_extra_key"
    by code_simp
  moreover have "is_list (dict_get script_with_extra_key ''shot_list'')"
    by code_simp
  moreover have "is_list (dict_get script_with_extra_key ''style_tags'')"
    by code_simp
  moreover have "\<forall>key \<in> set SCALAR_FIELDS. nonblank_str (dict_get script_with_extra_key key)"
    by code_simp
  ultimately show "validate_script_payload script_with_extra_key = Inr script_with_extra_key"
    unfolding validate_script_payload_accepts_iff by blast
next
  have "''extra'' \<in> dict_keys script_with_extra_key"
    by (simp add: dict_keys_def script_with_extra_key_def)
  moreover have "''extra'' \<notin> REQUIRED_FIELDS"
    by (simp add: REQUIRED_FIELDS_def)
  ultimately show "dict_keys script_with_extra_key \<noteq> REQUIRED_FIELDS"
    by blast
qed


subsection \<open>Transcript extraction\<close>

lemma first_block_text_decides:
  "(\<forall>x \<in> set pre. block_parts x = []) \<Longrightarrow> block_parts b \<noteq> [] \<Longrightarrow>
   first_block_text (pre @ b # post) = Some (py_join NEWLINE (block_parts b))"
  by (induction pre) simp_all

lemma first_block_text_None:
  "(\<forall>x \<in> set blocks. block_parts x = []) \<Longrightarrow> first_block_text blocks = None"
  by (induction blocks) simp_all

lemma first_string_decides:
  "(\<forall>x \<in> set pre. \<not> nonblank_str x) \<Longrightarrow> py_strip s \<noteq> [] \<Longrightarrow>
   first_string (pre @ JStr s # post) = Some (py_strip s)"
proof (induction pre)
  case Nil
  then show ?case by simp
next
  case (Cons x pre)
  then show ?case by (cases x) simp_all
qed

lemma first_string_None:
  "(\<forall>x \<in> set vs. \<not> nonblank_str x) \<Longrightarrow> first_string vs = None"
proof (induction vs)
  case Nil
  then show ?case by simp
next
  case (Cons x vs)
  then show ?case by (cases x) simp_all
qed

lemma result_text_direct:
  "dict_get payload ''result'' = JObj result \<Longrightarrow> dict_get result ''text'' = JStr direct \<Longrightarrow>
   py_strip direct \<noteq> [] \<Longrightarrow> result_text payload = Some (py_strip direct)"
  by (simp add: result_text_def)

text \<open>
  C9 (amended). \<^verbatim>\<open>parse_asr_text\<close> is a total function of the payload dict, with this
  precedence: a non-blank string at \<^verbatim>\<open>result.text\<close> is returned stripped; otherwise, of the
  values found under \<^verbatim>\<open>utterances\<close> or \<^verbatim>\<open>sentences\<close> in pre-order, the first one that is
  a list with at least one row carrying a non-blank string \<^verbatim>\<open>text\<close> decides, and the stripped
  texts of its rows are joined by newlines; otherwise the first non-blank string under a key
  \<^verbatim>\<open>text\<close> is returned stripped; otherwise the result is the empty string.
\<close>

theorem parse_asr_text_precedence:
  "(\<forall>result direct.
      dict_get payload ''result'' = JObj result \<and> dict_get result ''text'' = JStr direct
      \<and> py_strip direct \<noteq> [] \<longrightarrow> parse_asr_text payload = py_strip direct)
   \<and> (\<forall>pre b post.
        result_text payload = None
        \<and> deep_find (JObj payload) BLOCK_KEYS = pre @ b # post
        \<and> (\<forall>x \<in> set pre. block_parts x = []) \<and> block_parts b \<noteq> []
        \<longrightarrow> parse_asr_text payload = py_join NEWLINE (block_parts b))
   \<and> (\<forall>pre s post.
        result_text payload = None
        \<and> (\<forall>x \<in> set (deep_find (JObj payload) BLOCK_KEYS). block_parts x = [])
        \<and> deep_find (JObj payload) {''text''} = pre @ JStr s # post
        \<and> (\<forall>x \<in> set pre. \<not> nonblank_str x) \<and> py_strip s \<noteq> []
        \<longrightarrow> parse_asr_text payload = py_strip s)
   \<and> (result_text payload = None
        \<and> (\<forall>x \<in> set (deep_find (JObj payload) BLOCK_KEYS). block_parts x = [])
        \<and> (\<forall>x \<in> set (deep_find (JObj payload) {''text''}). \<not> nonblank_str x)
        \<longrightarrow> parse_asr_text payload = [])"
proof (intro conjI allI impI)
  fix result direct
  assume "dict_get payload ''result'' = JObj result \<and> dict_get result ''text'' = JStr direct
      \<and> py_strip direct \<noteq> []"
  then have "result_text payload = Some (py_strip direct)"
    by (simp add: result_text_direct)
  then show "parse_asr_text payload = py_strip direct"
    by (simp add: parse_asr_text_def)
next
  fix pre b post
  assume a: "result_text payload = None
        \<and> deep_find (JObj payload) BLOCK_KEYS = pre @ b # post
        \<and> (\<forall>x \<in> set pre. block_parts x = []) \<and> block_parts b \<noteq> []"
  then have "first_block_text (deep_find (JObj payload) BLOCK_KEYS)
               = Some (py_join NEWLINE (block_parts b))"
    using first_block_text_decides [of pre b post] by simp
  with a show "parse_asr_text payload = py_join NEWLINE (block_parts b)"
    by (simp add: parse_asr_text_def)
next
  fix pre s post
  assume a: "result_text payload = None
        \<and> (\<forall>x \<in> set (deep_find (JObj payload) BLOCK_KEYS). block_parts x = [])
        \<and> deep_find (JObj payload) {''text''} = pre @ JStr s # post
        \<and> (\<forall>x \<in> set pre. \<not> nonblank_str x) \<and> py_strip s \<noteq> []"
  then have "first_block_text (deep_find (JObj payload) BLOCK_KEYS) = None"
    using first_block_text_None by blast
  moreover from a have "first_string (deep_find (JObj payload) {''text''}) = Some (py_strip s)"
    using first_string_decides [of pre s post] by simp
  ultimately show "parse_asr_text payload = py_strip s"
    using a by (simp add: parse_asr_text_def)
next
  assume a: "result_text payload = None
        \<and> (\<forall>x \<in> set (deep_find (JObj payload) BLOCK_KEYS). block_parts x = [])
        \<and> (\<forall>x \<in> set (deep_find (JObj payload) {''text''}). \<not> nonblank_str x)"
  then have "first_block_text (deep_find (JObj payload) BLOCK_KEYS) = None"
    using first_block_text_None by blast
  moreover from a have "first_string (deep_find (JObj payload) {''text''}) = None"
    using first_string_None by blast
  ultimately show "parse_asr_text payload = []"
    using a by (simp add: parse_asr_text_def)
qed

theorem parse_asr_text_precedence_witness:
  "parse_asr_text payload_direct = ''hi''
   \<and> parse_asr_text payload_empty_first_block = ''a'' @ NEWLINE @ ''b''
   \<and> parse_asr_text payload_nested_text = ''x''
   \<and> parse_asr_text payload_no_text = []"
proof (intro conjI)
  have g: "dict_get payload_direct ''result'' = JObj [(''text'', JStr '' hi '')]
           \<and> dict_get [(''text'', JStr '' hi '')] ''text'' = JStr '' hi ''
           \<and> py_strip '' hi '' \<noteq> []"
    by code_simp
  have s: "py_strip '' hi '' = ''hi''"
    by code_simp
  from parse_asr_text_precedence [of payload_direct] g
  have "parse_asr_text payload_direct = py_strip '' hi ''"
    by blast
  then show "parse_asr_text payload_direct = ''hi''"
    unfolding s .
next
  have r: "result_text payload_empty_first_block = None"
    by code_simp
  have d: "deep_find (JObj payload_empty_first_block) BLOCK_KEYS =
             [JArr []] @ JArr [JObj [(''text'', JStr ''a'')], JObj [(''text'', JStr ''b'')]] # []"
    by code_simp
  have p: "\<forall>x \<in> set [JArr []]. block_parts x = []"
    by code_simp
  have q: "block_parts (JArr [JObj [(''text'', JStr ''a'')], JObj [(''text'', JStr ''b'')]]) \<noteq> []"
    by code_simp
  have j: "py_join NEWLINE
             (block_parts (JArr [JObj [(''text'', JStr ''a'')], JObj [(''text'', JStr ''b'')]]))
           = ''a'' @ NEWLINE @ ''b''"
    by code_simp
  from parse_asr_text_precedence [of payload_empty_first_block] r d p q
  have "parse_asr_text payload_empty_first_block =
          py_join NEWLINE
            (block_parts (JArr [JObj [(''text'', JStr ''a'')], JObj [(''text'', JStr ''b'')]]))"
    by blast
  then show "parse_asr_text payload_empty_first_block = ''a'' @ NEWLINE @ ''b''"
    unfolding j .
next
  have r: "result_text payload_nested_text = None"
    by code_simp
  have b: "\<forall>x \<in> set (deep_find (JObj payload_nested_text) BLOCK_KEYS). block_parts x = []"
    by code_simp
  have d: "deep_find (JObj payload_nested_text) {''text''} = [] @ JStr '' x '' # []"
    by code_simp
  have p: "\<forall>x \<in> set []. \<not> nonblank_str x"
    by simp
  have q: "py_strip '' x '' \<noteq> []"
    by code_simp
  have s: "py_strip '' x '' = ''x''"
    by code_simp
  from parse_asr_text_precedence [of payload_nested_text] r b d p q
  have "parse_asr_text payload_nested_text = py_strip '' x ''"
    by blast
  then show "parse_asr_text payload_nested_text = ''x''"
    unfolding s .
next
  have r: "result_text payload_no_text = None"
    by code_simp
  have b: "\<forall>x \<in> set (deep_find (JObj payload_no_text) BLOCK_KEYS). block_parts x = []"
    by code_simp
  have t: "\<forall>x \<in> set (deep_find (JObj payload_no_text) {''text''}). \<not> nonblank_str x"
    by code_simp
  from parse_asr_text_precedence [of payload_no_text] r b t
  show "parse_asr_text payload_no_text = []"
    by blast
qed

text \<open>
  C9 as stated fails: here the first block that the search finds is an empty list, and the
  result is made of the rows of the second block, not of the first block found (nor is it
  the first string under \<^verbatim>\<open>text\<close>).
\<close>

theorem parse_asr_text_first_block_counterexample:
  "deep_find (JObj payload_empty_first_block) BLOCK_KEYS =
     [JArr [], JArr [JObj [(''text'', JStr ''a'')], JObj [(''text'', JStr ''b'')]]]
   \<and> parse_asr_text payload_empty_first_block = ''a'' @ NEWLINE @ ''b''
   \<and> parse_asr_text_first_block_found payload_empty_first_block = ''a''
   \<and> parse_asr_text payload_empty_first_block
       \<noteq> parse_asr_text_first_block_found payload_empty_first_block"
  by code_simp

subsection \<open>Extracting a JSON object\<close>

lemma split_at_last:
  assumes "c \<in> set xs"
  shows "\<exists>post. xs = rev (dropWhile (\<lambda>x. x \<noteq> c) (rev xs)) @ post \<and> c \<notin> set post
           \<and> rev (dropWhile (\<lambda>x. x \<noteq> c) (rev xs)) \<noteq> []
           \<and> last (rev (dropWhile (\<lambda>x. x \<noteq> c) (rev xs))) = c"
proof -
  let ?P = "\<lambda>x. x \<noteq> c"
  let ?d = "dropWhile ?P (rev xs)"
  let ?t = "takeWhile ?P (rev xs)"
  have "rev (rev xs) = rev (?t @ ?d)"
    by (simp only: takeWhile_dropWhile_id)
  then have x: "xs = rev ?d @ rev ?t"
    by (simp only: rev_rev_ident rev_append)
  have n: "c \<notin> set (rev ?t)"
    using set_takeWhileD [of c ?P "rev xs"] by auto
  have ne: "?d \<noteq> []"
    using assms by (simp add: dropWhile_eq_Nil_conv)
  then have "\<not> ?P (hd ?d)" by (rule hd_dropWhile)
  then have "hd ?d = c" by simp
  with ne have l: "last (rev ?d) = c" by (simp add: last_rev)
  from x n ne l show ?thesis by blast
qed

lemma brace_span_shape:
  assumes "brace_span t = Some span"
  shows "\<exists>pre post. t = pre @ span @ post \<and> CHR ''{'' \<notin> set pre \<and> CHR ''}'' \<notin> set post
           \<and> hd span = CHR ''{'' \<and> last span = CHR ''}'' \<and> 2 \<le> length span"
proof -
  let ?P = "\<lambda>c. c \<noteq> CHR ''{''"
  let ?rest = "dropWhile ?P t"
  from assms have ne: "?rest \<noteq> []" and cl: "CHR ''}'' \<in> set (tl ?rest)"
    and sp: "span = rev (dropWhile (\<lambda>c. c \<noteq> CHR ''}'') (rev ?rest))"
    by (auto simp: brace_span_def Let_def split: if_splits)
  from ne have "\<not> ?P (hd ?rest)" by (rule hd_dropWhile)
  then have h: "hd ?rest = CHR ''{''" by simp
  from ne h obtain tl1 where r: "?rest = CHR ''{'' # tl1"
    by (cases ?rest) auto
  with cl have cl1: "CHR ''}'' \<in> set tl1" by simp
  from split_at_last [OF cl1] obtain post1 where
    p1: "tl1 = rev (dropWhile (\<lambda>x. x \<noteq> CHR ''}'') (rev tl1)) @ post1"
    and p2: "CHR ''}'' \<notin> set post1"
    and p3: "rev (dropWhile (\<lambda>x. x \<noteq> CHR ''}'') (rev tl1)) \<noteq> []"
    and p4: "last (rev (dropWhile (\<lambda>x. x \<noteq> CHR ''}'') (rev tl1))) = CHR ''}''"
    by blast
  let ?mid = "rev (dropWhile (\<lambda>x. x \<noteq> CHR ''}'') (rev tl1))"
  have d: "dropWhile (\<lambda>x. x \<noteq> CHR ''}'') (rev tl1) \<noteq> []"
    using p3 by simp
  have "dropWhile (\<lambda>x. x \<noteq> CHR ''}'') (rev tl1 @ [CHR ''{''])
          = dropWhile (\<lambda>x. x \<noteq> CHR ''}'') (rev tl1) @ [CHR ''{'']"
    using cl1 by (simp add: dropWhile_append1)
  then have s: "span = CHR ''{'' # ?mid"
    using sp r by simp
  have t: "t = takeWhile ?P t @ ?rest" by simp
  have "t = takeWhile ?P t @ span @ post1"
    using r s p1 t by (metis append_Cons)
  moreover have "CHR ''{'' \<notin> set (takeWhile ?P t)"
    using set_takeWhileD [of "CHR ''{''" ?P t] by auto
  moreover have "hd span = CHR ''{''" using s by simp
  moreover have "last span = CHR ''}''" using s p3 p4 by simp
  moreover have "2 \<le> length span" using s p3 by (cases ?mid) auto
  ultimately show ?thesis using p2 by blast
qed

lemma extract_first_json_object_whole:
  "py_strip text0 \<noteq> [] \<Longrightarrow> loads (strip_fences (py_strip text0)) = Some (JObj obj) \<Longrightarrow>
   extract_first_json_object loads text0 = Inr obj"
  by (simp add: extract_first_json_object_def)

lemma extract_first_json_object_Inr:
  "extract_first_json_object loads text0 = Inr obj \<Longrightarrow>
   loads (strip_fences (py_strip text0)) = Some (JObj obj)
   \<or> (\<exists>span. brace_span (strip_fences (py_strip text0)) = Some span
              \<and> loads span = Some (JObj obj))"
  by (auto simp: extract_first_json_object_def Let_def
           split: if_splits option.splits json.splits)

lemma extract_first_json_object_span:
  "py_strip text0 \<noteq> [] \<Longrightarrow>
   (\<forall>obj. loads (strip_fences (py_strip text0)) \<noteq> Some (JObj obj)) \<Longrightarrow>
   brace_span (strip_fences (py_strip text0)) = Some span \<Longrightarrow>
   loads span = Some (JObj obj) \<Longrightarrow>
   extract_first_json_object loads text0 = Inr obj"
  by (auto simp: extract_first_json_object_def Let_def split: option.splits json.splits)

lemma extract_first_json_object_fails:
  "py_strip text0 = []
   \<or> (\<forall>obj. loads (strip_fences (py_strip text0)) \<noteq> Some (JObj obj))
      \<and> (brace_span (strip_fences (py_strip text0)) = None
          \<or> (\<exists>span. brace_span (strip_fences (py_strip text0)) = Some span
                \<and> (\<forall>obj. loads span \<noteq> Some (JObj obj)))) \<Longrightarrow>
   extract_first_json_object loads text0 \<in>
     {Inl (PyValueError ''empty llm output''),
      Inl (PyValueError ''no json object found in llm output''),
      Inl JSONDecodeError,
      Inl (PyValueError ''llm output json must be object'')}"
  by (auto simp: extract_first_json_object_def Let_def split: option.splits json.splits)

lemma strip_fences_unfenced: "\<not> py_startswith t FENCE \<Longrightarrow> strip_fences t = t"
  by (simp add: strip_fences_def)

text \<open>
  C5 (amended). \<^verbatim>\<open>extract_first_json_object\<close> strips the text and, when it starts with a
  code fence, removes the fences; if the whole cleaned text parses to an object, that object
  is returned. When the whole text does not parse, and also when it parses to a value that
  is not an object, the span from the first opening brace to the last closing brace is
  parsed and returned when it is an object. In every other case the result is an error (the
  text is empty, no span exists, the span does not parse, or its value is not an object), so
  an object that is returned is always the parse of the whole cleaned text or of that span.
  On a text that is a JSON object already, the object is returned.
\<close>

theorem extract_first_json_object_behaviour:
  "(\<forall>obj. py_strip text0 \<noteq> [] \<and> loads (strip_fences (py_strip text0)) = Some (JObj obj)
       \<longrightarrow> extract_first_json_object loads text0 = Inr obj)
   \<and> (\<forall>span obj.
        py_strip text0 \<noteq> []
        \<and> (\<forall>whole. loads (strip_fences (py_strip text0)) \<noteq> Some (JObj whole))
        \<and> brace_span (strip_fences (py_strip text0)) = Some span
        \<and> loads span = Some (JObj obj)
        \<longrightarrow> extract_first_json_object loads text0 = Inr obj)
   \<and> (\<forall>span. brace_span (strip_fences (py_strip text0)) = Some span
        \<longrightarrow> (\<exists>pre post. strip_fences (py_strip text0) = pre @ span @ post
               \<and> CHR ''{'' \<notin> set pre \<and> CHR ''}'' \<notin> set post
               \<and> hd span = CHR ''{'' \<and> last span = CHR ''}'' \<and> 2 \<le> length span))
   \<and> (py_strip text0 = []
        \<or> (\<forall>whole. loads (strip_fences (py_strip text0)) \<noteq> Some (JObj whole))
           \<and> (brace_span (strip_fences (py_strip text0)) = None
               \<or> (\<exists>span. brace_span (strip_fences (py_strip text0)) = Some span
                     \<and> (\<forall>obj. loads span \<noteq> Some (JObj obj))))
        \<longrightarrow> extract_first_json_object loads text0 \<in>
              {Inl (PyValueError ''empty llm output''),
               Inl (PyValueError ''no json object found in llm output''),
               Inl JSONDecodeError,
               Inl (PyValueError ''llm output json must be object'')})
   \<and> (\<forall>obj. extract_first_json_object loads text0 = Inr obj
        \<longrightarrow> loads (strip_fences (py_strip text0)) = Some (JObj obj)
            \<or> (\<exists>span. brace_span (strip_fences (py_strip text0)) = Some span
                  \<and> loads span = Some (JObj obj)))
   \<and> (\<forall>obj. py_strip text0 \<noteq> [] \<and> \<not> py_startswith (py_strip text0) FENCE
        \<and> loads (py_strip text0) = Some (JObj obj)
        \<longrightarrow> extract_first_json_object loads text0 = Inr obj)"
proof (intro conjI allI impI)
  fix obj
  assume "py_strip text0 \<noteq> [] \<and> loads (strip_fences (py_strip text0)) = Some (JObj obj)"
  then show "extract_first_json_object loads text0 = Inr obj"
    by (simp add: extract_first_json_object_whole)
next
  fix span obj
  assume "py_strip text0 \<noteq> []
        \<and> (\<forall>whole. loads (strip_fences (py_strip text0)) \<noteq> Some (JObj whole))
        \<and> brace_span (strip_fences (py_strip text0)) = Some span
        \<and> loads span = Some (JObj obj)"
  then show "extract_first_json_object loads text0 = Inr obj"
    using extract_first_json_object_span [of text0 loads span obj] by blast
next
  fix span
  assume "brace_span (strip_fences (py_strip text0)) = Some span"
  then show "\<exists>pre post. strip_fences (py_strip text0) = pre @ span @ post
               \<and> CHR ''{'' \<notin> set pre \<and> CHR ''}'' \<notin> set post
               \<and> hd span = CHR ''{'' \<and> last span = CHR ''}'' \<and> 2 \<le> length span"
    by (rule brace_span_shape)
next
  assume "py_strip text0 = []
        \<or> (\<forall>whole. loads (strip_fences (py_strip text0)) \<noteq> Some (JObj whole))
           \<and> (brace_span (strip_fences (py_strip text0)) = None
               \<or> (\<exists>span. brace_span (strip_fences (py_strip text0)) = Some span
                     \<and> (\<forall>obj. loads span \<noteq> Some (JObj obj))))"
  then show "extract_first_json_object loads text0 \<in>
              {Inl (PyValueError ''empty llm output''),
               Inl (PyValueError ''no json object found in llm output''),
               Inl JSONDecodeError,
               Inl (PyValueError ''llm output json must be object'')}"
    by (rule extract_first_json_object_fails)
next
  fix obj
  assume "extract_first_json_object loads text0 = Inr obj"
  then show "loads (strip_fences (py_strip text0)) = Some (JObj obj)
            \<or> (\<exists>span. brace_span (strip_fences (py_strip text0)) = Some span
                  \<and> loads span = Some (JObj obj))"
    by (rule extract_first_json_object_Inr)
next
  fix obj
  assume a: "py_strip text0 \<noteq> [] \<and> \<not> py_startswith (py_strip text0) FENCE
        \<and> loads (py_strip text0) = Some (JObj obj)"
  then have "strip_fences (py_strip text0) = py_strip text0"
    by (simp add: strip_fences_unfenced)
  with a show "extract_first_json_object loads text0 = Inr obj"
    by (simp add: extract_first_json_object_whole)
qed

theorem extract_first_json_object_behaviour_witness:
  "extract_first_json_object loads_empty_object fenced_text = Inr []
   \<and> extract_first_json_object loads_empty_object ''Sure: {} ok'' = Inr []
   \<and> extract_first_json_object loads_empty_object ''  {}  '' = Inr []
   \<and> extract_first_json_object loads_empty_object ''no braces''
       \<in> {Inl (PyValueError ''empty llm output''),
          Inl (PyValueError ''no json object found in llm output''),
          Inl JSONDecodeError,
          Inl (PyValueError ''llm output json must be object'')}
   \<and> extract_first_json_object loads_object_in_list ''[{}]'' = Inr []"
proof (intro conjI)
  have "loads_object_in_list (strip_fences (py_strip ''[{}]'')) = Some (JArr [JObj []])"
    by code_simp
  moreover have "py_strip ''[{}]'' \<noteq> []
        \<and> brace_span (strip_fences (py_strip ''[{}]'')) = Some ''{}''
        \<and> loads_object_in_list ''{}'' = Some (JObj [])"
    by code_simp
  ultimately have "py_strip ''[{}]'' \<noteq> []
        \<and> (\<forall>whole. loads_object_in_list (strip_fences (py_strip ''[{}]''))
              \<noteq> Some (JObj whole))
        \<and> brace_span (strip_fences (py_strip ''[{}]'')) = Some ''{}''
        \<and> loads_object_in_list ''{}'' = Some (JObj [])"
    by simp
  with extract_first_json_object_behaviour [of "''[{}]''" loads_object_in_list]
  show "extract_first_json_object loads_object_in_list ''[{}]'' = Inr []"
    by blast
next
  have "py_strip fenced_text \<noteq> []
        \<and> loads_empty_object (strip_fences (py_strip fenced_text)) = Some (JObj [])"
    by code_simp
  with extract_first_json_object_behaviour [of fenced_text loads_empty_object]
  show "extract_first_json_object loads_empty_object fenced_text = Inr []"
    by blast
next
  have "loads_empty_object (strip_fences (py_strip ''Sure: {} ok'')) = None"
    by code_simp
  moreover have "py_strip ''Sure: {} ok'' \<noteq> []
        \<and> brace_span (strip_fences (py_strip ''Sure: {} ok'')) = Some ''{}''
        \<and> loads_empty_object ''{}'' = Some (JObj [])"
    by code_simp
  ultimately have "py_strip ''Sure: {} ok'' \<noteq> []
        \<and> (\<forall>whole. loads_empty_object (strip_fences (py_strip ''Sure: {} ok''))
              \<noteq> Some (JObj whole))
        \<and> brace_span (strip_fences (py_strip ''Sure: {} ok'')) = Some ''{}''
        \<and> loads_empty_object ''{}'' = Some (JObj [])"
    by simp
  with extract_first_json_object_behaviour [of "''Sure: {} ok''" loads_empty_object]
  show "extract_first_json_object loads_empty_object ''Sure: {} ok'' = Inr []"
    by blast
next
  have "py_strip ''  {}  '' \<noteq> [] \<and> \<not> py_startswith (py_strip ''  {}  '') FENCE
        \<and> loads_empty_object (py_strip ''  {}  '') = Some (JObj [])"
    by code_simp
  with extract_first_json_object_behaviour [of "''  {}  ''" loads_empty_object]
  show "extract_first_json_object loads_empty_object ''  {}  '' = Inr []"
    by blast
next
  have "loads_empty_object (strip_fences (py_strip ''no braces'')) = None
        \<and> brace_span (strip_fences (py_strip ''no braces'')) = None"
    by code_simp
  then have "(\<forall>whole. loads_empty_object (strip_fences (py_strip ''no braces''))
              \<noteq> Some (JObj whole))
        \<and> brace_span (strip_fences (py_strip ''no braces'')) = None"
    by simp
  with extract_first_json_object_behaviour [of "''no braces''" loads_empty_object]
  show "extract_first_json_object loads_empty_object ''no braces''
       \<in> {Inl (PyValueError ''empty llm output''),
          Inl (PyValueError ''no json object found in llm output''),
          Inl JSONDecodeError,
          Inl (PyValueError ''llm output json must be object'')}"
    by blast
qed

theorem extract_first_json_object_non_object_counterexample:
  "loads_object_in_list ''[{}]'' = Some (JArr [JObj []])
   \<and> extract_first_json_object loads_object_in_list ''[{}]'' = Inr []"
  by code_simp

subsection \<open>Video submit\<close>

lemma submit_attempts_advance:
  "post idx payload = Inr resp \<Longrightarrow> advances resp \<Longrightarrow>
   submit_attempts post idx (payload # rest) errs =
     submit_attempts post (Suc idx) rest (errs @ [attempt_entry idx (Inr resp)])"
  by (auto simp: advances_def attempt_entry_def split: option.splits)

lemma submit_attempts_fatal:
  "post idx payload = Inr resp \<Longrightarrow> 400 \<le> resp_status_code resp \<Longrightarrow>
   resp_status_code resp \<notin> {400, 422} \<Longrightarrow>
   submit_attempts post idx (payload # rest) errs =
     (errs @ [attempt_error_http idx resp], idx,
      Some (Inl (VolcAPIError (''Video submit failed: '' @ str_of_int (resp_status_code resp)
                  @ '' '' @ take 500 (resp_text resp)))))"
  by simp

lemma submit_attempts_success:
  "post idx payload = Inr resp \<Longrightarrow> resp_status_code resp < 400 \<Longrightarrow>
   resp_json resp = Some data \<Longrightarrow> first_string (deep_find data TASK_ID_KEYS) = Some task_id \<Longrightarrow>
   submit_attempts post idx (payload # rest) errs = (errs, idx, Some (Inr (task_id, data)))"
  by simp

lemma submit_attempts_all_advance:
  "(\<forall>k < length payloads. \<exists>resp. post (idx + k) (payloads ! k) = Inr resp \<and> advances resp) \<Longrightarrow>
   \<exists>new. submit_attempts post idx payloads errs = (errs @ new, idx + length payloads - 1, None)
         \<and> length new = length payloads
         \<and> (\<forall>k < length payloads. new ! k = attempt_entry (idx + k) (post (idx + k) (payloads ! k)))"
proof (induction payloads arbitrary: idx errs)
  case Nil
  then show ?case by simp
next
  case (Cons p ps)
  from Cons.prems [rule_format, of 0] obtain resp
    where r: "post idx p = Inr resp" and a: "advances resp"
    by auto
  have "\<forall>k < length ps. \<exists>resp. post (Suc idx + k) (ps ! k) = Inr resp \<and> advances resp"
  proof (intro allI impI)
    fix k
    assume "k < length ps"
    then have "Suc k < length (p # ps)" by simp
    from Cons.prems [rule_format, OF this]
    show "\<exists>resp. post (Suc idx + k) (ps ! k) = Inr resp \<and> advances resp" by simp
  qed
  from Cons.IH [OF this, of "errs @ [attempt_entry idx (Inr resp)]"] obtain new
    where n1: "submit_attempts post (Suc idx) ps (errs @ [attempt_entry idx (Inr resp)])
                 = ((errs @ [attempt_entry idx (Inr resp)]) @ new, Suc idx + length ps - 1, None)"
      and n2: "length new = length ps"
      and n3: "\<forall>k < length ps. new ! k = attempt_entry (Suc idx + k) (post (Suc idx + k) (ps ! k))"
    by blast
  let ?new = "attempt_entry idx (Inr resp) # new"
  have "submit_attempts post idx (p # ps) errs = (errs @ ?new, idx + length (p # ps) - 1, None)"
    using submit_attempts_advance [of post idx p resp ps errs] r a n1 by simp
  moreover have "length ?new = length (p # ps)"
    using n2 by simp
  moreover have "\<forall>k < length (p # ps). ?new ! k = attempt_entry (idx + k) (post (idx + k) ((p # ps) ! k))"
  proof (intro allI impI)
    fix k
    assume k: "k < length (p # ps)"
    show "?new ! k = attempt_entry (idx + k) (post (idx + k) ((p # ps) ! k))"
    proof (cases k)
      case 0
      then show ?thesis using r by simp
    next
      case (Suc j)
      with k have "j < length ps" by simp
      with n3 have "new ! j = attempt_entry (Suc idx + j) (post (Suc idx + j) (ps ! j))"
        by blast
      with Suc show ?thesis by simp
    qed
  qed
  ultimately show ?case by blast
qed

lemma submit_payload_candidates_length:
  "length (submit_payload_candidates cfg prompt duration_s width height) = 5"
  by (simp add: submit_payload_candidates_def Let_def)

lemma submit_attempts_third:
  assumes "cs = p1 # p2 # p3 # rest"
    and "post 1 p1 = Inr r1" and "resp_status_code r1 = 422"
    and "post 2 p2 = Inr r2" and "resp_status_code r2 = 422"
    and "post 3 p3 = Inr r3" and "resp_status_code r3 = 200"
    and "resp_json r3 = Some data"
    and "first_string (deep_find data TASK_ID_KEYS) = Some task_id"
  shows "submit_attempts post 1 cs [] =
           ([attempt_error_http 1 r1, attempt_error_http 2 r2], 3, Some (Inr (task_id, data)))"
proof -
  have s2: "Suc (Suc 0) = 2" and s3: "Suc 2 = 3" by simp_all
  have a1: "advances r1" and a2: "advances r2"
    using assms by (simp_all add: advances_def)
  have "submit_attempts post 1 cs [] =
          submit_attempts post 2 (p2 # p3 # rest) [attempt_entry 1 (Inr r1)]"
    using submit_attempts_advance [of post 1 p1 r1 "p2 # p3 # rest" "[]"] assms(1,2) a1 s2
    by simp
  also have "\<dots> = submit_attempts post 3 (p3 # rest)
                     [attempt_entry 1 (Inr r1), attempt_entry 2 (Inr r2)]"
    using submit_attempts_advance [of post 2 p2 r2 "p3 # rest" "[attempt_entry 1 (Inr r1)]"]
      assms(4) a2 s3
    by simp
  also have "\<dots> = ([attempt_entry 1 (Inr r1), attempt_entry 2 (Inr r2)], 3,
                    Some (Inr (task_id, data)))"
    using submit_attempts_success [of post 3 p3 r3 data task_id rest] assms by simp
  finally show ?thesis
    using assms by (simp add: attempt_entry_def)
qed

lemma candidates_as_list:
  "\<exists>p4 p5. submit_payload_candidates cfg prompt duration_s width height =
     [submit_payload_candidates cfg prompt duration_s width height ! 0,
      submit_payload_candidates cfg prompt duration_s width height ! 1,
      submit_payload_candidates cfg prompt duration_s width height ! 2, p4, p5]"
  by (simp add: submit_payload_candidates_def Let_def)




subsection \<open>Video polling\<close>

declare poll_loop.simps [simp del]

lemma poll_loop_success:
  "get n = Inr resp \<Longrightarrow> resp_status_code resp < 400 \<Longrightarrow> resp_json resp = Some payload \<Longrightarrow>
   poll_status payload \<in> SUCCESS_STATUSES \<Longrightarrow>
   poll_loop get latency deadline interval n now = Inr payload"
  by (subst poll_loop.simps) simp

lemma statuses_disjoint: "SUCCESS_STATUSES \<inter> FAILURE_STATUSES = {}"
  by (simp add: SUCCESS_STATUSES_def FAILURE_STATUSES_def)

lemma poll_loop_failure:
  "get n = Inr resp \<Longrightarrow> resp_status_code resp < 400 \<Longrightarrow> resp_json resp = Some payload \<Longrightarrow>
   poll_status payload \<in> FAILURE_STATUSES \<Longrightarrow>
   poll_loop get latency deadline interval n now =
     Inl (VolcAPIError (''Video generation failed: status='' @ poll_status payload))"
proof -
  assume a: "get n = Inr resp" "resp_status_code resp < 400" "resp_json resp = Some payload"
    and f: "poll_status payload \<in> FAILURE_STATUSES"
  from f statuses_disjoint have "poll_status payload \<notin> SUCCESS_STATUSES" by blast
  with a f show ?thesis
    by (subst poll_loop.simps) simp
qed

lemma poll_loop_http_error:
  "get n = Inr resp \<Longrightarrow> 400 \<le> resp_status_code resp \<Longrightarrow>
   poll_loop get latency deadline interval n now =
     Inl (VolcAPIError (''Video polling failed: '' @ str_of_int (resp_status_code resp)
            @ '' '' @ take 500 (resp_text resp)))"
  by (subst poll_loop.simps) simp

lemma poll_loop_pending:
  "pending (get n) \<Longrightarrow>
   poll_loop get latency deadline interval n now =
     (if now + int (latency n) > deadline then Inl (VolcAPIError ''Video generation timed out'')
      else poll_loop get latency deadline interval (Suc n)
             (now + int (latency n) + max 1 interval))"
  by (subst poll_loop.simps) (auto simp: pending_def split: sum.splits option.splits)

lemma poll_loop_always_pending:
  assumes "\<forall>k. pending (get k)"
  shows "poll_loop get latency deadline interval n now =
           Inl (VolcAPIError ''Video generation timed out'')"
proof (induction "nat (deadline + 1 - now)" arbitrary: n now rule: less_induct)
  case less
  have p: "pending (get n)" using assms by blast
  show ?case
  proof (cases "now + int (latency n) > deadline")
    case True
    then show ?thesis
      using poll_loop_pending [of get n latency deadline interval now] p by simp
  next
    case False
    then have "nat (deadline + 1 - (now + int (latency n) + max 1 interval))
                 < nat (deadline + 1 - now)"
      by simp
    from less [OF this]
    have "poll_loop get latency deadline interval (Suc n)
            (now + int (latency n) + max 1 interval)
          = Inl (VolcAPIError ''Video generation timed out'')" .
    with False show ?thesis
      using poll_loop_pending [of get n latency deadline interval now] p by simp
  qed
qed

text \<open>
  C6 (amended). \<^verbatim>\<open>poll_until_done\<close> sends one GET after another, sleeping the interval (at
  least one second) between them. The status of an answer is the first non-blank string, in
  pre-order, among the values under a key \<^verbatim>\<open>status\<close> or \<^verbatim>\<open>state\<close> anywhere in the answer,
  stripped and lower-cased; a status value that stands behind it is not looked at. An answer
  whose status is in the success set ends the call with that payload; one whose status is in
  the failure set ends it with an error; after any other answer the call ends with the
  timeout error when the deadline has passed and polls again otherwise. The call always
  ends: when no answer ever carries a terminal status, the result is the timeout error.
\<close>

theorem poll_until_done_outcomes:
  "(\<forall>resp payload.
      get n = Inr resp \<and> resp_status_code resp < 400 \<and> resp_json resp = Some payload
      \<and> poll_status payload \<in> SUCCESS_STATUSES \<longrightarrow>
      poll_loop get latency deadline interval n now = Inr payload)
   \<and> (\<forall>resp payload.
        get n = Inr resp \<and> resp_status_code resp < 400 \<and> resp_json resp = Some payload
        \<and> poll_status payload \<in> FAILURE_STATUSES \<longrightarrow>
        poll_loop get latency deadline interval n now =
          Inl (VolcAPIError (''Video generation failed: status='' @ poll_status payload)))
   \<and> (pending (get n) \<longrightarrow>
        poll_loop get latency deadline interval n now =
          (if now + int (latency n) > deadline
           then Inl (VolcAPIError ''Video generation timed out'')
           else poll_loop get latency deadline interval (Suc n)
                  (now + int (latency n) + max 1 interval)))
   \<and> ((\<forall>k. pending (get k)) \<longrightarrow>
        poll_until_done get latency cfg timeout_s start =
          Inl (VolcAPIError ''Video generation timed out''))
   \<and> poll_until_done get latency cfg timeout_s start =
       poll_loop get latency
         (start + (case timeout_s of
                     Some t \<Rightarrow> if t \<noteq> 0 then t else video_timeout_s cfg
                   | None \<Rightarrow> video_timeout_s cfg))
         (max 1 (video_poll_interval_s cfg)) 0 start
   \<and> poll_status payload0 =
       py_lower (case first_string (deep_find payload0 STATUS_KEYS) of
                   Some s \<Rightarrow> s
                 | None \<Rightarrow> [])"
proof (intro conjI allI impI)
  fix resp payload
  assume "get n = Inr resp \<and> resp_status_code resp < 400 \<and> resp_json resp = Some payload
      \<and> poll_status payload \<in> SUCCESS_STATUSES"
  then show "poll_loop get latency deadline interval n now = Inr payload"
    using poll_loop_success [of get n resp payload latency deadline interval now] by blast
next
  fix resp payload
  assume "get n = Inr resp \<and> resp_status_code resp < 400 \<and> resp_json resp = Some payload
        \<and> poll_status payload \<in> FAILURE_STATUSES"
  then show "poll_loop get latency deadline interval n now =
          Inl (VolcAPIError (''Video generation failed: status='' @ poll_status payload))"
    using poll_loop_failure [of get n resp payload latency deadline interval now] by blast
next
  assume "pending (get n)"
  then show "poll_loop get latency deadline interval n now =
          (if now + int (latency n) > deadline
           then Inl (VolcAPIError ''Video generation timed out'')
           else poll_loop get latency deadline interval (Suc n)
                  (now + int (latency n) + max 1 interval))"
    by (rule poll_loop_pending)
next
  assume "\<forall>k. pending (get k)"
  then show "poll_until_done get latency cfg timeout_s start =
          Inl (VolcAPIError ''Video generation timed out'')"
    unfolding poll_until_done_def Let_def by (rule poll_loop_always_pending)
next
  show "poll_until_done get latency cfg timeout_s start =
       poll_loop get latency
         (start + (case timeout_s of
                     Some t \<Rightarrow> if t \<noteq> 0 then t else video_timeout_s cfg
                   | None \<Rightarrow> video_timeout_s cfg))
         (max 1 (video_poll_interval_s cfg)) 0 start"
    by (simp add: poll_until_done_def Let_def)
next
  show "poll_status payload0 =
       py_lower (case first_string (deep_find payload0 STATUS_KEYS) of
                   Some s \<Rightarrow> s
                 | None \<Rightarrow> [])"
    by (simp add: poll_status_def)
qed

lemma poll_status_examples:
  "poll_status (JObj [(''data'', JObj [(''status'', JStr ''SUCCEEDED'')])]) = ''succeeded''"
  "poll_status (JObj [(''data'', JObj [(''status'', JStr ''Failed'')])]) = ''failed''"
  "poll_status (JObj [(''data'', JObj [(''status'', JStr ''running'')])]) = ''running''"
  by code_simp+

theorem poll_until_done_outcomes_witness:
  "poll_loop (get_status ''SUCCEEDED'') (\<lambda>n. 2) 600 5 0 0
     = Inr (JObj [(''data'', JObj [(''status'', JStr ''SUCCEEDED'')])])
   \<and> poll_loop (get_status ''Failed'') (\<lambda>n. 2) 600 5 0 0
       = Inl (VolcAPIError ''Video generation failed: status=failed'')
   \<and> poll_until_done (get_status ''running'') (\<lambda>n. 2) demo_video_cfg None 0
       = Inl (VolcAPIError ''Video generation timed out'')"
proof (intro conjI)
  have "get_status ''SUCCEEDED'' 0
          = Inr (json_response 200 (JObj [(''data'', JObj [(''status'', JStr ''SUCCEEDED'')])]))
        \<and> resp_status_code
            (json_response 200 (JObj [(''data'', JObj [(''status'', JStr ''SUCCEEDED'')])])) < 400
        \<and> resp_json (json_response 200 (JObj [(''data'', JObj [(''status'', JStr ''SUCCEEDED'')])]))
            = Some (JObj [(''data'', JObj [(''status'', JStr ''SUCCEEDED'')])])
        \<and> poll_status (JObj [(''data'', JObj [(''status'', JStr ''SUCCEEDED'')])])
            \<in> SUCCESS_STATUSES"
    by (simp add: get_status_def json_response_def poll_status_examples SUCCESS_STATUSES_def)
  with poll_until_done_outcomes [where get = "get_status ''SUCCEEDED''" and n = 0
      and latency = "\<lambda>n. 2" and deadline = 600 and interval = 5 and now = 0]
  show "poll_loop (get_status ''SUCCEEDED'') (\<lambda>n. 2) 600 5 0 0
     = Inr (JObj [(''data'', JObj [(''status'', JStr ''SUCCEEDED'')])])"
    by blast
next
  have "get_status ''Failed'' 0
          = Inr (json_response 200 (JObj [(''data'', JObj [(''status'', JStr ''Failed'')])]))
        \<and> resp_status_code
            (json_response 200 (JObj [(''data'', JObj [(''status'', JStr ''Failed'')])])) < 400
        \<and> resp_json (json_response 200 (JObj [(''data'', JObj [(''status'', JStr ''Failed'')])]))
            = Some (JObj [(''data'', JObj [(''status'', JStr ''Failed'')])])
        \<and> poll_status (JObj [(''data'', JObj [(''status'', JStr ''Failed'')])])
            \<in> FAILURE_STATUSES"
    by (simp add: get_status_def json_response_def poll_status_examples FAILURE_STATUSES_def)
  with poll_until_done_outcomes [where get = "get_status ''Failed''" and n = 0
      and latency = "\<lambda>n. 2" and deadline = 600 and interval = 5 and now = 0]
  have "poll_loop (get_status ''Failed'') (\<lambda>n. 2) 600 5 0 0
       = Inl (VolcAPIError (''Video generation failed: status=''
            @ poll_status (JObj [(''data'', JObj [(''status'', JStr ''Failed'')])])))"
    by blast
  then show "poll_loop (get_status ''Failed'') (\<lambda>n. 2) 600 5 0 0
       = Inl (VolcAPIError ''Video generation failed: status=failed'')"
    by (simp add: poll_status_examples)
next
  have "\<forall>k. pending (get_status ''running'' k)"
    by (simp add: pending_def get_status_def json_response_def poll_status_examples
          SUCCESS_STATUSES_def FAILURE_STATUSES_def)
  with poll_until_done_outcomes [where get = "get_status ''running''"]
  show "poll_until_done (get_status ''running'') (\<lambda>n. 2) demo_video_cfg None 0
       = Inl (VolcAPIError ''Video generation timed out'')"
    by blast
qed

theorem poll_until_done_first_status_counterexample:
  "JStr ''succeeded'' \<in> set (deep_find nested_status_payload STATUS_KEYS)
   \<and> ''succeeded'' \<in> SUCCESS_STATUSES
   \<and> poll_status nested_status_payload = ''running''
   \<and> poll_until_done get_nested_status (\<lambda>n. 2) demo_video_cfg None 0
       = Inl (VolcAPIError ''Video generation timed out'')"
proof -
  have s: "poll_status nested_status_payload = ''running''" by code_simp
  have f: "JStr ''succeeded'' \<in> set (deep_find nested_status_payload STATUS_KEYS)
           \<and> ''succeeded'' \<in> SUCCESS_STATUSES"
    by code_simp
  have "\<forall>k. pending (get_nested_status k)"
    by (simp add: pending_def get_nested_status_def json_response_def s
        SUCCESS_STATUSES_def FAILURE_STATUSES_def)
  then have "poll_until_done get_nested_status (\<lambda>n. 2) demo_video_cfg None 0
       = Inl (VolcAPIError ''Video generation timed out'')"
    unfolding poll_until_done_def Let_def by (rule poll_loop_always_pending)
  with s f show ?thesis by simp
qed

subsection \<open>Speech recognition: the standard path\<close>

declare query_loop.simps [simp del]

lemma query_loop_deadline:
  "\<not> elapsed < max 5 (asr_timeout_s cfg) \<Longrightarrow>
   query_loop svc cfg resource_id k elapsed = ([], Raise (timed_out_error cfg resource_id))"
  by (subst query_loop.simps) (simp add: timed_out_error_def)

lemma query_body_processing:
  "query_processing (post_standard_query svc resource_id k) \<Longrightarrow>
   query_body svc resource_id k = ([], Continue)"
  by (auto simp: query_body_def query_processing_def split: sum.splits)

lemma query_body_terminal:
  "query_terminal (post_standard_query svc resource_id k) payload \<Longrightarrow>
   query_body svc resource_id k = ([], Return payload)"
  by (auto simp: query_body_def query_terminal_def STANDARD_PROCESSING_STATUS_def
        STANDARD_TERMINAL_STATUS_def split: sum.splits)

lemma query_loop_step_continue:
  "elapsed < max 5 (asr_timeout_s cfg) \<Longrightarrow> query_body svc rid k = ([], Continue) \<Longrightarrow>
   query_loop svc cfg rid k elapsed =
     query_loop svc cfg rid (Suc k) (elapsed + int (query_seconds svc rid k) + 1)"
  by (subst query_loop.simps) (simp split: prod.splits)

lemma query_loop_step_other:
  "elapsed < max 5 (asr_timeout_s cfg) \<Longrightarrow> snd (query_body svc rid k) \<noteq> Continue \<Longrightarrow>
   query_loop svc cfg rid k elapsed = query_body svc rid k"
  by (subst query_loop.simps) (auto split: prod.splits step.splits)

lemma query_loop_processing:
  "elapsed < max 5 (asr_timeout_s cfg) \<Longrightarrow>
   query_processing (post_standard_query svc resource_id k) \<Longrightarrow>
   query_loop svc cfg resource_id k elapsed =
     query_loop svc cfg resource_id (Suc k) (elapsed + int (query_seconds svc resource_id k) + 1)"
  by (simp add: query_loop_step_continue query_body_processing)

lemma query_loop_terminal:
  "elapsed < max 5 (asr_timeout_s cfg) \<Longrightarrow>
   query_terminal (post_standard_query svc resource_id k) payload \<Longrightarrow>
   query_loop svc cfg resource_id k elapsed = ([], Return payload)"
  by (simp add: query_loop_step_other query_body_terminal)

lemma query_loop_always_processing:
  assumes "\<forall>k. query_processing (post_standard_query svc resource_id k)"
  shows "query_loop svc cfg resource_id k elapsed = ([], Raise (timed_out_error cfg resource_id))"
proof (induction "nat (max 5 (asr_timeout_s cfg) - elapsed)" arbitrary: k elapsed
       rule: less_induct)
  case less
  show ?case
  proof (cases "elapsed < max 5 (asr_timeout_s cfg)")
    case False
    then show ?thesis by (rule query_loop_deadline)
  next
    case True
    then have "nat (max 5 (asr_timeout_s cfg)
                 - (elapsed + int (query_seconds svc resource_id k) + 1))
               < nat (max 5 (asr_timeout_s cfg) - elapsed)"
      by simp
    from less [OF this]
    have "query_loop svc cfg resource_id (Suc k)
            (elapsed + int (query_seconds svc resource_id k) + 1)
          = ([], Raise (timed_out_error cfg resource_id))" .
    moreover have "query_processing (post_standard_query svc resource_id k)"
      using assms by blast
    ultimately show ?thesis
      using query_loop_processing [of elapsed cfg svc resource_id k] True by simp
  qed
qed

lemma standard_body_accepted:
  "submit_accepted (post_standard_submit svc resource_id) \<Longrightarrow>
   standard_body svc cfg resource_id =
     (case query_loop svc cfg resource_id 0 0 of
        (new, Break) \<Rightarrow> (new, Continue)
      | (new, outcome) \<Rightarrow> (new, outcome))"
  by (auto simp: standard_body_def submit_accepted_def split: sum.splits)

lemma recognize_standard_raise:
  "standard_body svc cfg resource_id = ([], Raise e) \<Longrightarrow>
   recognize_standard svc cfg (resource_id # rest) errs = (errs, Inl e)"
  by simp

lemma recognize_standard_timeout:
  assumes "submit_accepted (post_standard_submit svc resource_id)"
    and "\<forall>k. query_processing (post_standard_query svc resource_id k)"
  shows "recognize_standard svc cfg (resource_id # rest) errs =
           (errs, Inl (timed_out_error cfg resource_id))"
proof -
  have "standard_body svc cfg resource_id = ([], Raise (timed_out_error cfg resource_id))"
    using standard_body_accepted [OF assms(1)] query_loop_always_processing [OF assms(2)]
    by simp
  then show ?thesis by (rule recognize_standard_raise)
qed

text \<open>
  C2 (amended). In the standard path the request submitted for a candidate is polled while
  fewer than \<^verbatim>\<open>max(5, timeout_s)\<close> seconds have passed: a query that reports processing is
  followed by a sleep of one second and the next query; a query with a terminal (or no)
  business status ends the call with its payload. When the deadline passes, the loop
  raises a \<^verbatim>\<open>VolcAPIError\<close> that names the timeout and the resource id, and this error ends
  \<^verbatim>\<open>_recognize_standard\<close> and \<^verbatim>\<open>recognize\<close>: the candidates after it are not tried.
\<close>

theorem recognize_standard_polling:
  "(elapsed < max 5 (asr_timeout_s cfg)
      \<and> query_processing (post_standard_query svc resource_id k) \<longrightarrow>
      query_loop svc cfg resource_id k elapsed =
        query_loop svc cfg resource_id (Suc k)
          (elapsed + int (query_seconds svc resource_id k) + 1))
   \<and> (\<forall>payload. elapsed < max 5 (asr_timeout_s cfg)
        \<and> query_terminal (post_standard_query svc resource_id k) payload \<longrightarrow>
        query_loop svc cfg resource_id k elapsed = ([], Return payload))
   \<and> (\<not> elapsed < max 5 (asr_timeout_s cfg) \<longrightarrow>
        query_loop svc cfg resource_id k elapsed = ([], Raise (timed_out_error cfg resource_id)))
   \<and> (submit_accepted (post_standard_submit svc resource_id)
        \<and> (\<forall>j. query_processing (post_standard_query svc resource_id j)) \<longrightarrow>
        recognize_standard svc cfg (resource_id # rest) errs =
          (errs, Inl (timed_out_error cfg resource_id)))
   \<and> (\<forall>flash_errs audio_bytes.
        asr_appid cfg \<noteq> [] \<and> asr_access_token cfg \<noteq> []
        \<and> candidate_resource_ids cfg = resource_id # rest
        \<and> recognize_flash svc (resource_id # rest) [] = (flash_errs, Inr None)
        \<and> submit_accepted (post_standard_submit svc resource_id)
        \<and> (\<forall>j. query_processing (post_standard_query svc resource_id j)) \<longrightarrow>
        recognize svc cfg (Inr audio_bytes) = Inl (timed_out_error cfg resource_id))"
proof (intro conjI allI impI)
  assume "elapsed < max 5 (asr_timeout_s cfg)
      \<and> query_processing (post_standard_query svc resource_id k)"
  then show "query_loop svc cfg resource_id k elapsed =
        query_loop svc cfg resource_id (Suc k)
          (elapsed + int (query_seconds svc resource_id k) + 1)"
    using query_loop_processing [of elapsed cfg svc resource_id k] by blast
next
  fix payload
  assume "elapsed < max 5 (asr_timeout_s cfg)
        \<and> query_terminal (post_standard_query svc resource_id k) payload"
  then show "query_loop svc cfg resource_id k elapsed = ([], Return payload)"
    using query_loop_terminal [of elapsed cfg svc resource_id k payload] by blast
next
  assume "\<not> elapsed < max 5 (asr_timeout_s cfg)"
  then show "query_loop svc cfg resource_id k elapsed =
          ([], Raise (timed_out_error cfg resource_id))"
    by (rule query_loop_deadline)
next
  assume "submit_accepted (post_standard_submit svc resource_id)
        \<and> (\<forall>j. query_processing (post_standard_query svc resource_id j))"
  then show "recognize_standard svc cfg (resource_id # rest) errs =
          (errs, Inl (timed_out_error cfg resource_id))"
    using recognize_standard_timeout [of svc resource_id cfg rest errs] by blast
next
  fix flash_errs audio_bytes
  assume a: "asr_appid cfg \<noteq> [] \<and> asr_access_token cfg \<noteq> []
        \<and> candidate_resource_ids cfg = resource_id # rest
        \<and> recognize_flash svc (resource_id # rest) [] = (flash_errs, Inr None)
        \<and> submit_accepted (post_standard_submit svc resource_id)
        \<and> (\<forall>j. query_processing (post_standard_query svc resource_id j))"
  then have "recognize_standard svc cfg (resource_id # rest) flash_errs =
          (flash_errs, Inl (timed_out_error cfg resource_id))"
    using recognize_standard_timeout [of svc resource_id cfg rest flash_errs] by blast
  with a show "recognize svc cfg (Inr audio_bytes) = Inl (timed_out_error cfg resource_id)"
    by (simp add: recognize_def Let_def)
qed

lemma slow_first_candidates:
  "candidate_resource_ids demo_asr_cfg =
     ''volc.bigasr.auc_turbo'' # [''volc.seedasr.auc'', ''volc.bigasr.auc'']"
  by code_simp

lemma slow_first_flash:
  "recognize_flash slow_first_service
     (''volc.bigasr.auc_turbo'' # [''volc.seedasr.auc'', ''volc.bigasr.auc'']) []
   = ([try_error_entry ''flash'' ''volc.bigasr.auc_turbo'' not_granted_response,
       try_error_entry ''flash'' ''volc.seedasr.auc'' not_granted_response,
       try_error_entry ''flash'' ''volc.bigasr.auc'' not_granted_response], Inr None)"
  by code_simp

lemma slow_first_submit:
  "submit_accepted (post_standard_submit slow_first_service ''volc.bigasr.auc_turbo'')"
  by code_simp

lemma slow_first_processing:
  "query_processing (post_standard_query slow_first_service ''volc.bigasr.auc_turbo'' j)"
proof -
  have "query_processing (Inr (status_response 200 ''20000001'' ''processing'' (JObj [])))"
    by code_simp
  then show ?thesis
    by (simp add: slow_first_service_def)
qed

theorem recognize_standard_polling_witness:
  "recognize slow_first_service demo_asr_cfg (Inr ''audio'')
     = Inl (VolcAPIError
         ''ASR standard query timed out after 3s (resource_id=volc.bigasr.auc_turbo)'')
   \<and> query_loop slow_first_service demo_asr_cfg ''volc.seedasr.auc'' 0 0
       = ([], Return transcript_payload)"
proof
  have t: "timed_out_error demo_asr_cfg ''volc.bigasr.auc_turbo''
           = VolcAPIError
               ''ASR standard query timed out after 3s (resource_id=volc.bigasr.auc_turbo)''"
    by code_simp
  have c: "asr_appid demo_asr_cfg \<noteq> [] \<and> asr_access_token demo_asr_cfg \<noteq> []"
    by (simp add: demo_asr_cfg_def)
  have p: "\<forall>j. query_processing
                 (post_standard_query slow_first_service ''volc.bigasr.auc_turbo'' j)"
    using slow_first_processing by blast
  from recognize_standard_polling [where svc = slow_first_service and cfg = demo_asr_cfg
      and resource_id = "''volc.bigasr.auc_turbo''"
      and rest = "[''volc.seedasr.auc'', ''volc.bigasr.auc'']"]
    c slow_first_candidates slow_first_flash slow_first_submit p
  have "recognize slow_first_service demo_asr_cfg (Inr ''audio'')
          = Inl (timed_out_error demo_asr_cfg ''volc.bigasr.auc_turbo'')"
    by blast
  then show "recognize slow_first_service demo_asr_cfg (Inr ''audio'')
     = Inl (VolcAPIError
         ''ASR standard query timed out after 3s (resource_id=volc.bigasr.auc_turbo)'')"
    unfolding t .
next
  have e: "(0::int) < max 5 (asr_timeout_s demo_asr_cfg)"
    by (simp add: demo_asr_cfg_def)
  have q: "query_terminal (post_standard_query slow_first_service ''volc.seedasr.auc'' 0)
             transcript_payload"
    by code_simp
  from recognize_standard_polling [where svc = slow_first_service and cfg = demo_asr_cfg
      and resource_id = "''volc.seedasr.auc''" and k = 0 and elapsed = 0] e q
  show "query_loop slow_first_service demo_asr_cfg ''volc.seedasr.auc'' 0 0
       = ([], Return transcript_payload)"
    by blast
qed

text \<open>
  C2 as stated fails: flash is refused, the first candidate never leaves processing, and
  the second candidate would be answered at once; the timeout of the first candidate is the
  result of the whole call, and the second candidate is never tried.
\<close>

theorem recognize_timeout_is_fatal_counterexample:
  "candidate_resource_ids demo_asr_cfg
     = [''volc.bigasr.auc_turbo'', ''volc.seedasr.auc'', ''volc.bigasr.auc'']
   \<and> standard_body slow_first_service demo_asr_cfg ''volc.seedasr.auc''
       = ([], Return transcript_payload)
   \<and> recognize slow_first_service demo_asr_cfg (Inr ''audio'')
       = Inl (VolcAPIError
           ''ASR standard query timed out after 3s (resource_id=volc.bigasr.auc_turbo)'')"
  by code_simp

subsection \<open>Speech recognition: candidates and the aggregated error\<close>

lemma candidate_resource_ids_eq:
  "candidate_resource_ids cfg =
     (if py_strip (asr_resource_id cfg) \<noteq> []
      then py_strip (asr_resource_id cfg)
             # filter (\<lambda>f. f \<noteq> py_strip (asr_resource_id cfg)) RESOURCE_FALLBACKS
      else RESOURCE_FALLBACKS)"
  by (simp add: candidate_resource_ids_def RESOURCE_FALLBACKS_def Let_def)

lemma distinct_RESOURCE_FALLBACKS: "distinct RESOURCE_FALLBACKS"
  by (simp add: RESOURCE_FALLBACKS_def)

lemma distinct_candidate_resource_ids: "distinct (candidate_resource_ids cfg)"
  unfolding candidate_resource_ids_eq
  using distinct_RESOURCE_FALLBACKS by simp

lemma flash_last_block_Continue:
  assumes "snd (flash_last_block rid resp) = Continue"
  shows "permission_class resp
         \<and> fst (flash_last_block rid resp) = [try_error_entry ''flash'' rid resp]"
proof (cases "resp_json resp")
  case None
  with assms show ?thesis by (simp add: flash_last_block_def)
next
  case (Some j)
  show ?thesis
  proof (cases j)
    case (JObj payload)
    show ?thesis
    proof (cases "dict_get payload ''header''")
      case h: (JObj header)
      from assms Some JObj h
      have m: "is_permission_message (py_str (dict_get_default header ''message'' (JStr [])))"
        and f: "fst (flash_last_block rid resp) = [try_error_entry ''flash'' rid resp]"
        by (auto simp: flash_last_block_def split: if_splits)
      from m Some JObj h have "permission_class resp"
        by (simp add: permission_class_def)
      with f show ?thesis by simp
    qed (use assms Some JObj in \<open>simp_all add: flash_last_block_def\<close>)
  qed (use assms Some in \<open>simp_all add: flash_last_block_def\<close>)
qed

lemma flash_body_Continue:
  assumes "snd (flash_body svc rid) = Continue"
  shows "\<exists>resp. post_flash_once svc rid = Inr resp \<and> permission_class resp
           \<and> fst (flash_body svc rid) = [try_error_entry ''flash'' rid resp]"
proof (cases "post_flash_once svc rid")
  case (Inl e)
  with assms show ?thesis by (simp add: flash_body_def)
next
  case (Inr resp)
  show ?thesis
  proof (cases "400 \<le> resp_status_code resp")
    case True
    with Inr assms have "is_permission_response resp = Inr True"
      by (auto simp: flash_body_def split: sum.splits bool.splits)
    then have "permission_class resp" by (simp add: permission_class_def)
    moreover from Inr True have "fst (flash_body svc rid) = [try_error_entry ''flash'' rid resp]"
      by (simp add: flash_body_def)
    ultimately show ?thesis using Inr by blast
  next
    case False
    show ?thesis
    proof (cases "extract_status_code resp")
      case l: (Inl e)
      with Inr False assms show ?thesis by (simp add: flash_body_def)
    next
      case r: (Inr sc)
      show ?thesis
      proof (cases "sc \<noteq> [] \<and> sc \<noteq> ''20000000''")
        case True
        with Inr False r assms
        have "\<exists>m. extract_status_message resp = Inr m \<and> is_permission_message m"
          by (auto simp: flash_body_def split: sum.splits if_splits)
        then have "permission_class resp" by (auto simp: permission_class_def)
        moreover from Inr False r True
        have "fst (flash_body svc rid) = [try_error_entry ''flash'' rid resp]"
          by (simp add: flash_body_def)
        ultimately show ?thesis using Inr by blast
      next
        case f2: False
        with Inr False r have "flash_body svc rid = flash_last_block rid resp"
          by (auto simp: flash_body_def)
        with assms flash_last_block_Continue [of rid resp] Inr show ?thesis by simp
      qed
    qed
  qed
qed

lemma query_body_Continue:
  assumes "snd (query_body svc rid k) = Continue"
  shows "query_body svc rid k = ([], Continue)"
proof (cases "post_standard_query svc rid k")
  case (Inl e)
  with assms show ?thesis by (simp add: query_body_def)
next
  case (Inr resp)
  show ?thesis
  proof (cases "400 \<le> resp_status_code resp")
    case True
    with Inr assms show ?thesis
      by (auto simp: query_body_def split: sum.splits bool.splits)
  next
    case False
    show ?thesis
    proof (cases "extract_status_code resp")
      case l: (Inl e)
      with Inr False assms show ?thesis by (simp add: query_body_def)
    next
      case r: (Inr qs)
      with Inr False assms show ?thesis
        by (auto simp: query_body_def split: sum.splits option.splits if_splits)
    qed
  qed
qed

lemma query_body_Break:
  assumes "snd (query_body svc rid k) = Break"
  shows "\<exists>resp. post_standard_query svc rid k = Inr resp \<and> permission_class resp
           \<and> fst (query_body svc rid k) = [try_error_entry ''query'' rid resp]"
proof (cases "post_standard_query svc rid k")
  case (Inl e)
  with assms show ?thesis by (simp add: query_body_def)
next
  case (Inr resp)
  show ?thesis
  proof (cases "400 \<le> resp_status_code resp")
    case True
    with Inr assms have "is_permission_response resp = Inr True"
      by (auto simp: query_body_def split: sum.splits bool.splits)
    then have "permission_class resp" by (simp add: permission_class_def)
    moreover from Inr True have "fst (query_body svc rid k) = [try_error_entry ''query'' rid resp]"
      by (simp add: query_body_def)
    ultimately show ?thesis using Inr by blast
  next
    case False
    show ?thesis
    proof (cases "extract_status_code resp")
      case l: (Inl e)
      with Inr False assms show ?thesis by (simp add: query_body_def)
    next
      case r: (Inr qs)
      from Inr False r assms
      have "\<exists>m. extract_status_message resp = Inr m \<and> is_permission_message m"
        by (auto simp: query_body_def split: sum.splits option.splits if_splits)
      then have p: "permission_class resp" by (auto simp: permission_class_def)
      from Inr False r assms
      have "fst (query_body svc rid k) = [try_error_entry ''query'' rid resp]"
        by (auto simp: query_body_def split: sum.splits option.splits if_splits)
      with p Inr show ?thesis by blast
    qed
  qed
qed

lemma query_loop_Break:
  "snd (query_loop svc cfg rid k elapsed) = Break \<Longrightarrow>
   \<exists>j resp. post_standard_query svc rid j = Inr resp \<and> permission_class resp
            \<and> fst (query_loop svc cfg rid k elapsed) = [try_error_entry ''query'' rid resp]"
proof (induction "nat (max 5 (asr_timeout_s cfg) - elapsed)" arbitrary: k elapsed
       rule: less_induct)
  case less
  have w: "elapsed < max 5 (asr_timeout_s cfg)"
  proof (rule ccontr)
    assume "\<not> elapsed < max 5 (asr_timeout_s cfg)"
    from query_loop_deadline [OF this, of svc rid k] less.prems
    show False by simp
  qed
  show ?case
  proof (cases "snd (query_body svc rid k) = Continue")
    case True
    then have b0: "query_body svc rid k = ([], Continue)"
      by (rule query_body_Continue)
    let ?el = "elapsed + int (query_seconds svc rid k) + 1"
    have st: "query_loop svc cfg rid k elapsed = query_loop svc cfg rid (Suc k) ?el"
      by (rule query_loop_step_continue [OF w b0])
    from w have m: "nat (max 5 (asr_timeout_s cfg) - ?el)
                      < nat (max 5 (asr_timeout_s cfg) - elapsed)"
      by simp
    from less.prems st have "snd (query_loop svc cfg rid (Suc k) ?el) = Break"
      by simp
    from less.hyps [OF m this] st show ?thesis by simp
  next
    case False
    from query_loop_step_other [OF w False]
    have eq: "query_loop svc cfg rid k elapsed = query_body svc rid k" .
    with less.prems have "snd (query_body svc rid k) = Break" by simp
    from query_body_Break [OF this] eq show ?thesis by auto
  qed
qed

lemma query_loop_not_Continue: "snd (query_loop svc cfg rid k elapsed) \<noteq> Continue"
proof (induction "nat (max 5 (asr_timeout_s cfg) - elapsed)" arbitrary: k elapsed
       rule: less_induct)
  case less
  show ?case
  proof (cases "elapsed < max 5 (asr_timeout_s cfg)")
    case False
    from query_loop_deadline [OF this, of svc rid k] show ?thesis by simp
  next
    case True
    show ?thesis
    proof (cases "snd (query_body svc rid k) = Continue")
      case c: True
      then have b0: "query_body svc rid k = ([], Continue)"
        by (rule query_body_Continue)
      let ?el = "elapsed + int (query_seconds svc rid k) + 1"
      have st: "query_loop svc cfg rid k elapsed = query_loop svc cfg rid (Suc k) ?el"
        by (rule query_loop_step_continue [OF True b0])
      from True have m: "nat (max 5 (asr_timeout_s cfg) - ?el)
                        < nat (max 5 (asr_timeout_s cfg) - elapsed)"
        by simp
      from less [OF m] st show ?thesis by simp
    next
      case False
      from query_loop_step_other [OF True False] False show ?thesis by simp
    qed
  qed
qed

lemma standard_body_Continue:
  assumes "snd (standard_body svc cfg rid) = Continue"
  shows "(\<exists>resp. post_standard_submit svc rid = Inr resp \<and> permission_class resp
            \<and> fst (standard_body svc cfg rid) = [try_error_entry ''submit'' rid resp])
       \<or> (\<exists>j resp. post_standard_query svc rid j = Inr resp \<and> permission_class resp
            \<and> fst (standard_body svc cfg rid) = [try_error_entry ''query'' rid resp])"
proof (cases "post_standard_submit svc rid")
  case (Inl e)
  with assms show ?thesis by (simp add: standard_body_def)
next
  case (Inr resp)
  show ?thesis
  proof (cases "400 \<le> resp_status_code resp")
    case True
    with Inr assms have "is_permission_response resp = Inr True"
      by (auto simp: standard_body_def split: sum.splits bool.splits)
    then have "permission_class resp" by (simp add: permission_class_def)
    moreover from Inr True
    have "fst (standard_body svc cfg rid) = [try_error_entry ''submit'' rid resp]"
      by (simp add: standard_body_def)
    ultimately show ?thesis using Inr by blast
  next
    case False
    show ?thesis
    proof (cases "extract_status_code resp")
      case l: (Inl e)
      with Inr False assms show ?thesis by (simp add: standard_body_def)
    next
      case r: (Inr sc)
      show ?thesis
      proof (cases "sc \<noteq> [] \<and> sc \<noteq> ''20000000''")
        case True
        with Inr False r assms
        have "\<exists>m. extract_status_message resp = Inr m \<and> is_permission_message m"
          by (auto simp: standard_body_def split: sum.splits if_splits)
        then have "permission_class resp" by (auto simp: permission_class_def)
        moreover from Inr False r True
        have "fst (standard_body svc cfg rid) = [try_error_entry ''submit'' rid resp]"
          by (simp add: standard_body_def)
        ultimately show ?thesis using Inr by blast
      next
        case f2: False
        obtain new outcome where q: "query_loop svc cfg rid 0 0 = (new, outcome)"
          by (cases "query_loop svc cfg rid 0 0") auto
        from Inr False r f2 q
        have sb: "standard_body svc cfg rid =
                    (case outcome of Break \<Rightarrow> (new, Continue) | _ \<Rightarrow> (new, outcome))"
          by (auto simp: standard_body_def split: step.splits)
        have nc: "outcome \<noteq> Continue"
          using query_loop_not_Continue [of svc cfg rid 0 0] q by simp
        from sb assms nc have b: "outcome = Break"
          by (cases outcome) simp_all
        with q have "snd (query_loop svc cfg rid 0 0) = Break" by simp
        from query_loop_Break [OF this] q obtain j resp'
          where "post_standard_query svc rid j = Inr resp'" "permission_class resp'"
            "new = [try_error_entry ''query'' rid resp']"
          by auto
        moreover from sb b have "fst (standard_body svc cfg rid) = new" by simp
        ultimately show ?thesis by blast
      qed
    qed
  qed
qed

lemma recognize_flash_exhausted:
  "(\<forall>rid \<in> set cands. flash_exhausted svc rid) \<Longrightarrow>
   recognize_flash svc cands errs = (errs @ flash_trace svc cands, Inr None)"
proof (induction cands arbitrary: errs)
  case Nil
  then show ?case by (simp add: flash_trace_def)
next
  case (Cons rid rest)
  then have c: "snd (flash_body svc rid) = Continue"
    by (simp add: flash_exhausted_def)
  obtain new where n: "flash_body svc rid = (new, Continue)"
    using c by (cases "flash_body svc rid") auto
  from Cons have "recognize_flash svc rest (errs @ new)
                    = ((errs @ new) @ flash_trace svc rest, Inr None)"
    by simp
  with n show ?case by (simp add: flash_trace_def)
qed

lemma recognize_standard_exhausted:
  "(\<forall>rid \<in> set cands. standard_exhausted svc cfg rid) \<Longrightarrow>
   recognize_standard svc cfg cands errs = (errs @ standard_trace svc cfg cands, Inr None)"
proof (induction cands arbitrary: errs)
  case Nil
  then show ?case by (simp add: standard_trace_def)
next
  case (Cons rid rest)
  then have c: "snd (standard_body svc cfg rid) = Continue"
    by (simp add: standard_exhausted_def)
  obtain new where n: "standard_body svc cfg rid = (new, Continue)"
    using c by (cases "standard_body svc cfg rid") auto
  from Cons have "recognize_standard svc cfg rest (errs @ new)
                    = ((errs @ new) @ standard_trace svc cfg rest, Inr None)"
    by simp
  with n show ?case by (simp add: standard_trace_def)
qed

lemma concat_singletons:
  "(\<forall>x \<in> set xs. \<exists>y. f x = [y]) \<Longrightarrow> concat (map f xs) = map (\<lambda>x. hd (f x)) xs"
  by (induction xs) auto

lemma flash_trace_entries:
  assumes "\<forall>rid \<in> set cands. flash_exhausted svc rid"
  shows "length (flash_trace svc cands) = length cands
         \<and> (\<forall>i < length cands. \<exists>resp. post_flash_once svc (cands ! i) = Inr resp
               \<and> permission_class resp
               \<and> flash_trace svc cands ! i = try_error_entry ''flash'' (cands ! i) resp)"
proof -
  have s: "\<forall>rid \<in> set cands. \<exists>y. fst (flash_body svc rid) = [y]"
    using assms flash_body_Continue by (fastforce simp: flash_exhausted_def)
  have t: "flash_trace svc cands = map (\<lambda>rid. hd (fst (flash_body svc rid))) cands"
    unfolding flash_trace_def using concat_singletons [OF s] .
  show ?thesis
  proof (intro conjI allI impI)
    show "length (flash_trace svc cands) = length cands" by (simp add: t)
  next
    fix i
    assume i: "i < length cands"
    then have "flash_exhausted svc (cands ! i)" using assms by simp
    then obtain resp where "post_flash_once svc (cands ! i) = Inr resp" "permission_class resp"
      "fst (flash_body svc (cands ! i)) = [try_error_entry ''flash'' (cands ! i) resp]"
      using flash_body_Continue [of svc "cands ! i"] by (auto simp: flash_exhausted_def)
    with i show "\<exists>resp. post_flash_once svc (cands ! i) = Inr resp
               \<and> permission_class resp
               \<and> flash_trace svc cands ! i = try_error_entry ''flash'' (cands ! i) resp"
      by (auto simp: t)
  qed
qed

lemma standard_trace_entries:
  assumes "\<forall>rid \<in> set cands. standard_exhausted svc cfg rid"
  shows "length (standard_trace svc cfg cands) = length cands
         \<and> (\<forall>i < length cands.
               (\<exists>resp. post_standard_submit svc (cands ! i) = Inr resp \<and> permission_class resp
                  \<and> standard_trace svc cfg cands ! i
                      = try_error_entry ''submit'' (cands ! i) resp)
               \<or> (\<exists>j resp. post_standard_query svc (cands ! i) j = Inr resp
                     \<and> permission_class resp
                     \<and> standard_trace svc cfg cands ! i
                         = try_error_entry ''query'' (cands ! i) resp))"
proof -
  have s: "\<forall>rid \<in> set cands. \<exists>y. fst (standard_body svc cfg rid) = [y]"
  proof
    fix rid
    assume "rid \<in> set cands"
    then have "snd (standard_body svc cfg rid) = Continue"
      using assms by (simp add: standard_exhausted_def)
    from standard_body_Continue [OF this] show "\<exists>y. fst (standard_body svc cfg rid) = [y]"
      by blast
  qed
  have t: "standard_trace svc cfg cands = map (\<lambda>rid. hd (fst (standard_body svc cfg rid))) cands"
    unfolding standard_trace_def using concat_singletons [OF s] .
  show ?thesis
  proof (intro conjI allI impI)
    show "length (standard_trace svc cfg cands) = length cands" by (simp add: t)
  next
    fix i
    assume i: "i < length cands"
    then have "snd (standard_body svc cfg (cands ! i)) = Continue"
      using assms by (simp add: standard_exhausted_def)
    from standard_body_Continue [OF this]
    consider (sub) resp where "post_standard_submit svc (cands ! i) = Inr resp"
        "permission_class resp"
        "fst (standard_body svc cfg (cands ! i)) = [try_error_entry ''submit'' (cands ! i) resp]"
      | (qry) j resp where "post_standard_query svc (cands ! i) j = Inr resp"
        "permission_class resp"
        "fst (standard_body svc cfg (cands ! i)) = [try_error_entry ''query'' (cands ! i) resp]"
      by blast
    then show "(\<exists>resp. post_standard_submit svc (cands ! i) = Inr resp \<and> permission_class resp
                  \<and> standard_trace svc cfg cands ! i
                      = try_error_entry ''submit'' (cands ! i) resp)
               \<or> (\<exists>j resp. post_standard_query svc (cands ! i) j = Inr resp
                     \<and> permission_class resp
                     \<and> standard_trace svc cfg cands ! i
                         = try_error_entry ''query'' (cands ! i) resp)"
    proof cases
      case sub
      with i have "standard_trace svc cfg cands ! i = try_error_entry ''submit'' (cands ! i) resp"
        by (simp add: t)
      with sub show ?thesis by blast
    next
      case qry
      with i have "standard_trace svc cfg cands ! i = try_error_entry ''query'' (cands ! i) resp"
        by (simp add: t)
      with qry show ?thesis by blast
    qed
  qed
qed

lemma not_granted_message_names:
  "rid \<in> set cands \<Longrightarrow> sublist rid (not_granted_message cands errs)"
proof -
  assume "rid \<in> set cands"
  then have "sublist rid (py_join '','' cands)" by (rule sublist_py_join)
  then obtain a b where "py_join '','' cands = a @ rid @ b"
    by (auto simp: sublist_def)
  then have "\<exists>ps ss. not_granted_message cands errs = ps @ rid @ ss"
    unfolding not_granted_message_def
    by (metis append.assoc)
  then show ?thesis by (simp add: sublist_def)
qed

lemma recognize_exhausted:
  assumes "asr_appid cfg \<noteq> []" and "asr_access_token cfg \<noteq> []"
    and "\<forall>rid \<in> set (candidate_resource_ids cfg).
           flash_exhausted svc rid \<and> standard_exhausted svc cfg rid"
  shows "recognize svc cfg (Inr audio_bytes) =
           Inl (VolcAPIError (not_granted_message (candidate_resource_ids cfg)
                  (flash_trace svc (candidate_resource_ids cfg)
                   @ standard_trace svc cfg (candidate_resource_ids cfg))))"
proof -
  let ?cs = "candidate_resource_ids cfg"
  have f: "recognize_flash svc ?cs [] = ([] @ flash_trace svc ?cs, Inr None)"
    using assms(3) by (intro recognize_flash_exhausted) blast
  have s: "recognize_standard svc cfg ?cs (flash_trace svc ?cs)
             = (flash_trace svc ?cs @ standard_trace svc cfg ?cs, Inr None)"
    using assms(3) by (intro recognize_standard_exhausted) blast
  show ?thesis
    using assms(1,2) f s by (simp add: recognize_def Let_def)
qed


lemma refusing_service_exhausted:
  "\<forall>rid \<in> set (candidate_resource_ids demo_asr_cfg).
     flash_exhausted refusing_service rid \<and> standard_exhausted refusing_service demo_asr_cfg rid"
  by code_simp


subsection \<open>The pipeline\<close>

text \<open>
  C10. For a job id without a stored job, \<^verbatim>\<open>execute_job\<close> returns without an exception and
  leaves the store, the event log and the files as they were: no status, artifact, meta or
  event is written.
\<close>

theorem execute_job_missing_job:
  "jobs w job_id = None \<Longrightarrow> execute_job tk config root job_id w = (None, w)"
  by (simp add: execute_job_def)

theorem execute_job_missing_job_witness:
  "jobs rerun_world ''ghost'' = None
   \<and> execute_job demo_tools demo_config ''/jobs'' ''ghost'' rerun_world = (None, rerun_world)"
proof -
  have n: "jobs rerun_world ''ghost'' = None"
    by (simp add: rerun_world_def)
  from execute_job_missing_job [OF n] n show ?thesis by blast
qed

subsection \<open>Computations on the world\<close>

lemma then_do_Inr_iff:
  "then_do m f w = (Inr r, w') \<longleftrightarrow> (\<exists>x w1. m w = (Inr x, w1) \<and> f x w1 = (Inr r, w'))"
  by (auto simp: then_do_def split: prod.splits sum.splits)

lemma then_do_Inl:
  "m w = (Inl e, w1) \<Longrightarrow> then_do m f w = (Inl e, w1)"
  by (simp add: then_do_def)

lemma then_do_Inr:
  "m w = (Inr x, w1) \<Longrightarrow> then_do m f w = f x w1"
  by (simp add: then_do_def)

named_theorems quiet_intros

lemma quiet_ret [quiet_intros]: "quiet j (ret x)"
  by (simp add: quiet_def ret_def)

lemma quiet_raise_error [quiet_intros]: "quiet j (raise_error e)"
  by (simp add: quiet_def raise_error_def)

lemma quiet_lift [quiet_intros]: "quiet j (lift r)"
  by (simp add: quiet_def lift_def)

lemma quiet_then_do [quiet_intros]:
  assumes "quiet j m" and "\<And>x. quiet j (f x)"
  shows "quiet j (then_do m f)"
  unfolding quiet_def
proof (intro allI)
  fix w
  obtain r w1 where m: "m w = (r, w1)" by (cases "m w") auto
  from assms(1) m have e1: "events w1 = events w"
    and j1: "jobs w j \<noteq> None \<longrightarrow> jobs w1 j \<noteq> None"
    by (auto simp: quiet_def dest: spec [of _ w])
  show "events (snd (then_do m f w)) = events w
        \<and> (jobs w j \<noteq> None \<longrightarrow> jobs (snd (then_do m f w)) j \<noteq> None)"
  proof (cases r)
    case (Inl e)
    with m e1 j1 show ?thesis by (simp add: then_do_def)
  next
    case (Inr x)
    from assms(2) [of x] have "events (snd (f x w1)) = events w1"
      and "jobs w1 j \<noteq> None \<longrightarrow> jobs (snd (f x w1)) j \<noteq> None"
      by (auto simp: quiet_def)
    with Inr m e1 j1 show ?thesis by (simp add: then_do_def)
  qed
qed

lemma quiet_if [quiet_intros]:
  "quiet j a \<Longrightarrow> quiet j b \<Longrightarrow> quiet j (if c then a else b)"
  by simp

lemma quiet_case_prod [quiet_intros]:
  "(\<And>a b. quiet j (f a b)) \<Longrightarrow> quiet j (case p of (a, b) \<Rightarrow> f a b)"
  by (cases p) simp

lemma quiet_case_option [quiet_intros]:
  "quiet j a \<Longrightarrow> (\<And>x. quiet j (f x)) \<Longrightarrow> quiet j (case v of None \<Rightarrow> a | Some x \<Rightarrow> f x)"
  by (cases v) simp_all

lemma quiet_case_json [quiet_intros]:
  "quiet j a \<Longrightarrow> (\<And>x. quiet j (b x)) \<Longrightarrow> (\<And>x. quiet j (c x)) \<Longrightarrow> (\<And>x. quiet j (d x)) \<Longrightarrow>
   (\<And>x. quiet j (e x)) \<Longrightarrow> (\<And>x. quiet j (f x)) \<Longrightarrow> (\<And>x. quiet j (g x)) \<Longrightarrow>
   quiet j (case_json a b c d e f g v)"
  by (cases v) simp_all

lemma quiet_write_text [quiet_intros]: "quiet j (write_text path content)"
  by (simp add: quiet_def write_text_def)

lemma quiet_write_json [quiet_intros]: "quiet j (write_json tk path payload)"
  by (simp add: write_json_def quiet_write_text)

lemma quiet_copy2 [quiet_intros]: "quiet j (copy2 src dst)"
  by (simp add: quiet_def copy2_def split: option.splits)

lemma quiet_put_artifact: "quiet j (put_artifact job_id kind path)"
  by (simp add: quiet_def put_artifact_def split: option.splits)

lemma quiet_save_artifact [quiet_intros]: "quiet j (save_artifact job_id kind path)"
  by (simp add: save_artifact_def quiet_put_artifact)

lemma quiet_patch_meta [quiet_intros]: "quiet j (patch_meta job_id k v)"
  by (simp add: quiet_def patch_meta_def split: option.splits)

lemma quiet_on_file [quiet_intros]: "quiet j (on_file tool path)"
  by (simp add: quiet_def on_file_def)

lemma quiet_read_text_or_fail [quiet_intros]: "quiet j (read_text_or_fail path failure)"
  by (simp add: quiet_def read_text_or_fail_def split: option.splits)

lemma quiet_world_read:
  "(\<And>w. snd (m w) = w) \<Longrightarrow> quiet j m"
  by (simp add: quiet_def)

lemma quiet_reuse_parent_artifact [quiet_intros]:
  "quiet j (reuse_parent_artifact job_id parent_job_id parent_artifacts kind target required)"
proof -
  have c: "quiet j (then_do (copy2 p target) (\<lambda>_.
             then_do (save_artifact job_id kind target) (\<lambda>_. ret (Some target))))" for p
    by (intro quiet_intros)
  show ?thesis
    unfolding quiet_def
  proof (intro allI)
    fix w
    show "events (snd (reuse_parent_artifact job_id parent_job_id parent_artifacts kind target
                         required w)) = events w
          \<and> (jobs w j \<noteq> None \<longrightarrow>
               jobs (snd (reuse_parent_artifact job_id parent_job_id parent_artifacts kind target
                            required w)) j \<noteq> None)"
      using c [unfolded quiet_def]
      by (simp add: reuse_parent_artifact_def split: option.splits)
  qed
qed

subsection \<open>Stage events\<close>

lemma set_stage_event:
  "jobs w job_id \<noteq> None \<Longrightarrow>
   \<exists>w1. set_stage job_id st msg w = (Inr (), w1)
        \<and> events w1 = events w @ [(job_id, status_value st, msg)]
        \<and> jobs w1 job_id \<noteq> None \<and> files w1 = files w"
  by (auto simp: set_stage_def set_job_status_def)

lemma announces_set_stage:
  assumes "quiet job_id rest"
  shows "announces job_id st msg (then_do (set_stage job_id st msg) (\<lambda>_. rest))"
  unfolding announces_def
proof (intro allI impI)
  fix w :: world
  assume "jobs w job_id \<noteq> None"
  from set_stage_event [OF this, of st msg] obtain w1
    where s: "set_stage job_id st msg w = (Inr (), w1)"
      and e: "events w1 = events w @ [(job_id, status_value st, msg)]"
      and j: "jobs w1 job_id \<noteq> None"
    by blast
  have "then_do (set_stage job_id st msg) (\<lambda>_. rest) w = rest w1"
    using s by (simp add: then_do_def)
  with assms e j
  show "events (snd (then_do (set_stage job_id st msg) (\<lambda>_. rest) w))
           = events w @ [(job_id, status_value st, msg)]
         \<and> jobs (snd (then_do (set_stage job_id st msg) (\<lambda>_. rest) w)) job_id \<noteq> None"
    by (simp add: quiet_def)
qed

lemma announces_then:
  assumes "announces job_id st msg m" and "\<And>x. quiet job_id (f x)"
  shows "announces job_id st msg (then_do m f)"
  unfolding announces_def
proof (intro allI impI)
  fix w :: world
  assume a: "jobs w job_id \<noteq> None"
  obtain r w1 where m: "m w = (r, w1)" by (cases "m w") auto
  from assms(1) a m
  have e: "events w1 = events w @ [(job_id, status_value st, msg)]"
    and j: "jobs w1 job_id \<noteq> None"
    by (auto simp: announces_def)
  show "events (snd (then_do m f w)) = events w @ [(job_id, status_value st, msg)]
        \<and> jobs (snd (then_do m f w)) job_id \<noteq> None"
  proof (cases r)
    case (Inl err)
    with m e j show ?thesis by (simp add: then_do_def)
  next
    case (Inr x)
    with m have "then_do m f w = f x w1" by (simp add: then_do_def)
    with assms(2) [of x] e j show ?thesis by (simp add: quiet_def)
  qed
qed

lemma announces_lift:
  assumes "r = Inr x" and "announces job_id st msg (f x)"
  shows "announces job_id st msg (then_do (lift r) f)"
proof -
  have "then_do (lift r) f = f x"
    using assms(1) by (simp add: then_do_def lift_def fun_eq_iff)
  with assms(2) show ?thesis by simp
qed

lemma quiet_on_files [quiet_intros]: "quiet j (on_files tool path1 path2)"
  by (simp add: quiet_def on_files_def)

lemma quiet_load_script [quiet_intros]: "quiet j (load_script tk path)"
  by (simp add: quiet_def load_script_def split: option.splits)

lemma quiet_require_source [quiet_intros]: "quiet j (require_source job)"
  by (simp add: quiet_def require_source_def)

lemma then_do_lift_Inl: "then_do (lift (Inl e)) f w = (Inl e, w)"
  by (simp add: then_do_def lift_def)

lemma stage_preprocessing_announces:
  assumes "should_run_stage start_stage PREPROCESSING = Inr run"
  shows "announces job_id PREPROCESSING (stage_message config task_id PREPROCESSING run)
           (stage_preprocessing tk root job_id job start_stage parent_meta)"
  unfolding stage_preprocessing_def
  by (rule announces_lift [OF assms])
     (cases run; simp only: if_True if_False stage_message.simps;
      intro announces_set_stage announces_then quiet_intros)

lemma stage_preprocessing_refuses:
  assumes "should_run_stage start_stage PREPROCESSING = Inl e"
  shows "stage_preprocessing tk root job_id job start_stage parent_meta w = (Inl e, w)"
  unfolding stage_preprocessing_def
  by (simp only: assms then_do_lift_Inl)

lemma stage_asr_announces:
  assumes "should_run_stage start_stage ASR = Inr run"
  shows "announces job_id ASR (stage_message config task_id ASR run)
           (stage_asr tk root job_id job start_stage parent_job_id parent_artifacts)"
  unfolding stage_asr_def
  by (rule announces_lift [OF assms])
     (cases run; simp only: if_True if_False stage_message.simps;
      intro announces_set_stage announces_then quiet_intros)

lemma stage_asr_refuses:
  assumes "should_run_stage start_stage ASR = Inl e"
  shows "stage_asr tk root job_id job start_stage parent_job_id parent_artifacts w = (Inl e, w)"
  unfolding stage_asr_def
  by (simp only: assms then_do_lift_Inl)

lemma stage_transcript_polish_announces:
  assumes "should_run_stage start_stage TRANSCRIPT_POLISH = Inr run"
  shows "announces job_id TRANSCRIPT_POLISH (stage_message config task_id TRANSCRIPT_POLISH run)
           (stage_transcript_polish tk config root job_id start_stage parent_job_id
              parent_artifacts transcript_raw)"
  unfolding stage_transcript_polish_def
  by (rule announces_lift [OF assms])
     (cases run; cases "cfg_enable_asr_polish config"; simp only: if_True if_False stage_message.simps;
      intro announces_set_stage announces_then quiet_intros)

lemma stage_transcript_polish_refuses:
  assumes "should_run_stage start_stage TRANSCRIPT_POLISH = Inl e"
  shows "stage_transcript_polish tk config root job_id start_stage parent_job_id parent_artifacts transcript_raw w = (Inl e, w)"
  unfolding stage_transcript_polish_def
  by (simp only: assms then_do_lift_Inl)

lemma stage_script_gen_announces:
  assumes "should_run_stage start_stage SCRIPT_GEN = Inr run"
  shows "announces job_id SCRIPT_GEN (stage_message config task_id SCRIPT_GEN run)
           (stage_script_gen tk config root job_id job start_stage parent_job_id
              parent_artifacts polished_text)"
  unfolding stage_script_gen_def
  by (rule announces_lift [OF assms])
     (cases run; simp only: if_True if_False stage_message.simps;
      intro announces_set_stage announces_then quiet_intros)

lemma stage_script_gen_refuses:
  assumes "should_run_stage start_stage SCRIPT_GEN = Inl e"
  shows "stage_script_gen tk config root job_id job start_stage parent_job_id parent_artifacts polished_text w = (Inl e, w)"
  unfolding stage_script_gen_def
  by (simp only: assms then_do_lift_Inl)

lemma stage_video_submit_announces:
  assumes "should_run_stage start_stage VIDEO_SUBMIT = Inr run"
  shows "announces job_id VIDEO_SUBMIT (stage_message config task_id VIDEO_SUBMIT run)
           (stage_video_submit tk config root job_id job start_stage parent_job_id parent_meta
              script_payload source_meta)"
  unfolding stage_video_submit_def
  by (rule announces_lift [OF assms])
     (cases run; simp only: if_True if_False stage_message.simps;
      intro announces_set_stage announces_then quiet_intros)

lemma stage_video_submit_refuses:
  assumes "should_run_stage start_stage VIDEO_SUBMIT = Inl e"
  shows "stage_video_submit tk config root job_id job start_stage parent_job_id parent_meta script_payload source_meta w = (Inl e, w)"
  unfolding stage_video_submit_def
  by (simp only: assms then_do_lift_Inl)

lemma stage_video_polling_announces:
  assumes "should_run_stage start_stage VIDEO_POLLING = Inr run"
  shows "announces job_id VIDEO_POLLING (stage_message config task_id VIDEO_POLLING run)
           (stage_video_polling tk root job_id start_stage parent_job_id parent_artifacts
              task_id)"
  unfolding stage_video_polling_def
  by (rule announces_lift [OF assms])
     (cases run; simp only: if_True if_False stage_message.simps;
      intro announces_set_stage announces_then quiet_intros)

lemma stage_video_polling_refuses:
  assumes "should_run_stage start_stage VIDEO_POLLING = Inl e"
  shows "stage_video_polling tk root job_id start_stage parent_job_id parent_artifacts task_id w = (Inl e, w)"
  unfolding stage_video_polling_def
  by (simp only: assms then_do_lift_Inl)

lemma stage_postprocess_announces:
  "announces job_id POSTPROCESS (stage_message config task_id POSTPROCESS True)
     (stage_postprocess tk root job_id job source_meta hook_video_raw_path)"
  unfolding stage_postprocess_def
  by (simp only: stage_message.simps) (intro announces_set_stage quiet_intros)

subsection \<open>Reruns\<close>

subsection \<open>Which stages run\<close>

lemma list_index_stage_position:
  assumes "i < 7"
  shows "list_index STAGE_SEQUENCE (STAGE_SEQUENCE ! i) = Some i"
proof -
  from assms have "i = 0 \<or> i = 1 \<or> i = 2 \<or> i = 3 \<or> i = 4 \<or> i = 5 \<or> i = 6" by arith
  then show ?thesis
    by (elim disjE; simp add: STAGE_SEQUENCE_def)
qed

lemma should_run_stage_positions:
  assumes "i < 7" and "j < 7"
  shows "should_run_stage (STAGE_SEQUENCE ! i) (STAGE_SEQUENCE ! j) = Inr (i \<le> j)"
  unfolding should_run_stage_def
  by (simp only: list_index_stage_position [OF assms(1)] list_index_stage_position [OF assms(2)]
      option.case)

lemma job_start_stage_in_sequence: "job_start_stage job \<in> set STAGE_SEQUENCE"
  unfolding job_start_stage_def normalize_start_stage_find
  using PREPROCESSING_in_sequence
  by (simp split: option.split add: find_in_set)

lemma should_run_postprocess:
  "s \<in> set STAGE_SEQUENCE \<Longrightarrow> should_run_stage s POSTPROCESS = Inr True"
  by (cases s; simp add: STAGE_SEQUENCE_def should_run_stage_def)

subsection \<open>Reuse of one artifact\<close>

lemma reuse_parent_artifact_missing:
  assumes "map_of parent_artifacts kind = None \<or> map_of parent_artifacts kind = Some []"
  shows "reuse_parent_artifact job_id parent_job_id parent_artifacts kind target required w
         = (if required then Inl (PipelineError (ReuseMissingArtifact kind parent_job_id))
            else Inr None, w)"
  using assms by (auto simp: reuse_parent_artifact_def)

lemma reuse_parent_artifact_absent:
  assumes "map_of parent_artifacts kind = Some parent_path" and "parent_path \<noteq> []"
    and "files w parent_path = None"
  shows "reuse_parent_artifact job_id parent_job_id parent_artifacts kind target required w
         = (if required then Inl (PipelineError (ReuseFileNotExist kind parent_path))
            else Inr None, w)"
  using assms by (simp add: reuse_parent_artifact_def)

lemma reuse_parent_artifact_copies:
  fixes w :: world
  assumes "map_of parent_artifacts kind = Some parent_path" and "parent_path \<noteq> []"
    and "files w parent_path = Some content" and "parent_path \<noteq> target"
    and "jobs w job_id = Some job"
  shows "reuse_parent_artifact job_id parent_job_id parent_artifacts kind target required w
         = (Inr (Some target),
            w\<lparr>files := (files w)(target \<mapsto> content),
              jobs := (jobs w)(job_id \<mapsto>
                job\<lparr>job_artifacts := AList.update kind target (job_artifacts job)\<rparr>)\<rparr>)"
  using assms
  by (simp add: reuse_parent_artifact_def then_do_def copy2_def save_artifact_def
      put_artifact_def ret_def)

lemma map_of_update_same: "map_of (AList.update k v al) k = Some v"
  by (simp add: update_conv')

lemma reuse_parent_artifact_returns:
  fixes w :: world
  assumes "fst (reuse_parent_artifact job_id parent_job_id parent_artifacts kind target
                  required w) = Inr (Some t)"
  shows "t = target
         \<and> reused (snd (reuse_parent_artifact job_id parent_job_id parent_artifacts kind target
                          required w)) job_id parent_artifacts kind target"
proof (cases "map_of parent_artifacts kind")
  case None
  with assms show ?thesis
    by (simp add: reuse_parent_artifact_def split: if_splits)
next
  case (Some parent_path)
  show ?thesis
  proof (cases "parent_path = [] \<or> files w parent_path = None")
    case True
    with Some assms show ?thesis
      by (auto simp: reuse_parent_artifact_def split: if_splits)
  next
    case False
    then obtain content where c: "files w parent_path = Some content" and ne: "parent_path \<noteq> []"
      by auto
    show ?thesis
    proof (cases "parent_path = target")
      case True
      with Some c ne assms show ?thesis
        by (simp add: reuse_parent_artifact_def then_do_def copy2_def)
    next
      case diff: False
      show ?thesis
      proof (cases "jobs w job_id")
        case None
        with Some c ne diff assms show ?thesis
          by (simp add: reuse_parent_artifact_def then_do_def copy2_def save_artifact_def
              put_artifact_def)
      next
        case (Some job)
        note r = reuse_parent_artifact_copies
          [OF \<open>map_of parent_artifacts kind = Some parent_path\<close> ne c diff Some,
            of parent_job_id required]
        from assms r have "t = target" by simp
        moreover have "reused (snd (reuse_parent_artifact job_id parent_job_id parent_artifacts
                          kind target required w)) job_id parent_artifacts kind target"
          unfolding r
          using \<open>map_of parent_artifacts kind = Some parent_path\<close> c diff
          by (simp add: reused_def map_of_update_same)
        ultimately show ?thesis by simp
      qed
    qed
  qed
qed

lemma copy_chain_returns:
  "fst (then_do (copy2 p t) (\<lambda>_. then_do (save_artifact j k t) (\<lambda>_. ret (Some t))) w) = Inr x
   \<Longrightarrow> x = Some t"
  by (auto simp: then_do_def ret_def split: prod.splits sum.splits)

lemma reuse_required_returns:
  assumes "fst (reuse_parent_artifact job_id parent_job_id parent_artifacts kind target
                  True w) = Inr x"
  shows "x = Some target"
proof (cases "map_of parent_artifacts kind")
  case None
  with assms show ?thesis by (simp add: reuse_parent_artifact_def)
next
  case (Some parent_path)
  show ?thesis
  proof (cases "parent_path = [] \<or> files w parent_path = None")
    case True
    with Some assms show ?thesis
      by (cases "parent_path = []") (simp_all add: reuse_parent_artifact_def)
  next
    case False
    with Some assms
    have "fst (then_do (copy2 parent_path target) (\<lambda>_.
                then_do (save_artifact job_id kind target) (\<lambda>_. ret (Some target))) w) = Inr x"
      by (clarsimp simp: reuse_parent_artifact_def)
    then show ?thesis by (rule copy_chain_returns)
  qed
qed

subsection \<open>Reuse in the blocks of the skipped stages\<close>

lemma then_do_lift_Inr: "then_do (lift (Inr x)) f = f x"
  by (simp add: then_do_def lift_def fun_eq_iff)

lemma then_do_tail:
  assumes "fst (then_do m f w) = Inr r"
    and "\<And>x w1. fst (f x w1) = Inr r \<Longrightarrow> Q (snd (f x w1))"
  shows "Q (snd (then_do m f w))"
proof -
  obtain res w1 where m: "m w = (res, w1)" by (cases "m w") auto
  show ?thesis
  proof (cases res)
    case (Inl e)
    with m assms(1) show ?thesis by (simp add: then_do_def)
  next
    case (Inr x)
    with m have eq: "then_do m f w = f x w1" by (simp add: then_do_def)
    with assms(1) have "fst (f x w1) = Inr r" by simp
    from assms(2) [OF this] eq show ?thesis by simp
  qed
qed

lemma reuse_then_read:
  fixes w :: world
  assumes ok: "fst (then_do (reuse_parent_artifact job_id parent_job_id parent_artifacts kind
                               target True) k w) = Inr r"
    and k: "\<And>x w. snd (k x w) = w"
  shows "reused (snd (then_do (reuse_parent_artifact job_id parent_job_id parent_artifacts kind
                                 target True) k w)) job_id parent_artifacts kind target"
proof -
  obtain res w1
    where m: "reuse_parent_artifact job_id parent_job_id parent_artifacts kind target True w
              = (res, w1)"
    by (cases "reuse_parent_artifact job_id parent_job_id parent_artifacts kind target True w")
      auto
  show ?thesis
  proof (cases res)
    case (Inl e)
    with m ok show ?thesis by (simp add: then_do_def)
  next
    case (Inr x)
    with m have f: "fst (reuse_parent_artifact job_id parent_job_id parent_artifacts kind target
                           True w) = Inr x"
      by simp
    from reuse_required_returns [OF f] have x: "x = Some target" .
    from reuse_parent_artifact_returns [OF f [unfolded x]] m
    have "reused w1 job_id parent_artifacts kind target" by simp
    moreover from m Inr
    have "then_do (reuse_parent_artifact job_id parent_job_id parent_artifacts kind target True)
            k w = k x w1"
      by (simp add: then_do_def)
    ultimately show ?thesis by (simp add: k)
  qed
qed

lemma stage_asr_reuses:
  fixes w :: world
  assumes skip: "should_run_stage start_stage ASR = Inr False"
    and ok: "fst (stage_asr tk root job_id job start_stage parent_job_id parent_artifacts w)
             = Inr r"
  shows "reused (snd (stage_asr tk root job_id job start_stage parent_job_id parent_artifacts w))
           job_id parent_artifacts ''transcript_raw'' (job_file root job_id ''transcript_raw.txt'')"
  using ok unfolding stage_asr_def
  by (simp only: skip then_do_lift_Inr if_False)
     (erule then_do_tail, erule then_do_tail, erule reuse_then_read,
      simp add: raise_error_def read_text_or_fail_def split: option.splits)

lemma stage_transcript_polish_reuses:
  fixes w :: world
  assumes skip: "should_run_stage start_stage TRANSCRIPT_POLISH = Inr False"
    and ok: "fst (stage_transcript_polish tk config root job_id start_stage parent_job_id
                    parent_artifacts transcript_raw w) = Inr r"
  shows "reused (snd (stage_transcript_polish tk config root job_id start_stage parent_job_id
                        parent_artifacts transcript_raw w))
           job_id parent_artifacts ''transcript_polished''
           (job_file root job_id ''transcript_polished.txt'')"
  using ok unfolding stage_transcript_polish_def
  by (simp only: skip then_do_lift_Inr if_False)
     (erule then_do_tail, erule reuse_then_read,
      simp add: raise_error_def read_text_or_fail_def split: option.splits)

lemma stage_script_gen_reuses:
  fixes w :: world
  assumes skip: "should_run_stage start_stage SCRIPT_GEN = Inr False"
    and ok: "fst (stage_script_gen tk config root job_id job start_stage parent_job_id
                    parent_artifacts polished_text w) = Inr r"
  shows "reused (snd (stage_script_gen tk config root job_id job start_stage parent_job_id
                        parent_artifacts polished_text w))
           job_id parent_artifacts ''hook_script_json'' (job_file root job_id ''hook_script.json'')"
  using ok unfolding stage_script_gen_def
  by (simp only: skip then_do_lift_Inr if_False)
     (erule then_do_tail, erule reuse_then_read,
      simp add: raise_error_def load_script_def then_do_def lift_def
        split: option.splits json.splits)

lemma stage_video_polling_reuses:
  fixes w :: world
  assumes skip: "should_run_stage start_stage VIDEO_POLLING = Inr False"
    and ok: "fst (stage_video_polling tk root job_id start_stage parent_job_id parent_artifacts
                    task_id w) = Inr r"
  shows "reused (snd (stage_video_polling tk root job_id start_stage parent_job_id
                        parent_artifacts task_id w))
           job_id parent_artifacts ''hook_video_raw'' (job_file root job_id ''hook_video_raw.mp4'')"
  using ok unfolding stage_video_polling_def
  by (simp only: skip then_do_lift_Inr if_False)
     (erule then_do_tail, erule reuse_then_read,
      simp add: raise_error_def ret_def split: option.splits)

subsection \<open>A required artifact that cannot be reused\<close>

lemma then_do_raises: "fst (m w) = Inl e \<Longrightarrow> fst (then_do m f w) = Inl e"
  by (cases "m w") (simp add: then_do_def)

lemma skip_block_raises:
  fixes w :: world
  assumes "jobs w job_id \<noteq> None"
    and "\<And>w1. files w1 = files w \<Longrightarrow> jobs w1 job_id \<noteq> None \<Longrightarrow> fst (rest w1) = Inl e"
  shows "fst (then_do (set_stage job_id st msg) (\<lambda>_. rest) w) = Inl e"
proof -
  from set_stage_event [OF assms(1), of st msg] obtain w1
    where s: "set_stage job_id st msg w = (Inr (), w1)"
      and j: "jobs w1 job_id \<noteq> None" and f: "files w1 = files w"
    by blast
  from s have "then_do (set_stage job_id st msg) (\<lambda>_. rest) w = rest w1"
    by (simp add: then_do_def)
  with assms(2) [OF f j] show ?thesis by simp
qed

lemma cannot_reuse_raises:
  assumes "cannot_reuse w parent_job_id parent_artifacts kind e"
    and "\<And>p. map_of parent_artifacts kind = Some p \<Longrightarrow> files w1 p = files w p"
  shows "fst (then_do (reuse_parent_artifact job_id parent_job_id parent_artifacts kind target
                         True) k w1) = Inl e"
proof (rule then_do_raises)
  show "fst (reuse_parent_artifact job_id parent_job_id parent_artifacts kind target True w1)
        = Inl e"
  proof (cases "map_of parent_artifacts kind")
    case None
    with assms(1) show ?thesis
      by (simp add: cannot_reuse_def reuse_parent_artifact_missing)
  next
    case (Some parent_path)
    show ?thesis
    proof (cases "parent_path = []")
      case True
      with Some assms(1) show ?thesis
        by (simp add: cannot_reuse_def reuse_parent_artifact_missing)
    next
      case False
      with Some assms(1) have "files w parent_path = None"
        and e: "e = PipelineError (ReuseFileNotExist kind parent_path)"
        by (simp_all add: cannot_reuse_def)
      with assms(2) [OF Some] have "files w1 parent_path = None" by simp
      note this e
      with Some False show ?thesis
        by (simp add: reuse_parent_artifact_absent)
    qed
  qed
qed

lemma stage_transcript_polish_cannot_reuse:
  fixes w :: world
  assumes skip: "should_run_stage start_stage TRANSCRIPT_POLISH = Inr False"
    and stored: "jobs w job_id \<noteq> None"
    and bad: "cannot_reuse w parent_job_id parent_artifacts ''transcript_polished'' e"
  shows "fst (stage_transcript_polish tk config root job_id start_stage parent_job_id
                parent_artifacts transcript_raw w) = Inl e"
  unfolding stage_transcript_polish_def
  by (simp only: skip then_do_lift_Inr if_False)
     (rule skip_block_raises [OF stored], rule cannot_reuse_raises [OF bad], simp)

lemma stage_script_gen_cannot_reuse:
  fixes w :: world
  assumes skip: "should_run_stage start_stage SCRIPT_GEN = Inr False"
    and stored: "jobs w job_id \<noteq> None"
    and bad: "cannot_reuse w parent_job_id parent_artifacts ''hook_script_json'' e"
  shows "fst (stage_script_gen tk config root job_id job start_stage parent_job_id
                parent_artifacts polished_text w) = Inl e"
  unfolding stage_script_gen_def
  by (simp only: skip then_do_lift_Inr if_False)
     (rule skip_block_raises [OF stored], rule cannot_reuse_raises [OF bad], simp)

lemma stage_video_polling_cannot_reuse:
  fixes w :: world
  assumes skip: "should_run_stage start_stage VIDEO_POLLING = Inr False"
    and stored: "jobs w job_id \<noteq> None"
    and bad: "cannot_reuse w parent_job_id parent_artifacts ''hook_video_raw'' e"
  shows "fst (stage_video_polling tk root job_id start_stage parent_job_id parent_artifacts
                task_id w) = Inl e"
  unfolding stage_video_polling_def
  by (simp only: skip then_do_lift_Inr if_False)
     (rule skip_block_raises [OF stored], rule cannot_reuse_raises [OF bad], simp)

lemma reuse_optional_effect:
  fixes w :: world
  assumes "jobs w job_id \<noteq> None" and "map_of parent_artifacts kind \<noteq> Some target"
  shows "\<exists>x w1. reuse_parent_artifact job_id parent_job_id parent_artifacts kind target False w
                 = (Inr x, w1)
               \<and> jobs w1 job_id \<noteq> None \<and> (\<forall>p. p \<noteq> target \<longrightarrow> files w1 p = files w p)"
proof (cases "map_of parent_artifacts kind")
  case None
  with assms(1) show ?thesis by (simp add: reuse_parent_artifact_missing)
next
  case (Some parent_path)
  with assms(2) have diff: "parent_path \<noteq> target" by simp
  show ?thesis
  proof (cases "parent_path = []")
    case True
    with Some assms(1) show ?thesis by (simp add: reuse_parent_artifact_missing)
  next
    case ne: False
    show ?thesis
    proof (cases "files w parent_path")
      case None
      with Some ne assms(1) show ?thesis by (simp add: reuse_parent_artifact_absent)
    next
      case (Some content)
      from assms(1) obtain job where j: "jobs w job_id = Some job" by auto
      from reuse_parent_artifact_copies
        [OF \<open>map_of parent_artifacts kind = Some parent_path\<close> ne Some diff j,
          of parent_job_id False]
      show ?thesis by simp
    qed
  qed
qed

lemma stage_asr_cannot_reuse:
  fixes w :: world
  assumes skip: "should_run_stage start_stage ASR = Inr False"
    and stored: "jobs w job_id \<noteq> None"
    and bad: "cannot_reuse w parent_job_id parent_artifacts ''transcript_raw'' e"
    and apart: "map_of parent_artifacts ''asr_clip_audio''
                  \<noteq> Some (job_file root job_id ''asr_clip.wav'')"
               "map_of parent_artifacts ''transcript_raw''
                  \<noteq> Some (job_file root job_id ''asr_clip.wav'')"
  shows "fst (stage_asr tk root job_id job start_stage parent_job_id parent_artifacts w) = Inl e"
  unfolding stage_asr_def
proof (simp only: skip then_do_lift_Inr if_False, rule skip_block_raises [OF stored])
  fix w1 :: world
  assume f: "files w1 = files w" and j: "jobs w1 job_id \<noteq> None"
  from reuse_optional_effect [OF j apart(1), of parent_job_id] obtain x w2
    where r: "reuse_parent_artifact job_id parent_job_id parent_artifacts ''asr_clip_audio''
                (job_file root job_id ''asr_clip.wav'') False w1 = (Inr x, w2)"
      and same: "\<forall>p. p \<noteq> job_file root job_id ''asr_clip.wav'' \<longrightarrow> files w2 p = files w1 p"
    by blast
  have "\<And>p. map_of parent_artifacts ''transcript_raw'' = Some p \<Longrightarrow> files w2 p = files w p"
    using same f apart(2) by auto
  from cannot_reuse_raises [OF bad this]
  have "fst (then_do (reuse_parent_artifact job_id parent_job_id parent_artifacts
                        ''transcript_raw'' (job_file root job_id ''transcript_raw.txt'') True)
               k w2) = Inl e" for k
    by blast
  with r
  show "fst (then_do (reuse_parent_artifact job_id parent_job_id parent_artifacts
                        ''asr_clip_audio'' (job_file root job_id ''asr_clip.wav'') False) (\<lambda>_.
             then_do (reuse_parent_artifact job_id parent_job_id parent_artifacts
                        ''transcript_raw'' (job_file root job_id ''transcript_raw.txt'') True)
               (\<lambda>reused.
             case reused of
               None \<Rightarrow> raise_error (PipelineError (ReuseFailed ''transcript_raw''))
             | Some reused_path \<Rightarrow>
                 read_text_or_fail reused_path (ReuseTextEmpty ''transcript_raw''))) w1) = Inl e"
    by (simp add: then_do_Inr)
qed

subsection \<open>The event log of a run\<close>

lemma logs_quiet: "quiet j m \<Longrightarrow> logs j (\<lambda>r evs. evs = []) m"
  by (simp add: logs_def quiet_def)

lemma logs_announces:
  "announces j st msg m \<Longrightarrow> logs j (\<lambda>r evs. evs = [(j, status_value st, msg)]) m"
  by (simp add: logs_def announces_def)

lemma logs_weaken:
  "logs j P m \<Longrightarrow> (\<And>r evs. P r evs \<Longrightarrow> Q r evs) \<Longrightarrow> logs j Q m"
  unfolding logs_def by blast

lemma logs_case_prod:
  "(\<And>a b. logs j (P a b) (f a b)) \<Longrightarrow> logs j (case_prod P p) (case_prod f p)"
  by (cases p) simp

lemma logs_then_do:
  assumes "logs j P m" and "\<And>x. logs j (Q x) (f x)"
  shows "logs j (\<lambda>r evs. \<exists>x a b. evs = a @ b \<and> P x a \<and> Q x r b) (then_do m f)"
  unfolding logs_def
proof (intro allI impI conjI)
  fix w :: world
  assume stored: "jobs w j \<noteq> None"
  obtain res w1 where m: "m w = (res, w1)" by (cases "m w") auto
  from assms(1) stored m have j1: "jobs w1 j \<noteq> None"
    by (auto simp: logs_def dest!: spec [of _ w])
  show "jobs (snd (then_do m f w)) j \<noteq> None"
  proof (cases res)
    case (Inl e)
    with m j1 show ?thesis by (simp add: then_do_def)
  next
    case (Inr x)
    with m have "then_do m f w = f x w1" by (simp add: then_do_def)
    with assms(2) [of x] j1 show ?thesis by (simp add: logs_def)
  qed
  fix r
  assume ok: "fst (then_do m f w) = Inr r"
  show "\<exists>evs. events (snd (then_do m f w)) = events w @ evs
              \<and> (\<exists>x a b. evs = a @ b \<and> P x a \<and> Q x r b)"
  proof (cases res)
    case (Inl e)
    with m ok show ?thesis by (simp add: then_do_def)
  next
    case (Inr x)
    with m have eq: "then_do m f w = f x w1" by (simp add: then_do_def)
    from assms(1) stored m Inr obtain a where a: "events w1 = events w @ a" "P x a"
      by (auto simp: logs_def dest!: spec [of _ w])
    from assms(2) [of x] j1 ok eq obtain b
      where b: "events (snd (f x w1)) = events w1 @ b" "Q x r b"
      by (auto simp: logs_def dest!: spec [of _ w1])
    from a b eq show ?thesis by auto
  qed
qed

lemma logs_stage:
  assumes "\<And>run. d = Inr run \<Longrightarrow> announces job_id st (msg run) m"
    and "\<And>e w. d = Inl e \<Longrightarrow> m w = (Inl e, w)"
  shows "logs job_id
           (\<lambda>r evs. \<exists>run. d = Inr run \<and> evs = [(job_id, status_value st, msg run)]) m"
proof (cases d)
  case (Inl e)
  from assms(2) [OF this] show ?thesis by (simp add: logs_def)
next
  case (Inr run)
  from assms(1) [OF this] Inr show ?thesis by (simp add: logs_def announces_def)
qed

lemma quiet_clear_error: "quiet job_id (clear_error job_id job)"
  by (simp add: quiet_def clear_error_def)

lemma load_lineage_logs:
  "logs job_id
     (\<lambda>(start_stage, parent_job_id, parent_meta, parent_artifacts) evs.
        start_stage = job_start_stage job \<and> parent_job_id = job_parent_id job
        \<and> evs = rerun_notice job_id job)
     (load_lineage job_id job)"
  by (simp add: logs_def load_lineage_def Let_def rerun_notice_def then_do_def append_event_def
      ret_def split: option.splits)

lemma set_job_status_logs:
  "logs job_id (\<lambda>r evs. evs = [(job_id, status_value st, msg)]) (set_job_status job_id st msg)"
  by (auto simp: logs_def set_job_status_def)

lemma stage_preprocessing_logs:
  "logs job_id
     (\<lambda>r evs. \<exists>run. should_run_stage start_stage PREPROCESSING = Inr run
                  \<and> evs = [(job_id, status_value PREPROCESSING, stage_message config task_id PREPROCESSING run)])
     (stage_preprocessing tk root job_id job start_stage parent_meta)"
  by (rule logs_stage [OF stage_preprocessing_announces stage_preprocessing_refuses])

lemma stage_asr_logs:
  "logs job_id
     (\<lambda>r evs. \<exists>run. should_run_stage start_stage ASR = Inr run
                  \<and> evs = [(job_id, status_value ASR, stage_message config task_id ASR run)])
     (stage_asr tk root job_id job start_stage parent_job_id parent_artifacts)"
  by (rule logs_stage [OF stage_asr_announces stage_asr_refuses])

lemma stage_transcript_polish_logs:
  "logs job_id
     (\<lambda>r evs. \<exists>run. should_run_stage start_stage TRANSCRIPT_POLISH = Inr run
                  \<and> evs = [(job_id, status_value TRANSCRIPT_POLISH, stage_message config task_id TRANSCRIPT_POLISH run)])
     (stage_transcript_polish tk config root job_id start_stage parent_job_id
        parent_artifacts transcript_raw)"
  by (rule logs_stage [OF stage_transcript_polish_announces stage_transcript_polish_refuses])

lemma stage_script_gen_logs:
  "logs job_id
     (\<lambda>r evs. \<exists>run. should_run_stage start_stage SCRIPT_GEN = Inr run
                  \<and> evs = [(job_id, status_value SCRIPT_GEN, stage_message config task_id SCRIPT_GEN run)])
     (stage_script_gen tk config root job_id job start_stage parent_job_id
        parent_artifacts polished_text)"
  by (rule logs_stage [OF stage_script_gen_announces stage_script_gen_refuses])

lemma stage_video_submit_logs:
  "logs job_id
     (\<lambda>r evs. \<exists>run. should_run_stage start_stage VIDEO_SUBMIT = Inr run
                  \<and> evs = [(job_id, status_value VIDEO_SUBMIT, stage_message config task_id VIDEO_SUBMIT run)])
     (stage_video_submit tk config root job_id job start_stage parent_job_id parent_meta
        script_payload source_meta)"
  by (rule logs_stage [OF stage_video_submit_announces stage_video_submit_refuses])

lemma stage_video_polling_logs:
  "logs job_id
     (\<lambda>r evs. \<exists>run. should_run_stage start_stage VIDEO_POLLING = Inr run
                  \<and> evs = [(job_id, status_value VIDEO_POLLING, stage_message config task_id VIDEO_POLLING run)])
     (stage_video_polling tk root job_id start_stage parent_job_id parent_artifacts
        task_id)"
  by (rule logs_stage [OF stage_video_polling_announces stage_video_polling_refuses])

lemma stage_message_if:
  "stage_message config task_id st run =
     (if \<not> run then MsgSkip st
      else if st = TRANSCRIPT_POLISH
      then (if cfg_enable_asr_polish config then MsgRun TRANSCRIPT_POLISH else MsgPolishDisabled)
      else if st = VIDEO_POLLING then MsgPolling task_id
      else MsgRun st)"
  by (cases run; cases st; simp)

lemma run_job_logs:
  "logs job_id
     (\<lambda>r evs. \<exists>task_id.
        evs = rerun_notice job_id job
              @ map (\<lambda>st. stage_event config task_id job_id st
                            (should_run_stage (job_start_stage job) st = Inr True))
                  STAGE_SEQUENCE
              @ [(job_id, status_value COMPLETED, MsgCompleted)])
     (run_job tk config root job_id job)"
  unfolding run_job_def
  apply (rule logs_weaken)
   apply (rule logs_then_do [OF logs_quiet [OF quiet_clear_error]])
   apply (rule logs_then_do [OF load_lineage_logs])
   apply (rule logs_case_prod)
   apply (rule logs_case_prod)
   apply (rule logs_case_prod)
   apply (rule logs_then_do [OF logs_quiet [OF quiet_require_source]])
   apply (rule logs_then_do [OF logs_quiet])
    apply (intro quiet_intros)
   apply (rule logs_then_do [OF logs_quiet [OF quiet_save_artifact]])
   apply (rule logs_then_do [OF stage_preprocessing_logs [where config = config and task_id = "[]"]])
   apply (rule logs_then_do [OF stage_asr_logs [where config = config and task_id = "[]"]])
   apply (rule logs_then_do [OF stage_transcript_polish_logs [where task_id = "[]"]])
   apply (rule logs_then_do [OF stage_script_gen_logs [where task_id = "[]"]])
   apply (rule logs_then_do [OF stage_video_submit_logs [where task_id = "[]"]])
   apply (rule logs_then_do [OF stage_video_polling_logs [where config = config]])
   apply (rule logs_then_do
      [OF logs_announces [OF stage_postprocess_announces [where config = config and task_id = "[]"]]])
   apply (rule set_job_status_logs)
  apply (clarsimp simp: stage_event_def STAGE_SEQUENCE_def stage_message_if
      should_run_postprocess [OF job_start_stage_in_sequence])
  apply blast
  done

subsection \<open>The events of the blocks and of a run\<close>

lemma announces_events:
  "announces j st msg m \<Longrightarrow> jobs w j \<noteq> None \<Longrightarrow>
   events (snd (m w)) = events w @ [(j, status_value st, msg)]"
  by (simp add: announces_def)

lemma execute_job_completed:
  fixes w :: world
  assumes stored: "jobs w job_id = Some job"
    and ok: "fst (execute_job tk config root job_id w) = None"
  shows "\<exists>task_id.
           events (snd (execute_job tk config root job_id w))
           = events w @ rerun_notice job_id job
             @ map (\<lambda>st. stage_event config task_id job_id st
                           (should_run_stage (job_start_stage job) st = Inr True))
                 STAGE_SEQUENCE
             @ [(job_id, status_value COMPLETED, MsgCompleted)]"
proof -
  obtain res w1 where r: "run_job tk config root job_id job w = (res, w1)"
    by (cases "run_job tk config root job_id job w") auto
  show ?thesis
  proof (cases res)
    case (Inl e)
    with r stored ok show ?thesis by (simp add: execute_job_def)
  next
    case (Inr u)
    with r stored have e: "execute_job tk config root job_id w = (None, w1)"
      by (simp add: execute_job_def)
    from run_job_logs [of job_id job config tk root, unfolded logs_def] stored r Inr
    have "\<exists>evs. events w1 = events w @ evs
            \<and> (\<exists>task_id. evs = rerun_notice job_id job
                 @ map (\<lambda>st. stage_event config task_id job_id st
                               (should_run_stage (job_start_stage job) st = Inr True))
                     STAGE_SEQUENCE
                 @ [(job_id, status_value COMPLETED, MsgCompleted)])"
      by (auto dest!: spec [of _ w])
    with e show ?thesis by auto
  qed
qed

lemma execute_job_failed:
  fixes w :: world
  assumes stored: "jobs w job_id = Some job"
    and bad: "fst (run_job tk config root job_id job w) = Inl e"
  shows "fst (execute_job tk config root job_id w) = Some e
         \<and> (\<exists>failed. jobs (snd (execute_job tk config root job_id w)) job_id = Some failed
               \<and> job_status failed = status_value FAILED
               \<and> job_error_message failed = Some e)
         \<and> last (events (snd (execute_job tk config root job_id w)))
             = (job_id, status_value FAILED, MsgFailed e)"
proof -
  obtain res w1 where r: "run_job tk config root job_id job w = (res, w1)"
    by (cases "run_job tk config root job_id job w") auto
  with bad have res: "res = Inl e" by simp
  from run_job_logs [of job_id job config tk root, unfolded logs_def] stored r
  have "jobs w1 job_id \<noteq> None" by (auto dest!: spec [of _ w])
  then obtain job1 where j1: "jobs w1 job_id = Some job1" by auto
  from r res stored
  have "execute_job tk config root job_id w = (Some e, snd (set_job_error job_id e w1))"
    by (simp add: execute_job_def)
  with j1 show ?thesis by (simp add: set_job_error_def)
qed




end
